theory Spec2Isabelle
  imports Main "HOL-Library.Word"
begin

unbundle bit_operations_syntax

section \<open>Machine types\<close>

text \<open>
  The driver is \<^verbatim>\<open>drivers/dma/fsl-edma.c\<close>. Its fixed-width kernel types are words. The
  device trees of the repository describe the S32 Gen1 (aarch64) platform, so
  \<^verbatim>\<open>size_t\<close> and \<^verbatim>\<open>dma_addr_t\<close> are 64 bits wide; \<^verbatim>\<open>unsigned int\<close>
  and the enums are 32 bits wide.
\<close>

type_synonym u8 = "8 word"
type_synonym u16 = "16 word"
type_synonym u32 = "32 word"
type_synonym u64 = "64 word"
type_synonym dma_addr_t = "64 word"
type_synonym size_t = "64 word"

text \<open>
  What a C operation does where the language leaves it undefined and the kernel stops:
  reading through a null pointer, dividing by zero, indexing past an array.
\<close>

datatype fault = NULL_DEREF | DIV_BY_ZERO | OUT_OF_BOUNDS

section \<open>Byte order of the CPU and of memory\<close>

text \<open>
  The kernel's \<^verbatim>\<open>cpu_to_le32\<close>, \<^verbatim>\<open>le32_to_cpu\<close> and their 16-bit forms are not
  part of the driver file. They are the identity on a little-endian CPU and a byte swap on
  a big-endian one, so the CPU's byte order is a parameter. A \<^verbatim>\<open>__le32\<close> field is
  modelled by the four bytes it occupies in memory, lowest address first; \<open>store32\<close> and
  \<open>load32\<close> are the CPU's own 32-bit store and load.
\<close>

datatype host_endian = CPU_LITTLE_ENDIAN | CPU_BIG_ENDIAN

type_synonym mem16 = "u8 \<times> u8"
type_synonym mem32 = "u8 \<times> u8 \<times> u8 \<times> u8"

definition store16 :: "host_endian \<Rightarrow> u16 \<Rightarrow> mem16" where
  "store16 h x = (case h of
      CPU_LITTLE_ENDIAN \<Rightarrow> (ucast x, ucast (drop_bit 8 x))
    | CPU_BIG_ENDIAN \<Rightarrow> (ucast (drop_bit 8 x), ucast x))"

definition load16 :: "host_endian \<Rightarrow> mem16 \<Rightarrow> u16" where
  "load16 h m = (case m of (b0, b1) \<Rightarrow> (case h of
      CPU_LITTLE_ENDIAN \<Rightarrow> ucast b0 OR push_bit 8 (ucast b1)
    | CPU_BIG_ENDIAN \<Rightarrow> ucast b1 OR push_bit 8 (ucast b0)))"

definition store32 :: "host_endian \<Rightarrow> u32 \<Rightarrow> mem32" where
  "store32 h x = (case h of
      CPU_LITTLE_ENDIAN \<Rightarrow>
        (ucast x, ucast (drop_bit 8 x), ucast (drop_bit 16 x), ucast (drop_bit 24 x))
    | CPU_BIG_ENDIAN \<Rightarrow>
        (ucast (drop_bit 24 x), ucast (drop_bit 16 x), ucast (drop_bit 8 x), ucast x))"

definition load32 :: "host_endian \<Rightarrow> mem32 \<Rightarrow> u32" where
  "load32 h m = (case m of (b0, b1, b2, b3) \<Rightarrow> (case h of
      CPU_LITTLE_ENDIAN \<Rightarrow>
        ucast b0 OR push_bit 8 (ucast b1) OR push_bit 16 (ucast b2) OR push_bit 24 (ucast b3)
    | CPU_BIG_ENDIAN \<Rightarrow>
        ucast b3 OR push_bit 8 (ucast b2) OR push_bit 16 (ucast b1) OR push_bit 24 (ucast b0)))"

text \<open>A byte swap is a little-endian store read back big-endian.\<close>

definition swab16 :: "u16 \<Rightarrow> u16" where
  "swab16 x = load16 CPU_BIG_ENDIAN (store16 CPU_LITTLE_ENDIAN x)"

definition swab32 :: "u32 \<Rightarrow> u32" where
  "swab32 x = load32 CPU_BIG_ENDIAN (store32 CPU_LITTLE_ENDIAN x)"

definition cpu_to_le16 :: "host_endian \<Rightarrow> u16 \<Rightarrow> u16" where
  "cpu_to_le16 h x = (case h of CPU_LITTLE_ENDIAN \<Rightarrow> x | CPU_BIG_ENDIAN \<Rightarrow> swab16 x)"

definition le16_to_cpu :: "host_endian \<Rightarrow> u16 \<Rightarrow> u16" where
  "le16_to_cpu h x = (case h of CPU_LITTLE_ENDIAN \<Rightarrow> x | CPU_BIG_ENDIAN \<Rightarrow> swab16 x)"

definition cpu_to_le32 :: "host_endian \<Rightarrow> u32 \<Rightarrow> u32" where
  "cpu_to_le32 h x = (case h of CPU_LITTLE_ENDIAN \<Rightarrow> x | CPU_BIG_ENDIAN \<Rightarrow> swab32 x)"

definition le32_to_cpu :: "host_endian \<Rightarrow> u32 \<Rightarrow> u32" where
  "le32_to_cpu h x = (case h of CPU_LITTLE_ENDIAN \<Rightarrow> x | CPU_BIG_ENDIAN \<Rightarrow> swab32 x)"

section \<open>The transfer control descriptor\<close>

text \<open>
  \<^verbatim>\<open>struct fsl_edma_tcd\<close>: every field is \<^verbatim>\<open>__le32\<close> or \<^verbatim>\<open>__le16\<close>, held here
  as its bytes in memory.
\<close>

record fsl_edma_tcd =
  saddr :: mem32
  soff :: mem16
  attr :: mem16
  nbytes :: mem32
  slast :: mem32
  daddr :: mem32
  doff :: mem16
  citer :: mem16
  dlast_sga :: mem32
  csr :: mem16
  biter :: mem16

definition EDMA_TCD_CSR_INT_MAJOR :: u16 where "EDMA_TCD_CSR_INT_MAJOR = 0x0002"
definition EDMA_TCD_CSR_D_REQ :: u16 where "EDMA_TCD_CSR_D_REQ = 0x0008"
definition EDMA_TCD_CSR_E_SG :: u16 where "EDMA_TCD_CSR_E_SG = 0x0010"

definition EDMA_TCD_CITER_CITER :: "u16 \<Rightarrow> u16" where
  "EDMA_TCD_CITER_CITER x = x AND 0x7FFF"

definition EDMA_TCD_BITER_BITER :: "u16 \<Rightarrow> u16" where
  "EDMA_TCD_BITER_BITER x = x AND 0x7FFF"

text \<open>
  \<^verbatim>\<open>fsl_edma_fill_tcd\<close>. The C function writes through the pointer \<^verbatim>\<open>tcd\<close>; here it
  returns the block it wrote. The parameters that share a name with a field carry a prime.
\<close>

definition fsl_edma_fill_tcd ::
  "host_endian \<Rightarrow> fsl_edma_tcd \<Rightarrow> u32 \<Rightarrow> u32 \<Rightarrow> u16 \<Rightarrow> u16 \<Rightarrow> u32 \<Rightarrow> u32 \<Rightarrow> u16 \<Rightarrow> u16 \<Rightarrow> u16 \<Rightarrow> u32
     \<Rightarrow> bool \<Rightarrow> bool \<Rightarrow> bool \<Rightarrow> fsl_edma_tcd" where
  "fsl_edma_fill_tcd h tcd src dst attr' soff' nbytes' slast' citer' biter' doff' dlast_sga'
      major_int disable_req enable_sg =
    (let csr0 = (0 :: u16);
         tcd = tcd\<lparr>saddr := store32 h (cpu_to_le32 h src)\<rparr>;
         tcd = tcd\<lparr>daddr := store32 h (cpu_to_le32 h dst)\<rparr>;
         tcd = tcd\<lparr>attr := store16 h (cpu_to_le16 h attr')\<rparr>;
         tcd = tcd\<lparr>soff := store16 h (cpu_to_le16 h soff')\<rparr>;
         tcd = tcd\<lparr>nbytes := store32 h (cpu_to_le32 h nbytes')\<rparr>;
         tcd = tcd\<lparr>slast := store32 h (cpu_to_le32 h slast')\<rparr>;
         tcd = tcd\<lparr>citer := store16 h (cpu_to_le16 h (EDMA_TCD_CITER_CITER citer'))\<rparr>;
         tcd = tcd\<lparr>doff := store16 h (cpu_to_le16 h doff')\<rparr>;
         tcd = tcd\<lparr>dlast_sga := store32 h (cpu_to_le32 h dlast_sga')\<rparr>;
         tcd = tcd\<lparr>biter := store16 h (cpu_to_le16 h (EDMA_TCD_BITER_BITER biter'))\<rparr>;
         csr1 = (if major_int then csr0 OR EDMA_TCD_CSR_INT_MAJOR else csr0);
         csr2 = (if disable_req then csr1 OR EDMA_TCD_CSR_D_REQ else csr1);
         csr3 = (if enable_sg then csr2 OR EDMA_TCD_CSR_E_SG else csr2)
     in tcd\<lparr>csr := store16 h (cpu_to_le16 h csr3)\<rparr>)"

text \<open>
  Reading a stored descriptor back. The driver reads every field as
  \<^verbatim>\<open>le32_to_cpu(tcd->f)\<close> or \<^verbatim>\<open>le16_to_cpu(tcd->f)\<close> (\<^verbatim>\<open>fsl_edma_set_tcd_regs\<close>,
  \<^verbatim>\<open>fsl_edma_desc_residue\<close>); the three flags are the bits of \<^verbatim>\<open>csr\<close> that
  \<^verbatim>\<open>fsl_edma_fill_tcd\<close> sets.
\<close>

definition tcd_saddr :: "host_endian \<Rightarrow> fsl_edma_tcd \<Rightarrow> u32" where
  "tcd_saddr h t = le32_to_cpu h (load32 h (saddr t))"
definition tcd_daddr :: "host_endian \<Rightarrow> fsl_edma_tcd \<Rightarrow> u32" where
  "tcd_daddr h t = le32_to_cpu h (load32 h (daddr t))"
definition tcd_attr :: "host_endian \<Rightarrow> fsl_edma_tcd \<Rightarrow> u16" where
  "tcd_attr h t = le16_to_cpu h (load16 h (attr t))"
definition tcd_soff :: "host_endian \<Rightarrow> fsl_edma_tcd \<Rightarrow> u16" where
  "tcd_soff h t = le16_to_cpu h (load16 h (soff t))"
definition tcd_nbytes :: "host_endian \<Rightarrow> fsl_edma_tcd \<Rightarrow> u32" where
  "tcd_nbytes h t = le32_to_cpu h (load32 h (nbytes t))"
definition tcd_slast :: "host_endian \<Rightarrow> fsl_edma_tcd \<Rightarrow> u32" where
  "tcd_slast h t = le32_to_cpu h (load32 h (slast t))"
definition tcd_citer :: "host_endian \<Rightarrow> fsl_edma_tcd \<Rightarrow> u16" where
  "tcd_citer h t = le16_to_cpu h (load16 h (citer t))"
definition tcd_biter :: "host_endian \<Rightarrow> fsl_edma_tcd \<Rightarrow> u16" where
  "tcd_biter h t = le16_to_cpu h (load16 h (biter t))"
definition tcd_doff :: "host_endian \<Rightarrow> fsl_edma_tcd \<Rightarrow> u16" where
  "tcd_doff h t = le16_to_cpu h (load16 h (doff t))"
definition tcd_dlast_sga :: "host_endian \<Rightarrow> fsl_edma_tcd \<Rightarrow> u32" where
  "tcd_dlast_sga h t = le32_to_cpu h (load32 h (dlast_sga t))"
definition tcd_csr :: "host_endian \<Rightarrow> fsl_edma_tcd \<Rightarrow> u16" where
  "tcd_csr h t = le16_to_cpu h (load16 h (csr t))"

record tcd_fields =
  f_src :: u32
  f_dst :: u32
  f_attr :: u16
  f_soff :: u16
  f_nbytes :: u32
  f_slast :: u32
  f_citer :: u16
  f_biter :: u16
  f_doff :: u16
  f_dlast_sga :: u32
  f_major_int :: bool
  f_disable_req :: bool
  f_enable_sg :: bool

definition tcd_decode :: "host_endian \<Rightarrow> fsl_edma_tcd \<Rightarrow> tcd_fields" where
  "tcd_decode h t =
    \<lparr>f_src = tcd_saddr h t, f_dst = tcd_daddr h t, f_attr = tcd_attr h t,
     f_soff = tcd_soff h t, f_nbytes = tcd_nbytes h t, f_slast = tcd_slast h t,
     f_citer = tcd_citer h t, f_biter = tcd_biter h t, f_doff = tcd_doff h t,
     f_dlast_sga = tcd_dlast_sga h t,
     f_major_int = (tcd_csr h t AND EDMA_TCD_CSR_INT_MAJOR \<noteq> 0),
     f_disable_req = (tcd_csr h t AND EDMA_TCD_CSR_D_REQ \<noteq> 0),
     f_enable_sg = (tcd_csr h t AND EDMA_TCD_CSR_E_SG \<noteq> 0)\<rparr>"

section \<open>Memory-mapped registers\<close>

text \<open>
  The kernel's I/O accessors are not part of the driver file. A register block is a device,
  not memory: a read returns what the device holds (\<open>io_bytes\<close>, by bus address), and every
  write is recorded, oldest first, with the accessor that made it (\<open>io_writes\<close>).
\<close>

datatype io_write =
    IOWRITE8 u64 u8
  | IOWRITE16 u64 u16
  | IOWRITE16BE u64 u16
  | IOWRITE32 u64 u32
  | IOWRITE32BE u64 u32

record iomem =
  io_bytes :: "u64 \<Rightarrow> u8"
  io_writes :: "io_write list"

definition ioread32 :: "iomem \<Rightarrow> u64 \<Rightarrow> u32" where
  "ioread32 io a =
     load32 CPU_LITTLE_ENDIAN (io_bytes io a, io_bytes io (a + 1), io_bytes io (a + 2), io_bytes io (a + 3))"

definition ioread32be :: "iomem \<Rightarrow> u64 \<Rightarrow> u32" where
  "ioread32be io a =
     load32 CPU_BIG_ENDIAN (io_bytes io a, io_bytes io (a + 1), io_bytes io (a + 2), io_bytes io (a + 3))"

definition iowrite8 :: "u8 \<Rightarrow> u64 \<Rightarrow> iomem \<Rightarrow> iomem" where
  "iowrite8 val a io = io\<lparr>io_writes := io_writes io @ [IOWRITE8 a val]\<rparr>"

definition iowrite16 :: "u16 \<Rightarrow> u64 \<Rightarrow> iomem \<Rightarrow> iomem" where
  "iowrite16 val a io = io\<lparr>io_writes := io_writes io @ [IOWRITE16 a val]\<rparr>"

definition iowrite16be :: "u16 \<Rightarrow> u64 \<Rightarrow> iomem \<Rightarrow> iomem" where
  "iowrite16be val a io = io\<lparr>io_writes := io_writes io @ [IOWRITE16BE a val]\<rparr>"

definition iowrite32 :: "u32 \<Rightarrow> u64 \<Rightarrow> iomem \<Rightarrow> iomem" where
  "iowrite32 val a io = io\<lparr>io_writes := io_writes io @ [IOWRITE32 a val]\<rparr>"

definition iowrite32be :: "u32 \<Rightarrow> u64 \<Rightarrow> iomem \<Rightarrow> iomem" where
  "iowrite32be val a io = io\<lparr>io_writes := io_writes io @ [IOWRITE32BE a val]\<rparr>"

section \<open>Descriptors, channels and the engine\<close>

datatype dma_transfer_direction =
  DMA_MEM_TO_MEM | DMA_MEM_TO_DEV | DMA_DEV_TO_MEM | DMA_DEV_TO_DEV | DMA_TRANS_NONE

datatype dma_status = DMA_COMPLETE | DMA_IN_PROGRESS | DMA_PAUSED | DMA_ERROR

datatype fsl_edma_pm_state = RUNNING | SUSPENDED

definition is_slave_direction :: "dma_transfer_direction \<Rightarrow> bool" where
  "is_slave_direction direction = (direction = DMA_MEM_TO_DEV \<or> direction = DMA_DEV_TO_MEM)"

text \<open>
  \<^verbatim>\<open>struct fsl_edma_sw_tcd\<close>: the bus address of a pool block and the block itself
  (\<open>vtcd\<close> is the block the C pointer points to).
\<close>

record fsl_edma_sw_tcd =
  ptcd :: dma_addr_t
  vtcd :: fsl_edma_tcd

text \<open>
  \<^verbatim>\<open>struct fsl_edma_desc\<close>. \<open>cookie\<close> is \<^verbatim>\<open>vdesc.tx.cookie\<close>; the back pointer
  \<^verbatim>\<open>echan\<close> is the channel whose queues hold the descriptor. \<open>tcd\<close> is the flexible array
  \<^verbatim>\<open>tcd[]\<close>, \<open>n_tcds\<close> the count the C code keeps beside it.
\<close>

record fsl_edma_desc =
  cookie :: nat
  iscyclic :: bool
  cyclic_len :: u32
  n_tcds :: u32
  tcd :: "fsl_edma_sw_tcd list"

record fsl_edma_slave_config =
  dir :: dma_transfer_direction
  addr_width :: u32
  dev_addr :: u32
  burst :: u32
  fsc_attr :: u32

text \<open>
  \<^verbatim>\<open>struct virt_dma_chan\<close> with the fields of its \<^verbatim>\<open>struct dma_chan\<close> that the driver
  reads: the channel number, the last cookie handed out and the last one completed; and the
  three queues of the virtual-channel library.
\<close>

record virt_dma_chan =
  chan_id :: u32
  chan_cookie :: nat
  completed_cookie :: nat
  desc_submitted :: "fsl_edma_desc list"
  desc_issued :: "fsl_edma_desc list"
  desc_completed :: "fsl_edma_desc list"

text \<open>
  \<^verbatim>\<open>struct fsl_edma_chan\<close>. \<open>edesc\<close> is a pointer in C: \<open>None\<close> is \<^verbatim>\<open>NULL\<close>. The back
  pointer \<^verbatim>\<open>edma\<close> is passed to every function as the engine. \<open>tcd_pool\<close> is the pool's free
  blocks, each with its bus address and whatever bytes it holds.
\<close>

record fsl_edma_chan =
  vchan :: virt_dma_chan
  status :: dma_status
  pm_state :: fsl_edma_pm_state
  idle :: bool
  slave_id :: u32
  edesc :: "fsl_edma_desc option"
  fsc :: fsl_edma_slave_config
  tcd_pool :: "fsl_edma_sw_tcd list"

datatype fsl_edma_ops_table = fsl_edma_ops | fsl_edma3_ops

datatype fsl_edma_soc_data = fsl_edma_s32gen1_data | fsl_edma_s32v234_data | fsl_edma_vf610_data

definition DMAMUX_NR :: nat where "DMAMUX_NR = 2"

text \<open>
  \<^verbatim>\<open>struct fsl_edma_engine\<close>. \<open>muxbase\<close> is the array \<^verbatim>\<open>muxbase[DMAMUX_NR]\<close>, read only
  below \<open>DMAMUX_NR\<close>.
\<close>

record fsl_edma_engine =
  membase :: u64
  muxbase :: "nat \<Rightarrow> u64"
  n_chans :: u32
  big_endian :: bool
  socdata :: fsl_edma_soc_data
  chans :: "fsl_edma_chan list"

definition soc_ops :: "fsl_edma_soc_data \<Rightarrow> fsl_edma_ops_table" where
  "soc_ops sd = (case sd of
      fsl_edma_s32gen1_data \<Rightarrow> fsl_edma3_ops
    | fsl_edma_s32v234_data \<Rightarrow> fsl_edma_ops
    | fsl_edma_vf610_data \<Rightarrow> fsl_edma_ops)"

section \<open>Register access\<close>

definition EDMA_CR :: u64 where "EDMA_CR = 0x00"
definition EDMA_SERQ :: u64 where "EDMA_SERQ = 0x1B"
definition EDMA_CERQ :: u64 where "EDMA_CERQ = 0x1A"
definition EDMA_SEEI :: u64 where "EDMA_SEEI = 0x19"
definition EDMA_CEEI :: u64 where "EDMA_CEEI = 0x18"
definition EDMA_CINT :: u64 where "EDMA_CINT = 0x1F"
definition EDMA_CERR :: u64 where "EDMA_CERR = 0x1E"
definition EDMA_INTR :: u64 where "EDMA_INTR = 0x24"
definition EDMA_ERR :: u64 where "EDMA_ERR = 0x2C"
definition EDMA3_MP_CSR :: u64 where "EDMA3_MP_CSR = 0x00"
definition EDMA3_MP_ES :: u64 where "EDMA3_MP_ES = 0x04"

text \<open>The per-channel offsets are computed on the 32-bit channel number, as the macros do.\<close>

definition EDMA_TCD :: "u32 \<Rightarrow> u32" where "EDMA_TCD ch = 0x1000 + 32 * ch"
definition EDMA3_CHn_CSR :: "u32 \<Rightarrow> u32" where "EDMA3_CHn_CSR ch = 0x4000 + ch * 0x1000"
definition EDMA3_CHn_ES :: "u32 \<Rightarrow> u32" where "EDMA3_CHn_ES ch = 0x4004 + ch * 0x1000"
definition EDMA3_CHn_INT :: "u32 \<Rightarrow> u32" where "EDMA3_CHn_INT ch = 0x4008 + ch * 0x1000"
definition EDMA3_TCD :: "u32 \<Rightarrow> u32" where "EDMA3_TCD ch = 0x4020 + 0x1000 * ch"

definition EDMA_CR_ERCA :: u32 where "EDMA_CR_ERCA = 0x4"
definition EDMA_CR_ERGA :: u32 where "EDMA_CR_ERGA = 0x8"
definition EDMA3_MP_CSR_ERCA :: u32 where "EDMA3_MP_CSR_ERCA = 0x4"
definition EDMA3_CHn_CSR_ERQ :: u32 where "EDMA3_CHn_CSR_ERQ = 0x1"
definition EDMA3_CHn_CSR_EEI :: u32 where "EDMA3_CHn_CSR_EEI = 0x4"
definition EDMA3_CHn_ES_ERR :: u32 where "EDMA3_CHn_ES_ERR = 0x80000000"
definition EDMA3_CHn_INT_INT :: u32 where "EDMA3_CHn_INT_INT = 0x1"

definition EDMA3_MP_ES_VLD :: "u32 \<Rightarrow> u32" where "EDMA3_MP_ES_VLD x = x AND 0x80000000"
definition EDMA_SEEI_SEEI :: "u32 \<Rightarrow> u32" where "EDMA_SEEI_SEEI x = x AND 0x1F"
definition EDMA_CEEI_CEEI :: "u32 \<Rightarrow> u32" where "EDMA_CEEI_CEEI x = x AND 0x1F"
definition EDMA_CINT_CINT :: "u32 \<Rightarrow> u32" where "EDMA_CINT_CINT x = x AND 0x1F"
definition EDMA_CERR_CERR :: "u32 \<Rightarrow> u32" where "EDMA_CERR_CERR x = x AND 0x1F"

text \<open>The offsets of the fields of \<^verbatim>\<open>struct fsl_edma_hw_tcd\<close>.\<close>

definition hw_tcd_saddr :: "u64 \<Rightarrow> u64" where "hw_tcd_saddr hw_tcd = hw_tcd + 0x00"
definition hw_tcd_soff :: "u64 \<Rightarrow> u64" where "hw_tcd_soff hw_tcd = hw_tcd + 0x04"
definition hw_tcd_attr :: "u64 \<Rightarrow> u64" where "hw_tcd_attr hw_tcd = hw_tcd + 0x06"
definition hw_tcd_nbytes :: "u64 \<Rightarrow> u64" where "hw_tcd_nbytes hw_tcd = hw_tcd + 0x08"
definition hw_tcd_slast :: "u64 \<Rightarrow> u64" where "hw_tcd_slast hw_tcd = hw_tcd + 0x0C"
definition hw_tcd_daddr :: "u64 \<Rightarrow> u64" where "hw_tcd_daddr hw_tcd = hw_tcd + 0x10"
definition hw_tcd_doff :: "u64 \<Rightarrow> u64" where "hw_tcd_doff hw_tcd = hw_tcd + 0x14"
definition hw_tcd_citer :: "u64 \<Rightarrow> u64" where "hw_tcd_citer hw_tcd = hw_tcd + 0x16"
definition hw_tcd_dlast_sga :: "u64 \<Rightarrow> u64" where "hw_tcd_dlast_sga hw_tcd = hw_tcd + 0x18"
definition hw_tcd_csr :: "u64 \<Rightarrow> u64" where "hw_tcd_csr hw_tcd = hw_tcd + 0x1C"
definition hw_tcd_biter :: "u64 \<Rightarrow> u64" where "hw_tcd_biter hw_tcd = hw_tcd + 0x1E"

definition edma_readl :: "fsl_edma_engine \<Rightarrow> iomem \<Rightarrow> u64 \<Rightarrow> u32" where
  "edma_readl edma io addr = (if big_endian edma then ioread32be io addr else ioread32 io addr)"

definition edma_writeb :: "fsl_edma_engine \<Rightarrow> u8 \<Rightarrow> u64 \<Rightarrow> iomem \<Rightarrow> iomem" where
  "edma_writeb edma val addr io =
     (if big_endian edma then iowrite8 val (addr XOR 0x3) io else iowrite8 val addr io)"

definition edma_writew :: "fsl_edma_engine \<Rightarrow> u16 \<Rightarrow> u64 \<Rightarrow> iomem \<Rightarrow> iomem" where
  "edma_writew edma val addr io =
     (if big_endian edma then iowrite16be val (addr XOR 0x2) io else iowrite16 val addr io)"

definition edma_writel :: "fsl_edma_engine \<Rightarrow> u32 \<Rightarrow> u64 \<Rightarrow> iomem \<Rightarrow> iomem" where
  "edma_writel edma val addr io =
     (if big_endian edma then iowrite32be val addr io else iowrite32 val addr io)"

definition fsl_edma_enable_request :: "fsl_edma_engine \<Rightarrow> fsl_edma_chan \<Rightarrow> iomem \<Rightarrow> iomem" where
  "fsl_edma_enable_request edma fsl_chan io =
    (let addr = membase edma;
         ch = chan_id (vchan fsl_chan);
         io = edma_writeb edma (ucast (EDMA_SEEI_SEEI ch)) (addr + EDMA_SEEI) io
     in edma_writeb edma (ucast ch) (addr + EDMA_SERQ) io)"

definition fsl_edma_disable_request :: "fsl_edma_engine \<Rightarrow> fsl_edma_chan \<Rightarrow> iomem \<Rightarrow> iomem" where
  "fsl_edma_disable_request edma fsl_chan io =
    (let addr = membase edma;
         ch = chan_id (vchan fsl_chan);
         io = edma_writeb edma (ucast ch) (addr + EDMA_CERQ) io
     in edma_writeb edma (ucast (EDMA_CEEI_CEEI ch)) (addr + EDMA_CEEI) io)"

definition fsl_edma3_enable_request :: "fsl_edma_engine \<Rightarrow> fsl_edma_chan \<Rightarrow> iomem \<Rightarrow> iomem" where
  "fsl_edma3_enable_request edma fsl_chan io =
    (let addr = membase edma;
         ch = chan_id (vchan fsl_chan)
     in edma_writel edma (EDMA3_CHn_CSR_ERQ OR EDMA3_CHn_CSR_EEI)
          (addr + ucast (EDMA3_CHn_CSR ch)) io)"

definition fsl_edma3_disable_request :: "fsl_edma_engine \<Rightarrow> fsl_edma_chan \<Rightarrow> iomem \<Rightarrow> iomem" where
  "fsl_edma3_disable_request edma fsl_chan io =
    (let addr = membase edma;
         ch = chan_id (vchan fsl_chan)
     in edma_writel edma 0 (addr + ucast (EDMA3_CHn_CSR ch)) io)"

definition fsl_edma_get_tcd_addr :: "fsl_edma_engine \<Rightarrow> fsl_edma_chan \<Rightarrow> u64" where
  "fsl_edma_get_tcd_addr edma fsl_chan =
    (let membase = membase edma; ch = chan_id (vchan fsl_chan)
     in ucast (EDMA_TCD ch) + membase)"

definition fsl_edma3_get_tcd_addr :: "fsl_edma_engine \<Rightarrow> fsl_edma_chan \<Rightarrow> u64" where
  "fsl_edma3_get_tcd_addr edma fsl_chan =
    (let membase = membase edma; ch = chan_id (vchan fsl_chan)
     in ucast (EDMA3_TCD ch) + membase)"

definition fsl_edma_enable_arbitration :: "fsl_edma_engine \<Rightarrow> iomem \<Rightarrow> iomem" where
  "fsl_edma_enable_arbitration edma io =
     edma_writel edma (EDMA_CR_ERGA OR EDMA_CR_ERCA) (membase edma + EDMA_CR) io"

definition fsl_edma3_enable_arbitration :: "fsl_edma_engine \<Rightarrow> iomem \<Rightarrow> iomem" where
  "fsl_edma3_enable_arbitration edma io =
     edma_writel edma EDMA3_MP_CSR_ERCA (membase edma + EDMA3_MP_CSR) io"

text \<open>The function pointers of \<^verbatim>\<open>struct fsl_edma_ops\<close>, by table.\<close>

definition edma_enable_request ::
  "fsl_edma_ops_table \<Rightarrow> fsl_edma_engine \<Rightarrow> fsl_edma_chan \<Rightarrow> iomem \<Rightarrow> iomem" where
  "edma_enable_request ops = (case ops of
      fsl_edma_ops \<Rightarrow> fsl_edma_enable_request | fsl_edma3_ops \<Rightarrow> fsl_edma3_enable_request)"

definition edma_disable_request ::
  "fsl_edma_ops_table \<Rightarrow> fsl_edma_engine \<Rightarrow> fsl_edma_chan \<Rightarrow> iomem \<Rightarrow> iomem" where
  "edma_disable_request ops = (case ops of
      fsl_edma_ops \<Rightarrow> fsl_edma_disable_request | fsl_edma3_ops \<Rightarrow> fsl_edma3_disable_request)"

definition edma_enable_arbitration ::
  "fsl_edma_ops_table \<Rightarrow> fsl_edma_engine \<Rightarrow> iomem \<Rightarrow> iomem" where
  "edma_enable_arbitration ops = (case ops of
      fsl_edma_ops \<Rightarrow> fsl_edma_enable_arbitration | fsl_edma3_ops \<Rightarrow> fsl_edma3_enable_arbitration)"

definition edma_get_tcd_addr ::
  "fsl_edma_ops_table \<Rightarrow> fsl_edma_engine \<Rightarrow> fsl_edma_chan \<Rightarrow> u64" where
  "edma_get_tcd_addr ops = (case ops of
      fsl_edma_ops \<Rightarrow> fsl_edma_get_tcd_addr | fsl_edma3_ops \<Rightarrow> fsl_edma3_get_tcd_addr)"

section \<open>The channel multiplexer\<close>

definition EDMAMUX_CHCFG_DIS :: u32 where "EDMAMUX_CHCFG_DIS = 0x0"
definition EDMAMUX_CHCFG_ENBL :: u32 where "EDMAMUX_CHCFG_ENBL = 0x80"
definition EDMAMUX_CHCFG_SOURCE :: "u32 \<Rightarrow> u32" where "EDMAMUX_CHCFG_SOURCE n = n AND 0x3F"

definition s32v234_mux_channel_mapping :: "u32 \<Rightarrow> u32" where
  "s32v234_mux_channel_mapping channel_id =
     4 * (channel_id div 4) + ((4 - channel_id mod 4) - 1)"

definition vf610_mux_channel_mapping :: "u32 \<Rightarrow> u32" where
  "vf610_mux_channel_mapping channel_id = channel_id"

definition mux_channel_mapping :: "fsl_edma_soc_data \<Rightarrow> u32 \<Rightarrow> u32" where
  "mux_channel_mapping sd = (case sd of
      fsl_edma_s32gen1_data \<Rightarrow> s32v234_mux_channel_mapping
    | fsl_edma_s32v234_data \<Rightarrow> s32v234_mux_channel_mapping
    | fsl_edma_vf610_data \<Rightarrow> vf610_mux_channel_mapping)"

text \<open>
  \<^verbatim>\<open>fsl_edma_chan_mux\<close>. The C code divides by \<^verbatim>\<open>chans_per_mux\<close> and indexes
  \<^verbatim>\<open>muxbase[]\<close> without a check; both are written out.
\<close>

definition fsl_edma_chan_mux ::
  "fsl_edma_engine \<Rightarrow> fsl_edma_chan \<Rightarrow> u32 \<Rightarrow> bool \<Rightarrow> iomem \<Rightarrow> fault + iomem" where
  "fsl_edma_chan_mux edma fsl_chan slot enable io =
    (let ch = chan_id (vchan fsl_chan);
         chans_per_mux = n_chans edma div (of_nat DMAMUX_NR)
     in if chans_per_mux = 0 then Inl DIV_BY_ZERO
        else
          let ch_off = mux_channel_mapping (socdata edma) (ch mod chans_per_mux)
          in if DMAMUX_NR \<le> unat (ch div chans_per_mux) then Inl OUT_OF_BOUNDS
             else
               let muxaddr = muxbase edma (unat (ch div chans_per_mux));
                   slot = EDMAMUX_CHCFG_SOURCE slot
               in if enable
                  then Inr (iowrite8 (ucast (EDMAMUX_CHCFG_ENBL OR slot)) (muxaddr + ucast ch_off) io)
                  else Inr (iowrite8 (ucast EDMAMUX_CHCFG_DIS) (muxaddr + ucast ch_off) io))"

section \<open>The virtual-channel library\<close>

text \<open>
  \<^verbatim>\<open>virt-dma.h\<close> and the cookie helpers of \<^verbatim>\<open>dmaengine.h\<close> are not among the
  sources. Each definition of this section is modelled from the spec: a FIFO of pending
  requests per channel (enqueue on submit, peek on promotion, take all on termination) and a
  monotonically increasing completion token.
\<close>

definition vchan_tx_prep :: "virt_dma_chan \<Rightarrow> fsl_edma_desc \<Rightarrow> fsl_edma_desc" where
  \<comment> \<open>Modelled from the spec: the descriptor is handed to the client, in no queue yet.\<close>
  "vchan_tx_prep vc vd = vd"

definition vchan_tx_submit :: "virt_dma_chan \<Rightarrow> fsl_edma_desc \<Rightarrow> nat \<times> virt_dma_chan" where
  \<comment> \<open>Modelled from the spec: enqueue on submit, under the next token.\<close>
  "vchan_tx_submit vc vd =
    (let c = Suc (chan_cookie vc)
     in (c, vc\<lparr>chan_cookie := c, desc_submitted := desc_submitted vc @ [vd\<lparr>cookie := c\<rparr>]\<rparr>))"

definition vchan_issue_pending :: "virt_dma_chan \<Rightarrow> bool \<times> virt_dma_chan" where
  \<comment> \<open>Modelled from the spec: the submitted requests join the issued queue; true when it is not empty.\<close>
  "vchan_issue_pending vc =
    (let vc = vc\<lparr>desc_issued := desc_issued vc @ desc_submitted vc, desc_submitted := []\<rparr>
     in (desc_issued vc \<noteq> [], vc))"

definition vchan_next_desc :: "virt_dma_chan \<Rightarrow> fsl_edma_desc option" where
  \<comment> \<open>Modelled from the spec: peek at the head of the issued queue.\<close>
  "vchan_next_desc vc = (case desc_issued vc of [] \<Rightarrow> None | vd # _ \<Rightarrow> Some vd)"

definition vchan_find_desc :: "virt_dma_chan \<Rightarrow> nat \<Rightarrow> fsl_edma_desc option" where
  \<comment> \<open>Modelled from the spec: the issued request that carries the token.\<close>
  "vchan_find_desc vc c = find (\<lambda>vd. cookie vd = c) (desc_issued vc)"

definition list_del :: "fsl_edma_desc \<Rightarrow> virt_dma_chan \<Rightarrow> virt_dma_chan" where
  \<comment> \<open>Modelled from the spec: the active request leaves the issued queue.\<close>
  "list_del vd vc = vc\<lparr>desc_issued := remove1 vd (desc_issued vc)\<rparr>"

definition vchan_cookie_complete :: "virt_dma_chan \<Rightarrow> fsl_edma_desc \<Rightarrow> virt_dma_chan" where
  \<comment> \<open>Modelled from the spec: the token is marked complete; the request waits for its callback.\<close>
  "vchan_cookie_complete vc vd =
     vc\<lparr>completed_cookie := cookie vd, desc_completed := desc_completed vc @ [vd\<lparr>cookie := 0\<rparr>]\<rparr>"

definition vchan_cyclic_callback :: "virt_dma_chan \<Rightarrow> fsl_edma_desc \<Rightarrow> virt_dma_chan" where
  \<comment> \<open>Modelled from the spec: the period callback is scheduled; no queue changes.\<close>
  "vchan_cyclic_callback vc vd = vc"

definition vchan_get_all_descriptors :: "virt_dma_chan \<Rightarrow> fsl_edma_desc list \<times> virt_dma_chan" where
  \<comment> \<open>Modelled from the spec: bulk take all.\<close>
  "vchan_get_all_descriptors vc =
     (desc_submitted vc @ desc_issued vc @ desc_completed vc,
      vc\<lparr>desc_submitted := [], desc_issued := [], desc_completed := []\<rparr>)"

record dma_tx_state =
  last :: nat
  used :: nat
  residue :: u32

definition dma_cookie_status ::
  "virt_dma_chan \<Rightarrow> nat \<Rightarrow> dma_tx_state option \<Rightarrow> dma_status \<times> dma_tx_state option" where
  \<comment> \<open>Modelled from the spec: a token is complete once the completed token has reached it.\<close>
  "dma_cookie_status vc c state =
    (let state = (case state of None \<Rightarrow> None
                  | Some st \<Rightarrow> Some (st\<lparr>last := completed_cookie vc, used := chan_cookie vc, residue := 0\<rparr>))
     in (if c \<le> completed_cookie vc \<or> chan_cookie vc < c then DMA_COMPLETE else DMA_IN_PROGRESS,
         state))"

section \<open>Channel control\<close>

definition fsl_edma_get_tcd_attr :: "u32 \<Rightarrow> u32" where
  "fsl_edma_get_tcd_attr aw =
    (if aw = 1 then 0x0000 OR 0x0000
     else if aw = 2 then 0x0100 OR 0x0001
     else if aw = 4 then 0x0200 OR 0x0002
     else if aw = 8 then 0x0300 OR 0x0003
     else 0x0200 OR 0x0002)"

text \<open>
  \<^verbatim>\<open>fsl_edma_free_desc\<close>: every block of the descriptor goes back to the channel's pool
  (modelled from the spec: the pool takes a freed block back).
\<close>

definition fsl_edma_free_desc :: "fsl_edma_desc \<Rightarrow> fsl_edma_chan \<Rightarrow> fsl_edma_chan" where
  "fsl_edma_free_desc fsl_desc fsl_chan =
     fsl_chan\<lparr>tcd_pool := tcd_pool fsl_chan @ take (unat (n_tcds fsl_desc)) (tcd fsl_desc)\<rparr>"

definition vchan_dma_desc_free_list :: "fsl_edma_desc list \<Rightarrow> fsl_edma_chan \<Rightarrow> fsl_edma_chan" where
  \<comment> \<open>Modelled from the spec: each request taken is freed through the channel's \<^verbatim>\<open>desc_free\<close>.\<close>
  "vchan_dma_desc_free_list head fsl_chan = fold fsl_edma_free_desc head fsl_chan"

definition fsl_edma_terminate_all ::
  "fsl_edma_engine \<Rightarrow> iomem \<Rightarrow> fsl_edma_chan \<Rightarrow> int \<times> iomem \<times> fsl_edma_chan" where
  "fsl_edma_terminate_all edma io fsl_chan =
    (let io = edma_disable_request (soc_ops (socdata edma)) edma fsl_chan io;
         fsl_chan = fsl_chan\<lparr>edesc := None\<rparr>;
         fsl_chan = fsl_chan\<lparr>idle := True\<rparr>;
         (head, vc) = vchan_get_all_descriptors (vchan fsl_chan);
         fsl_chan = fsl_chan\<lparr>vchan := vc\<rparr>;
         fsl_chan = vchan_dma_desc_free_list head fsl_chan
     in (0, io, fsl_chan))"

definition fsl_edma_pause ::
  "fsl_edma_engine \<Rightarrow> iomem \<Rightarrow> fsl_edma_chan \<Rightarrow> int \<times> iomem \<times> fsl_edma_chan" where
  "fsl_edma_pause edma io fsl_chan =
    (if edesc fsl_chan \<noteq> None
     then let io = edma_disable_request (soc_ops (socdata edma)) edma fsl_chan io;
              fsl_chan = fsl_chan\<lparr>status := DMA_PAUSED\<rparr>;
              fsl_chan = fsl_chan\<lparr>idle := True\<rparr>
          in (0, io, fsl_chan)
     else (0, io, fsl_chan))"

definition fsl_edma_resume ::
  "fsl_edma_engine \<Rightarrow> iomem \<Rightarrow> fsl_edma_chan \<Rightarrow> int \<times> iomem \<times> fsl_edma_chan" where
  "fsl_edma_resume edma io fsl_chan =
    (if edesc fsl_chan \<noteq> None
     then let io = edma_enable_request (soc_ops (socdata edma)) edma fsl_chan io;
              fsl_chan = fsl_chan\<lparr>status := DMA_IN_PROGRESS\<rparr>;
              fsl_chan = fsl_chan\<lparr>idle := False\<rparr>
          in (0, io, fsl_chan)
     else (0, io, fsl_chan))"

text \<open>\<^verbatim>\<open>struct dma_slave_config\<close>, the fields the driver reads.\<close>

record dma_slave_config =
  direction :: dma_transfer_direction
  src_addr :: dma_addr_t
  dst_addr :: dma_addr_t
  src_addr_width :: u32
  dst_addr_width :: u32
  src_maxburst :: u32
  dst_maxburst :: u32

definition EINVAL :: int where "EINVAL = 22"

text \<open>
  \<^verbatim>\<open>fsl_edma_slave_config\<close>. The field \<^verbatim>\<open>attr\<close> of \<^verbatim>\<open>struct fsl_edma_slave_config\<close>
  is \<open>fsc_attr\<close> here (the descriptor has a field \<open>attr\<close> of its own).
\<close>

definition fsl_edma_slave_config ::
  "fsl_edma_chan \<Rightarrow> dma_slave_config \<Rightarrow> int \<times> fsl_edma_chan" where
  "fsl_edma_slave_config fsl_chan cfg =
    (let fsl_chan = fsl_chan\<lparr>fsc := (fsc fsl_chan)\<lparr>dir := direction cfg\<rparr>\<rparr>
     in if direction cfg = DMA_DEV_TO_MEM
        then let fsl_chan = fsl_chan\<lparr>fsc := (fsc fsl_chan)\<lparr>dev_addr := ucast (src_addr cfg)\<rparr>\<rparr>;
                 fsl_chan = fsl_chan\<lparr>fsc := (fsc fsl_chan)\<lparr>addr_width := src_addr_width cfg\<rparr>\<rparr>;
                 fsl_chan = fsl_chan\<lparr>fsc := (fsc fsl_chan)\<lparr>burst := src_maxburst cfg\<rparr>\<rparr>;
                 fsl_chan = fsl_chan\<lparr>fsc := (fsc fsl_chan)
                              \<lparr>fsc_attr := fsl_edma_get_tcd_attr (src_addr_width cfg)\<rparr>\<rparr>
             in (0, fsl_chan)
        else if direction cfg = DMA_MEM_TO_DEV
        then let fsl_chan = fsl_chan\<lparr>fsc := (fsc fsl_chan)\<lparr>dev_addr := ucast (dst_addr cfg)\<rparr>\<rparr>;
                 fsl_chan = fsl_chan\<lparr>fsc := (fsc fsl_chan)\<lparr>addr_width := dst_addr_width cfg\<rparr>\<rparr>;
                 fsl_chan = fsl_chan\<lparr>fsc := (fsc fsl_chan)\<lparr>burst := dst_maxburst cfg\<rparr>\<rparr>;
                 fsl_chan = fsl_chan\<lparr>fsc := (fsc fsl_chan)
                              \<lparr>fsc_attr := fsl_edma_get_tcd_attr (dst_addr_width cfg)\<rparr>\<rparr>
             in (0, fsl_chan)
        else (- EINVAL, fsl_chan))"

section \<open>Residue\<close>

text \<open>
  The first loop of \<^verbatim>\<open>fsl_edma_desc_residue\<close>. The product of a \<^verbatim>\<open>u32\<close> and a
  \<^verbatim>\<open>u16\<close> is a 32-bit product in C; it is widened when added to \<^verbatim>\<open>len\<close>.
\<close>

fun residue_total :: "host_endian \<Rightarrow> fsl_edma_sw_tcd list \<Rightarrow> size_t \<Rightarrow> size_t" where
  "residue_total h [] len = len"
| "residue_total h (t # ts) len =
     residue_total h ts (len + ucast (tcd_nbytes h (vtcd t) * ucast (tcd_biter h (vtcd t))))"

text \<open>The second loop, with its \<^verbatim>\<open>break\<close>.\<close>

fun residue_scan ::
  "host_endian \<Rightarrow> dma_transfer_direction \<Rightarrow> dma_addr_t \<Rightarrow> fsl_edma_sw_tcd list \<Rightarrow> size_t \<Rightarrow> size_t" where
  "residue_scan h dirn cur_addr [] len = len"
| "residue_scan h dirn cur_addr (t # ts) len =
    (let size = (ucast (tcd_nbytes h (vtcd t) * ucast (tcd_biter h (vtcd t))) :: size_t);
         dma_addr = (if dirn = DMA_MEM_TO_DEV then ucast (tcd_saddr h (vtcd t))
                     else ucast (tcd_daddr h (vtcd t)) :: dma_addr_t);
         len = len - size
     in if dma_addr \<le> cur_addr \<and> cur_addr < dma_addr + size
        then len + (dma_addr + size - cur_addr)
        else residue_scan h dirn cur_addr ts len)"

text \<open>
  \<^verbatim>\<open>fsl_edma_desc_residue\<close>. The C function never reads its parameter \<^verbatim>\<open>vdesc\<close>: it works
  on \<^verbatim>\<open>fsl_chan->edesc\<close> throughout, and reads through that pointer without a check. In the
  cyclic branch it reads \<^verbatim>\<open>tcd[0].vtcd->saddr\<close> as the CPU loads it, with no
  \<^verbatim>\<open>le32_to_cpu\<close>.
\<close>

definition fsl_edma_desc_residue ::
  "host_endian \<Rightarrow> fsl_edma_engine \<Rightarrow> iomem \<Rightarrow> fsl_edma_chan \<Rightarrow> fsl_edma_desc option \<Rightarrow> bool
     \<Rightarrow> fault + size_t" where
  "fsl_edma_desc_residue h edma io fsl_chan vdesc in_progress =
    (let hw_tcd = edma_get_tcd_addr (soc_ops (socdata edma)) edma fsl_chan;
         dirn = dir (fsc fsl_chan)
     in case edesc fsl_chan of
          None \<Rightarrow> Inl NULL_DEREF
        | Some ed \<Rightarrow>
            let len = (if iscyclic ed then ucast (cyclic_len ed)
                       else residue_total h (take (unat (n_tcds ed)) (tcd ed)) 0)
            in if \<not> in_progress then Inr len
               else
                 let cur_addr = (if dirn = DMA_MEM_TO_DEV
                                 then ucast (edma_readl edma io (hw_tcd_saddr hw_tcd))
                                 else ucast (edma_readl edma io (hw_tcd_daddr hw_tcd)) :: dma_addr_t)
                 in if iscyclic ed
                    then (case tcd ed of
                            [] \<Rightarrow> Inl OUT_OF_BOUNDS
                          | t0 # _ \<Rightarrow> Inr (len - (cur_addr - ucast (load32 h (saddr (vtcd t0))))))
                    else Inr (residue_scan h dirn cur_addr (take (unat (n_tcds ed)) (tcd ed)) len))"

definition fsl_edma_tx_status ::
  "host_endian \<Rightarrow> fsl_edma_engine \<Rightarrow> iomem \<Rightarrow> fsl_edma_chan \<Rightarrow> nat \<Rightarrow> dma_tx_state option
     \<Rightarrow> fault + (dma_status \<times> dma_tx_state option)" where
  "fsl_edma_tx_status h edma io fsl_chan c txstate =
    (case dma_cookie_status (vchan fsl_chan) c txstate of (st, txstate) \<Rightarrow>
       if st = DMA_COMPLETE then Inr (st, txstate)
       else case txstate of
              None \<Rightarrow> Inr (status fsl_chan, None)
            | Some ts \<Rightarrow>
                let vdesc = vchan_find_desc (vchan fsl_chan) c;
                    r = (if (case edesc fsl_chan of None \<Rightarrow> False | Some ed \<Rightarrow> c = cookie ed)
                         then fsl_edma_desc_residue h edma io fsl_chan vdesc True
                         else if vdesc \<noteq> None
                         then fsl_edma_desc_residue h edma io fsl_chan vdesc False
                         else Inr 0)
                in case r of
                     Inl f \<Rightarrow> Inl f
                   | Inr len \<Rightarrow> Inr (status fsl_chan, Some (ts\<lparr>residue := ucast len\<rparr>)))"

section \<open>Loading a descriptor into the channel's registers\<close>

definition fsl_edma_set_tcd_regs ::
  "host_endian \<Rightarrow> fsl_edma_engine \<Rightarrow> fsl_edma_chan \<Rightarrow> fsl_edma_tcd \<Rightarrow> iomem \<Rightarrow> iomem" where
  "fsl_edma_set_tcd_regs h edma fsl_chan t io =
    (let hw_tcd = edma_get_tcd_addr (soc_ops (socdata edma)) edma fsl_chan;
         io = edma_writew edma 0 (hw_tcd_csr hw_tcd) io;
         io = edma_writel edma (le32_to_cpu h (load32 h (saddr t))) (hw_tcd_saddr hw_tcd) io;
         io = edma_writel edma (le32_to_cpu h (load32 h (daddr t))) (hw_tcd_daddr hw_tcd) io;
         io = edma_writew edma (le16_to_cpu h (load16 h (attr t))) (hw_tcd_attr hw_tcd) io;
         io = edma_writew edma (le16_to_cpu h (load16 h (soff t))) (hw_tcd_soff hw_tcd) io;
         io = edma_writel edma (le32_to_cpu h (load32 h (nbytes t))) (hw_tcd_nbytes hw_tcd) io;
         io = edma_writel edma (le32_to_cpu h (load32 h (slast t))) (hw_tcd_slast hw_tcd) io;
         io = edma_writew edma (le16_to_cpu h (load16 h (citer t))) (hw_tcd_citer hw_tcd) io;
         io = edma_writew edma (le16_to_cpu h (load16 h (biter t))) (hw_tcd_biter hw_tcd) io;
         io = edma_writew edma (le16_to_cpu h (load16 h (doff t))) (hw_tcd_doff hw_tcd) io;
         io = edma_writel edma (le32_to_cpu h (load32 h (dlast_sga t))) (hw_tcd_dlast_sga hw_tcd) io
     in edma_writew edma (le16_to_cpu h (load16 h (csr t))) (hw_tcd_csr hw_tcd) io)"

section \<open>Building descriptors\<close>

text \<open>
  \<^verbatim>\<open>dma_pool_alloc\<close> in the loop of \<^verbatim>\<open>fsl_edma_alloc_desc\<close> (modelled from the spec:
  the pool hands out one free block with its bus address per call, or fails when none is
  left). \<open>None\<close> is the \<^verbatim>\<open>goto err\<close>, which gives back what the loop took.
\<close>

fun alloc_tcds ::
  "nat \<Rightarrow> fsl_edma_sw_tcd list \<Rightarrow> (fsl_edma_sw_tcd list \<times> fsl_edma_sw_tcd list) option" where
  "alloc_tcds 0 pool = Some ([], pool)"
| "alloc_tcds (Suc n) [] = None"
| "alloc_tcds (Suc n) (b # pool) =
     (case alloc_tcds n pool of None \<Rightarrow> None | Some (ts, pool') \<Rightarrow> Some (b # ts, pool'))"

text \<open>
  \<^verbatim>\<open>fsl_edma_alloc_desc\<close>. Whether \<^verbatim>\<open>kzalloc\<close> finds memory is the parameter
  \<open>kzalloc_ok\<close>. \<open>sg_len\<close> is the value of the C \<^verbatim>\<open>int\<close>: the loop does not run for a
  negative one, and \<^verbatim>\<open>n_tcds\<close> is its conversion to \<^verbatim>\<open>unsigned int\<close>.
\<close>

definition fsl_edma_alloc_desc ::
  "bool \<Rightarrow> fsl_edma_chan \<Rightarrow> int \<Rightarrow> fsl_edma_desc option \<times> fsl_edma_chan" where
  "fsl_edma_alloc_desc kzalloc_ok fsl_chan sg_len =
    (if \<not> kzalloc_ok then (None, fsl_chan)
     else case alloc_tcds (nat sg_len) (tcd_pool fsl_chan) of
            None \<Rightarrow> (None, fsl_chan)
          | Some (ts, pool) \<Rightarrow>
              (Some \<lparr>cookie = 0, iscyclic = False, cyclic_len = 0,
                     n_tcds = word_of_int sg_len, tcd = ts\<rparr>,
               fsl_chan\<lparr>tcd_pool := pool\<rparr>))"

text \<open>
  The loop of \<^verbatim>\<open>fsl_edma_prep_dma_cyclic\<close>. It runs once per entry of \<^verbatim>\<open>tcd[]\<close>;
  \<open>all\<close> is the whole array (the loop reads the bus address of the next entry from it),
  \<open>i\<close> the loop counter, \<open>dma_buf_next\<close> the running buffer address.
\<close>

fun cyclic_loop ::
  "host_endian \<Rightarrow> fsl_edma_slave_config \<Rightarrow> dma_addr_t \<Rightarrow> size_t \<Rightarrow> size_t \<Rightarrow> u32 \<Rightarrow> u16
     \<Rightarrow> fsl_edma_sw_tcd list \<Rightarrow> nat \<Rightarrow> nat \<Rightarrow> dma_addr_t \<Rightarrow> fsl_edma_sw_tcd list
     \<Rightarrow> fsl_edma_sw_tcd list" where
  "cyclic_loop h cfg dma_addr buf_len period_len nb iter all sg_len i dma_buf_next [] = []"
| "cyclic_loop h cfg dma_addr buf_len period_len nb iter all sg_len i dma_buf_next (t # ts) =
    (let dma_buf_next = (if dma_addr + buf_len \<le> dma_buf_next then dma_addr else dma_buf_next);
         last_sg = (ucast (ptcd (all ! ((i + 1) mod sg_len))) :: u32);
         src_addr = (if dir cfg = DMA_MEM_TO_DEV then ucast dma_buf_next else dev_addr cfg);
         dst_addr = (if dir cfg = DMA_MEM_TO_DEV then dev_addr cfg else ucast dma_buf_next);
         soff' = (if dir cfg = DMA_MEM_TO_DEV then ucast (addr_width cfg) else 0);
         doff' = (if dir cfg = DMA_MEM_TO_DEV then 0 else ucast (addr_width cfg));
         t = t\<lparr>vtcd := fsl_edma_fill_tcd h (vtcd t) src_addr dst_addr (ucast (fsc_attr cfg))
                          soff' nb 0 iter iter doff' last_sg True False True\<rparr>
     in t # cyclic_loop h cfg dma_addr buf_len period_len nb iter all sg_len (Suc i)
              (dma_buf_next + period_len) ts)"

text \<open>
  \<^verbatim>\<open>fsl_edma_prep_dma_cyclic\<close>. The parameters \<^verbatim>\<open>direction\<close> and \<^verbatim>\<open>flags\<close> are not
  read by the C function. The two divisions have no check in C. \<open>Inr (None, _)\<close> is the
  \<^verbatim>\<open>NULL\<close> return.
\<close>

definition fsl_edma_prep_dma_cyclic ::
  "host_endian \<Rightarrow> bool \<Rightarrow> fsl_edma_chan \<Rightarrow> dma_addr_t \<Rightarrow> size_t \<Rightarrow> size_t
     \<Rightarrow> fault + (fsl_edma_desc option \<times> fsl_edma_chan)" where
  "fsl_edma_prep_dma_cyclic h kzalloc_ok fsl_chan dma_addr buf_len period_len =
    (if \<not> is_slave_direction (dir (fsc fsl_chan)) then Inr (None, fsl_chan)
     else if period_len = 0 then Inl DIV_BY_ZERO
     else
       let sg_len = sint (ucast (buf_len div period_len) :: u32)
       in case fsl_edma_alloc_desc kzalloc_ok fsl_chan sg_len of
            (None, fsl_chan) \<Rightarrow> Inr (None, fsl_chan)
          | (Some fsl_desc, fsl_chan) \<Rightarrow>
              let fsl_desc = fsl_desc\<lparr>iscyclic := True\<rparr>;
                  fsl_desc = fsl_desc\<lparr>cyclic_len := ucast buf_len\<rparr>;
                  dma_buf_next = dma_addr;
                  nb = addr_width (fsc fsl_chan) * burst (fsc fsl_chan)
              in if nb = 0 then Inl DIV_BY_ZERO
                 else
                   let iter = (ucast (period_len div ucast nb) :: u16);
                       fsl_desc = fsl_desc\<lparr>tcd := cyclic_loop h (fsc fsl_chan) dma_addr buf_len
                                    period_len nb iter (tcd fsl_desc) (nat sg_len) 0 dma_buf_next
                                    (tcd fsl_desc)\<rparr>
                   in Inr (Some (vchan_tx_prep (vchan fsl_chan) fsl_desc), fsl_chan))"

text \<open>\<^verbatim>\<open>struct scatterlist\<close>, the two fields read through \<^verbatim>\<open>sg_dma_address\<close> and \<^verbatim>\<open>sg_dma_len\<close>.\<close>

record scatterlist =
  dma_address :: dma_addr_t
  dma_length :: u32

text \<open>
  The \<^verbatim>\<open>for_each_sg\<close> loop of \<^verbatim>\<open>fsl_edma_prep_slave_sg\<close>, once per entry of
  \<^verbatim>\<open>tcd[]\<close>. A list \<open>sgl\<close> that ends before the count is a null \<^verbatim>\<open>sg\<close>. The first
  assignment to \<^verbatim>\<open>last_sg\<close> in the C loop is overwritten in both branches before it is used
  and is left out.
\<close>

fun slave_sg_loop ::
  "host_endian \<Rightarrow> fsl_edma_slave_config \<Rightarrow> u32 \<Rightarrow> u32 \<Rightarrow> fsl_edma_sw_tcd list \<Rightarrow> nat
     \<Rightarrow> fsl_edma_sw_tcd list \<Rightarrow> scatterlist list \<Rightarrow> fault + fsl_edma_sw_tcd list" where
  "slave_sg_loop h cfg nb sg_len all i [] sgl = Inr []"
| "slave_sg_loop h cfg nb sg_len all i (t # ts) [] = Inl NULL_DEREF"
| "slave_sg_loop h cfg nb sg_len all i (t # ts) (sg # sgl) =
    (let src_addr = (if dir cfg = DMA_MEM_TO_DEV then ucast (dma_address sg) else dev_addr cfg);
         dst_addr = (if dir cfg = DMA_MEM_TO_DEV then dev_addr cfg else ucast (dma_address sg));
         soff' = (if dir cfg = DMA_MEM_TO_DEV then ucast (addr_width cfg) else 0);
         doff' = (if dir cfg = DMA_MEM_TO_DEV then 0 else ucast (addr_width cfg))
     in if nb = 0 then Inl DIV_BY_ZERO
        else
          let iter = (ucast (dma_length sg div nb) :: u16);
              t = (if i < unat (sg_len - 1)
                   then let last_sg = (ucast (ptcd (all ! (i + 1))) :: u32)
                        in t\<lparr>vtcd := fsl_edma_fill_tcd h (vtcd t) src_addr dst_addr
                                        (ucast (fsc_attr cfg)) soff' nb 0 iter iter doff' last_sg
                                        False False True\<rparr>
                   else let last_sg = (0 :: u32)
                        in t\<lparr>vtcd := fsl_edma_fill_tcd h (vtcd t) src_addr dst_addr
                                        (ucast (fsc_attr cfg)) soff' nb 0 iter iter doff' last_sg
                                        True True False\<rparr>)
          in case slave_sg_loop h cfg nb sg_len all (Suc i) ts sgl of
               Inl f \<Rightarrow> Inl f
             | Inr r \<Rightarrow> Inr (t # r))"

text \<open>
  \<^verbatim>\<open>fsl_edma_prep_slave_sg\<close>. \<^verbatim>\<open>sg_len\<close> is \<^verbatim>\<open>unsigned int\<close> and is passed to
  \<^verbatim>\<open>fsl_edma_alloc_desc\<close> as \<^verbatim>\<open>int\<close>; a count that turns negative there allocates no
  entry, and the loop then writes past the array.
\<close>

definition fsl_edma_prep_slave_sg ::
  "host_endian \<Rightarrow> bool \<Rightarrow> fsl_edma_chan \<Rightarrow> scatterlist list \<Rightarrow> u32
     \<Rightarrow> fault + (fsl_edma_desc option \<times> fsl_edma_chan)" where
  "fsl_edma_prep_slave_sg h kzalloc_ok fsl_chan sgl sg_len =
    (if \<not> is_slave_direction (dir (fsc fsl_chan)) then Inr (None, fsl_chan)
     else case fsl_edma_alloc_desc kzalloc_ok fsl_chan (sint sg_len) of
            (None, fsl_chan) \<Rightarrow> Inr (None, fsl_chan)
          | (Some fsl_desc, fsl_chan) \<Rightarrow>
              let fsl_desc = fsl_desc\<lparr>iscyclic := False\<rparr>;
                  nb = addr_width (fsc fsl_chan) * burst (fsc fsl_chan)
              in if sint sg_len < 0 then Inl OUT_OF_BOUNDS
                 else case slave_sg_loop h (fsc fsl_chan) nb sg_len (tcd fsl_desc) 0
                             (tcd fsl_desc) sgl of
                        Inl f \<Rightarrow> Inl f
                      | Inr ts \<Rightarrow>
                          Inr (Some (vchan_tx_prep (vchan fsl_chan) (fsl_desc\<lparr>tcd := ts\<rparr>)),
                               fsl_chan))"

section \<open>Starting a transfer and handling interrupts\<close>

text \<open>
  \<^verbatim>\<open>fsl_edma_xfer_desc\<close>. It reads \<^verbatim>\<open>tcd[0]\<close> of the descriptor it promotes without
  looking at \<^verbatim>\<open>n_tcds\<close>.
\<close>

definition fsl_edma_xfer_desc ::
  "host_endian \<Rightarrow> fsl_edma_engine \<Rightarrow> iomem \<Rightarrow> fsl_edma_chan \<Rightarrow> fault + (iomem \<times> fsl_edma_chan)" where
  "fsl_edma_xfer_desc h edma io fsl_chan =
    (case vchan_next_desc (vchan fsl_chan) of
       None \<Rightarrow> Inr (io, fsl_chan)
     | Some vdesc \<Rightarrow>
         let fsl_chan = fsl_chan\<lparr>edesc := Some vdesc\<rparr>
         in case tcd vdesc of
              [] \<Rightarrow> Inl OUT_OF_BOUNDS
            | t0 # _ \<Rightarrow>
                let io = fsl_edma_set_tcd_regs h edma fsl_chan (vtcd t0) io;
                    io = edma_enable_request (soc_ops (socdata edma)) edma fsl_chan io;
                    fsl_chan = fsl_chan\<lparr>status := DMA_IN_PROGRESS\<rparr>;
                    fsl_chan = fsl_chan\<lparr>idle := False\<rparr>
                in Inr (io, fsl_chan))"

datatype irqreturn_t = IRQ_NONE | IRQ_HANDLED

text \<open>
  The body of the loop of \<^verbatim>\<open>fsl_edma_tx_handler\<close> for a channel \<open>ch\<close> whose bit is set.
  \<^verbatim>\<open>fsl_chan->edesc->iscyclic\<close> is read with no check of \<^verbatim>\<open>edesc\<close>.
\<close>

definition fsl_edma_tx_chan ::
  "host_endian \<Rightarrow> fsl_edma_engine \<Rightarrow> u32 \<Rightarrow> iomem \<Rightarrow> fsl_edma_chan
     \<Rightarrow> fault + (iomem \<times> fsl_edma_chan)" where
  "fsl_edma_tx_chan h edma ch io fsl_chan =
    (let io = edma_writeb edma (ucast (EDMA_CINT_CINT ch)) (membase edma + EDMA_CINT) io
     in case edesc fsl_chan of
          None \<Rightarrow> Inl NULL_DEREF
        | Some ed \<Rightarrow>
            let fsl_chan =
                  (if \<not> iscyclic ed
                   then let fsl_chan = fsl_chan\<lparr>vchan := list_del ed (vchan fsl_chan)\<rparr>;
                            fsl_chan = fsl_chan\<lparr>vchan := vchan_cookie_complete (vchan fsl_chan) ed\<rparr>;
                            fsl_chan = fsl_chan\<lparr>edesc := None\<rparr>;
                            fsl_chan = fsl_chan\<lparr>status := DMA_COMPLETE\<rparr>
                        in fsl_chan\<lparr>idle := True\<rparr>
                   else fsl_chan\<lparr>vchan := vchan_cyclic_callback (vchan fsl_chan) ed\<rparr>)
            in if edesc fsl_chan = None then fsl_edma_xfer_desc h edma io fsl_chan
               else Inr (io, fsl_chan))"

text \<open>The same for \<^verbatim>\<open>fsl_edma3_tx_handler\<close>, which leaves \<^verbatim>\<open>idle\<close> alone.\<close>

definition fsl_edma3_tx_chan ::
  "host_endian \<Rightarrow> fsl_edma_engine \<Rightarrow> u32 \<Rightarrow> iomem \<Rightarrow> fsl_edma_chan
     \<Rightarrow> fault + (iomem \<times> fsl_edma_chan)" where
  "fsl_edma3_tx_chan h edma ch io fsl_chan =
    (let io = edma_writel edma EDMA3_CHn_INT_INT (membase edma + ucast (EDMA3_CHn_INT ch)) io
     in case edesc fsl_chan of
          None \<Rightarrow> Inl NULL_DEREF
        | Some ed \<Rightarrow>
            let fsl_chan =
                  (if \<not> iscyclic ed
                   then let fsl_chan = fsl_chan\<lparr>vchan := list_del ed (vchan fsl_chan)\<rparr>;
                            fsl_chan = fsl_chan\<lparr>vchan := vchan_cookie_complete (vchan fsl_chan) ed\<rparr>;
                            fsl_chan = fsl_chan\<lparr>edesc := None\<rparr>
                        in fsl_chan\<lparr>status := DMA_COMPLETE\<rparr>
                   else fsl_chan\<lparr>vchan := vchan_cyclic_callback (vchan fsl_chan) ed\<rparr>)
            in if edesc fsl_chan = None then fsl_edma_xfer_desc h edma io fsl_chan
               else Inr (io, fsl_chan))"

text \<open>
  The loops over the channels, \<open>chs\<close> being the channel numbers still to visit. An entry of
  \<^verbatim>\<open>chans[]\<close> past the array is a fault. The test \<^verbatim>\<open>intr & (0x1 << ch)\<close> shifts a 32-bit
  value: for \<open>ch \<ge> 32\<close> the shift is undefined in C, and the shift instruction of the
  target (aarch64, as x86) takes the count modulo 32, so that the bit of channel
  \<open>ch - 32\<close> is tested again. The error handler has the same test.
\<close>

fun fsl_edma_tx_loop ::
  "host_endian \<Rightarrow> fsl_edma_engine \<Rightarrow> u32 \<Rightarrow> nat list \<Rightarrow> iomem \<Rightarrow> fsl_edma_chan list
     \<Rightarrow> fault + (iomem \<times> fsl_edma_chan list)" where
  "fsl_edma_tx_loop h edma intr [] io cs = Inr (io, cs)"
| "fsl_edma_tx_loop h edma intr (ch # chs) io cs =
    (if intr AND push_bit (ch mod 32) 1 \<noteq> 0
     then if length cs \<le> ch then Inl OUT_OF_BOUNDS
          else case fsl_edma_tx_chan h edma (of_nat ch) io (cs ! ch) of
                 Inl f \<Rightarrow> Inl f
               | Inr (io, c) \<Rightarrow> fsl_edma_tx_loop h edma intr chs io (cs[ch := c])
     else fsl_edma_tx_loop h edma intr chs io cs)"

definition fsl_edma_tx_handler ::
  "host_endian \<Rightarrow> fsl_edma_engine \<Rightarrow> iomem \<Rightarrow> fault + (irqreturn_t \<times> iomem \<times> fsl_edma_engine)" where
  "fsl_edma_tx_handler h fsl_edma io =
    (let base_addr = membase fsl_edma;
         intr = edma_readl fsl_edma io (base_addr + EDMA_INTR)
     in if intr = 0 then Inr (IRQ_NONE, io, fsl_edma)
        else case fsl_edma_tx_loop h fsl_edma intr [0 ..< unat (n_chans fsl_edma)] io
                    (chans fsl_edma) of
               Inl f \<Rightarrow> Inl f
             | Inr (io, cs) \<Rightarrow> Inr (IRQ_HANDLED, io, fsl_edma\<lparr>chans := cs\<rparr>))"

fun fsl_edma3_tx_loop ::
  "host_endian \<Rightarrow> fsl_edma_engine \<Rightarrow> nat list \<Rightarrow> bool \<Rightarrow> iomem \<Rightarrow> fsl_edma_chan list
     \<Rightarrow> fault + (bool \<times> iomem \<times> fsl_edma_chan list)" where
  "fsl_edma3_tx_loop h edma [] handled io cs = Inr (handled, io, cs)"
| "fsl_edma3_tx_loop h edma (ch # chs) handled io cs =
    (let ch_int = edma_readl edma io (membase edma + ucast (EDMA3_CHn_INT (of_nat ch)))
     in if ch_int AND EDMA3_CHn_INT_INT \<noteq> 0
        then if length cs \<le> ch then Inl OUT_OF_BOUNDS
             else case fsl_edma3_tx_chan h edma (of_nat ch) io (cs ! ch) of
                    Inl f \<Rightarrow> Inl f
                  | Inr (io, c) \<Rightarrow> fsl_edma3_tx_loop h edma chs True io (cs[ch := c])
        else fsl_edma3_tx_loop h edma chs handled io cs)"

definition fsl_edma3_tx_handler ::
  "host_endian \<Rightarrow> fsl_edma_engine \<Rightarrow> iomem \<Rightarrow> fault + (irqreturn_t \<times> iomem \<times> fsl_edma_engine)" where
  "fsl_edma3_tx_handler h fsl_edma io =
    (case fsl_edma3_tx_loop h fsl_edma [0 ..< unat (n_chans fsl_edma)] False io (chans fsl_edma) of
       Inl f \<Rightarrow> Inl f
     | Inr (handled, io, cs) \<Rightarrow>
         Inr (if handled then IRQ_HANDLED else IRQ_NONE, io, fsl_edma\<lparr>chans := cs\<rparr>))"

text \<open>The bodies of the loops of the two error handlers, for a channel whose error bit is set.\<close>

definition fsl_edma_err_chan ::
  "fsl_edma_engine \<Rightarrow> u32 \<Rightarrow> iomem \<Rightarrow> fsl_edma_chan \<Rightarrow> iomem \<times> fsl_edma_chan" where
  "fsl_edma_err_chan edma ch io fsl_chan =
    (let io = fsl_edma_disable_request edma fsl_chan io;
         io = edma_writeb edma (ucast (EDMA_CERR_CERR ch)) (membase edma + EDMA_CERR) io;
         fsl_chan = fsl_chan\<lparr>status := DMA_ERROR\<rparr>
     in (io, fsl_chan\<lparr>idle := True\<rparr>))"

definition fsl_edma3_err_chan ::
  "fsl_edma_engine \<Rightarrow> u32 \<Rightarrow> iomem \<Rightarrow> fsl_edma_chan \<Rightarrow> iomem \<times> fsl_edma_chan" where
  "fsl_edma3_err_chan edma ch io fsl_chan =
    (let io = fsl_edma3_disable_request edma fsl_chan io;
         io = edma_writel edma EDMA3_CHn_ES_ERR (membase edma + ucast (EDMA3_CHn_ES ch)) io
     in (io, fsl_chan\<lparr>status := DMA_ERROR\<rparr>))"

fun fsl_edma_err_loop ::
  "fsl_edma_engine \<Rightarrow> u32 \<Rightarrow> nat list \<Rightarrow> iomem \<Rightarrow> fsl_edma_chan list
     \<Rightarrow> fault + (iomem \<times> fsl_edma_chan list)" where
  "fsl_edma_err_loop edma err [] io cs = Inr (io, cs)"
| "fsl_edma_err_loop edma err (ch # chs) io cs =
    (if err AND push_bit (ch mod 32) 1 \<noteq> 0
     then if length cs \<le> ch then Inl OUT_OF_BOUNDS
          else case fsl_edma_err_chan edma (of_nat ch) io (cs ! ch) of
                 (io, c) \<Rightarrow> fsl_edma_err_loop edma err chs io (cs[ch := c])
     else fsl_edma_err_loop edma err chs io cs)"

definition fsl_edma_err_handler ::
  "fsl_edma_engine \<Rightarrow> iomem \<Rightarrow> fault + (irqreturn_t \<times> iomem \<times> fsl_edma_engine)" where
  "fsl_edma_err_handler fsl_edma io =
    (let err = edma_readl fsl_edma io (membase fsl_edma + EDMA_ERR)
     in if err = 0 then Inr (IRQ_NONE, io, fsl_edma)
        else case fsl_edma_err_loop fsl_edma err [0 ..< unat (n_chans fsl_edma)] io
                    (chans fsl_edma) of
               Inl f \<Rightarrow> Inl f
             | Inr (io, cs) \<Rightarrow> Inr (IRQ_HANDLED, io, fsl_edma\<lparr>chans := cs\<rparr>))"

fun fsl_edma3_err_loop ::
  "fsl_edma_engine \<Rightarrow> nat list \<Rightarrow> iomem \<Rightarrow> fsl_edma_chan list
     \<Rightarrow> fault + (iomem \<times> fsl_edma_chan list)" where
  "fsl_edma3_err_loop edma [] io cs = Inr (io, cs)"
| "fsl_edma3_err_loop edma (ch # chs) io cs =
    (let ch_es = edma_readl edma io (membase edma + ucast (EDMA3_CHn_ES (of_nat ch)))
     in if ch_es AND EDMA3_CHn_ES_ERR \<noteq> 0
        then if length cs \<le> ch then Inl OUT_OF_BOUNDS
             else case fsl_edma3_err_chan edma (of_nat ch) io (cs ! ch) of
                    (io, c) \<Rightarrow> fsl_edma3_err_loop edma chs io (cs[ch := c])
        else fsl_edma3_err_loop edma chs io cs)"

definition fsl_edma3_err_handler ::
  "fsl_edma_engine \<Rightarrow> iomem \<Rightarrow> fault + (irqreturn_t \<times> iomem \<times> fsl_edma_engine)" where
  "fsl_edma3_err_handler fsl_edma io =
    (let err = edma_readl fsl_edma io (membase fsl_edma + EDMA3_MP_ES)
     in if EDMA3_MP_ES_VLD err = 0 then Inr (IRQ_NONE, io, fsl_edma)
        else case fsl_edma3_err_loop fsl_edma [0 ..< unat (n_chans fsl_edma)] io
                    (chans fsl_edma) of
               Inl f \<Rightarrow> Inl f
             | Inr (io, cs) \<Rightarrow> Inr (IRQ_HANDLED, io, fsl_edma\<lparr>chans := cs\<rparr>))"

definition fsl_edma_issue_pending ::
  "host_endian \<Rightarrow> fsl_edma_engine \<Rightarrow> iomem \<Rightarrow> fsl_edma_chan \<Rightarrow> fault + (iomem \<times> fsl_edma_chan)" where
  "fsl_edma_issue_pending h edma io fsl_chan =
    (if pm_state fsl_chan \<noteq> RUNNING then Inr (io, fsl_chan)
     else case vchan_issue_pending (vchan fsl_chan) of
            (pending, vc) \<Rightarrow>
              let fsl_chan = fsl_chan\<lparr>vchan := vc\<rparr>
              in if pending \<and> edesc fsl_chan = None then fsl_edma_xfer_desc h edma io fsl_chan
                 else Inr (io, fsl_chan))"

text \<open>
  A channel as \<^verbatim>\<open>fsl_edma_probe\<close> leaves it (the engine is allocated zeroed, so the status is
  the enumeration's first value and the stored configuration is all zero), with the pool
  that \<^verbatim>\<open>fsl_edma_alloc_chan_resources\<close> creates.
\<close>

definition fsl_edma_chan_probe :: "u32 \<Rightarrow> fsl_edma_sw_tcd list \<Rightarrow> fsl_edma_chan" where
  "fsl_edma_chan_probe i pool =
    \<lparr>vchan = \<lparr>chan_id = i, chan_cookie = 0, completed_cookie = 0,
               desc_submitted = [], desc_issued = [], desc_completed = []\<rparr>,
     status = DMA_COMPLETE, pm_state = RUNNING, idle = True, slave_id = 0, edesc = None,
     fsc = \<lparr>dir = DMA_MEM_TO_MEM, addr_width = 0, dev_addr = 0, burst = 0, fsc_attr = 0\<rparr>,
     tcd_pool = pool\<rparr>"

section \<open>Sequences of operations on a channel\<close>

text \<open>
  What a client and the hardware can do to one channel: configure it, submit a
  scatter-gather or a cyclic transfer (prepare, then \<^verbatim>\<open>tx_submit\<close>), issue, pause, resume,
  terminate; a completion interrupt and an error interrupt for the channel, on either
  hardware generation.
\<close>

datatype chan_op =
    OP_slave_config dma_slave_config
  | OP_submit_sg bool "scatterlist list" u32
  | OP_submit_cyclic bool dma_addr_t size_t size_t
  | OP_issue_pending
  | OP_pause
  | OP_resume
  | OP_terminate_all
  | OP_tx_irq
  | OP_tx3_irq
  | OP_err_irq
  | OP_err3_irq

definition submit ::
  "fault + (fsl_edma_desc option \<times> fsl_edma_chan) \<Rightarrow> iomem \<Rightarrow> fault + (iomem \<times> fsl_edma_chan)" where
  "submit prepared io = (case prepared of
      Inl f \<Rightarrow> Inl f
    | Inr (None, fsl_chan) \<Rightarrow> Inr (io, fsl_chan)
    | Inr (Some fsl_desc, fsl_chan) \<Rightarrow>
        Inr (io, fsl_chan\<lparr>vchan := snd (vchan_tx_submit (vchan fsl_chan) fsl_desc)\<rparr>))"

fun chan_step ::
  "host_endian \<Rightarrow> fsl_edma_engine \<Rightarrow> chan_op \<Rightarrow> iomem \<times> fsl_edma_chan
     \<Rightarrow> fault + (iomem \<times> fsl_edma_chan)" where
  "chan_step h edma (OP_slave_config cfg) (io, c) = Inr (io, snd (fsl_edma_slave_config c cfg))"
| "chan_step h edma (OP_submit_sg kzalloc_ok sgl sg_len) (io, c) =
     submit (fsl_edma_prep_slave_sg h kzalloc_ok c sgl sg_len) io"
| "chan_step h edma (OP_submit_cyclic kzalloc_ok dma_addr buf_len period_len) (io, c) =
     submit (fsl_edma_prep_dma_cyclic h kzalloc_ok c dma_addr buf_len period_len) io"
| "chan_step h edma OP_issue_pending (io, c) = fsl_edma_issue_pending h edma io c"
| "chan_step h edma OP_pause (io, c) = Inr (snd (fsl_edma_pause edma io c))"
| "chan_step h edma OP_resume (io, c) = Inr (snd (fsl_edma_resume edma io c))"
| "chan_step h edma OP_terminate_all (io, c) = Inr (snd (fsl_edma_terminate_all edma io c))"
| "chan_step h edma OP_tx_irq (io, c) = fsl_edma_tx_chan h edma (chan_id (vchan c)) io c"
| "chan_step h edma OP_tx3_irq (io, c) = fsl_edma3_tx_chan h edma (chan_id (vchan c)) io c"
| "chan_step h edma OP_err_irq (io, c) = Inr (fsl_edma_err_chan edma (chan_id (vchan c)) io c)"
| "chan_step h edma OP_err3_irq (io, c) = Inr (fsl_edma3_err_chan edma (chan_id (vchan c)) io c)"

fun chan_run ::
  "host_endian \<Rightarrow> fsl_edma_engine \<Rightarrow> chan_op list \<Rightarrow> iomem \<times> fsl_edma_chan
     \<Rightarrow> fault + (iomem \<times> fsl_edma_chan)" where
  "chan_run h edma [] s = Inr s"
| "chan_run h edma (op # ops) s =
     (case chan_step h edma op s of Inl f \<Rightarrow> Inl f | Inr s' \<Rightarrow> chan_run h edma ops s')"

section \<open>Example states\<close>

text \<open>
  The scenario of the spec: channel 0 configured memory-to-device, 4 bytes wide, bursts of
  4, device address \<open>0x1000\<close>; two segments of 64 bytes. The addresses of the register
  blocks are those of the device tree; the pool holds four 32-byte blocks.
\<close>

definition ex_tcd :: fsl_edma_tcd where
  "ex_tcd = \<lparr>saddr = (0, 0, 0, 0), soff = (0, 0), attr = (0, 0), nbytes = (0, 0, 0, 0),
             slast = (0, 0, 0, 0), daddr = (0, 0, 0, 0), doff = (0, 0), citer = (0, 0),
             dlast_sga = (0, 0, 0, 0), csr = (0, 0), biter = (0, 0)\<rparr>"

definition ex_pool :: "fsl_edma_sw_tcd list" where
  "ex_pool = [\<lparr>ptcd = 0x80100000, vtcd = ex_tcd\<rparr>, \<lparr>ptcd = 0x80100020, vtcd = ex_tcd\<rparr>,
              \<lparr>ptcd = 0x80100040, vtcd = ex_tcd\<rparr>, \<lparr>ptcd = 0x80100060, vtcd = ex_tcd\<rparr>]"

definition ex_edma :: fsl_edma_engine where
  "ex_edma = \<lparr>membase = 0x40144000,
              muxbase = (\<lambda>i. if i = 0 then 0x4012C000 else 0x40130000),
              n_chans = 32, big_endian = False, socdata = fsl_edma_s32v234_data, chans = []\<rparr>"

definition ex_io :: iomem where
  "ex_io = \<lparr>io_bytes = (\<lambda>a. 0), io_writes = []\<rparr>"

definition ex_chan :: fsl_edma_chan where
  "ex_chan = fsl_edma_chan_probe 0 ex_pool"

definition ex_cfg :: dma_slave_config where
  "ex_cfg = \<lparr>direction = DMA_MEM_TO_DEV, src_addr = 0, dst_addr = 0x1000,
             src_addr_width = 4, dst_addr_width = 4, src_maxburst = 4, dst_maxburst = 4\<rparr>"

definition ex_cfg_rx :: dma_slave_config where
  "ex_cfg_rx = \<lparr>direction = DMA_DEV_TO_MEM, src_addr = 0x40001000, dst_addr = 0,
                src_addr_width = 4, dst_addr_width = 4, src_maxburst = 4, dst_maxburst = 4\<rparr>"

definition ex_sgl :: "scatterlist list" where
  "ex_sgl = [\<lparr>dma_address = 0x80000000, dma_length = 64\<rparr>,
             \<lparr>dma_address = 0x80002000, dma_length = 64\<rparr>]"

definition ex_chan_tx :: fsl_edma_chan where
  "ex_chan_tx = snd (fsl_edma_slave_config ex_chan ex_cfg)"

definition ex_chan_rx :: fsl_edma_chan where
  "ex_chan_rx = snd (fsl_edma_slave_config ex_chan ex_cfg_rx)"

text \<open>The same channel configured for single bytes.\<close>

definition ex_chan_byte :: fsl_edma_chan where
  "ex_chan_byte = snd (fsl_edma_slave_config ex_chan
     (ex_cfg\<lparr>dst_addr_width := 1, dst_maxburst := 1\<rparr>))"

text \<open>
  The register block while channel 0 runs: its live source address register (offset
  \<open>0x1000\<close> of the block) or its live destination address register (offset \<open>0x1010\<close>)
  reads \<open>0x80000040\<close>, 64 bytes into the buffer at \<open>0x80000000\<close>.
\<close>

definition ex_io_saddr :: iomem where
  "ex_io_saddr = \<lparr>io_bytes = (\<lambda>a. if a = 0x40145000 then 0x40
                                    else if a = 0x40145003 then 0x80 else 0),
                  io_writes = []\<rparr>"

definition ex_io_daddr :: iomem where
  "ex_io_daddr = \<lparr>io_bytes = (\<lambda>a. if a = 0x40145010 then 0x40
                                    else if a = 0x40145013 then 0x80 else 0),
                  io_writes = []\<rparr>"

text \<open>The register block with the completion interrupt of channel 0 pending (\<^verbatim>\<open>EDMA_INTR\<close> reads 1).\<close>

definition ex_io_intr :: iomem where
  "ex_io_intr = \<lparr>io_bytes = (\<lambda>a. if a = 0x40144024 then 1 else 0), io_writes = []\<rparr>"

text \<open>The engine with channel 0 in a given state and the other 31 channels as probed.\<close>

definition ex_engine :: "fsl_edma_chan \<Rightarrow> fsl_edma_engine" where
  "ex_engine c = ex_edma\<lparr>chans := c # map (\<lambda>i. fsl_edma_chan_probe (of_nat i) []) [1 ..< 32]\<rparr>"

text \<open>A third segment, of 32 bytes, for a second transfer.\<close>

definition ex_sgl_short :: "scatterlist list" where
  "ex_sgl_short = [\<lparr>dma_address = 0x80004000, dma_length = 32\<rparr>]"

definition ex_txstate :: dma_tx_state where
  "ex_txstate = \<lparr>last = 0, used = 0, residue = 0\<rparr>"

section \<open>Byte order lemmas\<close>

lemma compose16:
  "ucast (ucast x :: u8) OR push_bit 8 (ucast (ucast (drop_bit 8 x) :: u8)) = (x :: u16)"
  by (rule bit_word_eqI) (auto simp add: bit_simps)

lemma compose32:
  "ucast (ucast x :: u8) OR push_bit 8 (ucast (ucast (drop_bit 8 x) :: u8))
   OR push_bit 16 (ucast (ucast (drop_bit 16 x) :: u8))
   OR push_bit 24 (ucast (ucast (drop_bit 24 x) :: u8)) = (x :: u32)"
proof (rule bit_word_eqI)
  fix n :: nat
  assume "n < LENGTH(32)"
  then consider "n < 8" | "8 \<le> n" "n < 16" | "16 \<le> n" "n < 24" | "24 \<le> n" "n < 32"
    by fastforce
  then show "bit (ucast (ucast x :: u8) OR push_bit 8 (ucast (ucast (drop_bit 8 x) :: u8))
   OR push_bit 16 (ucast (ucast (drop_bit 16 x) :: u8))
   OR push_bit 24 (ucast (ucast (drop_bit 24 x) :: u8)) :: u32) n = bit x n"
    by cases (auto simp add: bit_simps)
qed

lemma split16:
  fixes b0 b1 :: u8
  defines "w \<equiv> (ucast b0 OR push_bit 8 (ucast b1) :: u16)"
  shows "ucast w = b0" and "ucast (drop_bit 8 w) = b1"
  unfolding w_def
  by (rule bit_word_eqI; auto simp add: bit_simps dest: bit_imp_le_length)+

lemma split32:
  fixes b0 b1 b2 b3 :: u8
  defines "w \<equiv> (ucast b0 OR push_bit 8 (ucast b1) OR push_bit 16 (ucast b2)
                  OR push_bit 24 (ucast b3) :: u32)"
  shows "ucast w = b0" and "ucast (drop_bit 8 w) = b1"
    and "ucast (drop_bit 16 w) = b2" and "ucast (drop_bit 24 w) = b3"
  unfolding w_def
  by (rule bit_word_eqI; auto simp add: bit_simps dest: bit_imp_le_length)+

lemma load16_store16: "load16 h (store16 h x) = x"
  unfolding load16_def store16_def
  by (cases h) (simp_all add: compose16)

lemma load32_store32: "load32 h (store32 h x) = x"
  unfolding load32_def store32_def
  by (cases h) (simp_all add: compose32)

lemma store16_load16: "store16 h (load16 h m) = m"
  by (cases h; cases m)
     (simp_all only: load16_def store16_def prod.case host_endian.case split16)

lemma store32_load32: "store32 h (load32 h m) = m"
  by (cases h; cases m)
     (simp_all only: load32_def store32_def prod.case host_endian.case split32)

text \<open>What reaches memory does not depend on the CPU's byte order.\<close>

lemma store16_cpu_to_le16: "store16 h (cpu_to_le16 h x) = store16 CPU_LITTLE_ENDIAN x"
  by (cases h) (simp_all add: cpu_to_le16_def swab16_def store16_load16)

lemma store32_cpu_to_le32: "store32 h (cpu_to_le32 h x) = store32 CPU_LITTLE_ENDIAN x"
  by (cases h) (simp_all add: cpu_to_le32_def swab32_def store32_load32)

lemma le16_to_cpu_load16: "le16_to_cpu h (load16 h m) = load16 CPU_LITTLE_ENDIAN m"
proof (cases h)
  case CPU_LITTLE_ENDIAN
  then show ?thesis by (simp add: le16_to_cpu_def)
next
  case CPU_BIG_ENDIAN
  obtain b0 b1 where m: "m = (b0, b1)" by (cases m)
  have "store16 CPU_LITTLE_ENDIAN (load16 CPU_BIG_ENDIAN m) = (b1, b0)"
    unfolding m by (simp only: load16_def store16_def prod.case host_endian.case split16)
  then show ?thesis
    using CPU_BIG_ENDIAN by (simp add: le16_to_cpu_def swab16_def m load16_def)
qed

lemma le32_to_cpu_load32: "le32_to_cpu h (load32 h m) = load32 CPU_LITTLE_ENDIAN m"
proof (cases h)
  case CPU_LITTLE_ENDIAN
  then show ?thesis by (simp add: le32_to_cpu_def)
next
  case CPU_BIG_ENDIAN
  obtain b0 b1 b2 b3 where m: "m = (b0, b1, b2, b3)" by (cases m)
  have "store32 CPU_LITTLE_ENDIAN (load32 CPU_BIG_ENDIAN m) = (b3, b2, b1, b0)"
    unfolding m by (simp only: load32_def store32_def prod.case host_endian.case split32)
  then show ?thesis
    using CPU_BIG_ENDIAN by (simp add: le32_to_cpu_def swab32_def m load32_def)
qed

lemma swab16_swab16: "swab16 (swab16 x) = x"
proof -
  have "swab16 (swab16 x) = le16_to_cpu CPU_BIG_ENDIAN (load16 CPU_BIG_ENDIAN (store16 CPU_LITTLE_ENDIAN x))"
    by (simp add: le16_to_cpu_def swab16_def)
  then show ?thesis by (simp only: le16_to_cpu_load16 load16_store16)
qed

lemma swab32_swab32: "swab32 (swab32 x) = x"
proof -
  have "swab32 (swab32 x) = le32_to_cpu CPU_BIG_ENDIAN (load32 CPU_BIG_ENDIAN (store32 CPU_LITTLE_ENDIAN x))"
    by (simp add: le32_to_cpu_def swab32_def)
  then show ?thesis by (simp only: le32_to_cpu_load32 load32_store32)
qed

lemma le16_to_cpu_cpu_to_le16: "le16_to_cpu h (cpu_to_le16 h x) = x"
  by (cases h) (simp_all add: le16_to_cpu_def cpu_to_le16_def swab16_swab16)

lemma le32_to_cpu_cpu_to_le32: "le32_to_cpu h (cpu_to_le32 h x) = x"
  by (cases h) (simp_all add: le32_to_cpu_def cpu_to_le32_def swab32_swab32)

lemma get_put16: "le16_to_cpu h (load16 h (store16 h (cpu_to_le16 h x))) = x"
  by (simp add: load16_store16 le16_to_cpu_cpu_to_le16)

lemma get_put32: "le32_to_cpu h (load32 h (store32 h (cpu_to_le32 h x))) = x"
  by (simp add: load32_store32 le32_to_cpu_cpu_to_le32)


section \<open>The descriptor codec\<close>

lemma tcd_decode_fill:
  "tcd_decode h (fsl_edma_fill_tcd h t src dst a so nb sl ci bi dof dl m d e) =
   \<lparr>f_src = src, f_dst = dst, f_attr = a, f_soff = so, f_nbytes = nb, f_slast = sl,
    f_citer = ci AND 0x7FFF, f_biter = bi AND 0x7FFF, f_doff = dof, f_dlast_sga = dl,
    f_major_int = m, f_disable_req = d, f_enable_sg = e\<rparr>"
  apply (simp add: tcd_decode_def fsl_edma_fill_tcd_def Let_def tcd_saddr_def tcd_daddr_def tcd_attr_def
     tcd_soff_def tcd_nbytes_def tcd_slast_def tcd_citer_def tcd_biter_def tcd_doff_def tcd_dlast_sga_def
     tcd_csr_def get_put16 get_put32 EDMA_TCD_CITER_CITER_def EDMA_TCD_BITER_BITER_def)
  apply (cases e; cases d; cases m; simp add: EDMA_TCD_CSR_INT_MAJOR_def EDMA_TCD_CSR_D_REQ_def EDMA_TCD_CSR_E_SG_def)
  done


lemma fill_tcd_host_independent:
  "fsl_edma_fill_tcd h t src dst a so nb sl ci bi dof dl m d e
     = fsl_edma_fill_tcd CPU_LITTLE_ENDIAN t src dst a so nb sl ci bi dof dl m d e"
  by (simp add: fsl_edma_fill_tcd_def Let_def store16_cpu_to_le16 store32_cpu_to_le32)

lemma mask15: "(0x7FFF :: u16) = mask 15"
  by code_simp

lemma uint_lt_of_unat_lt: "unat (w :: 'a::len word) < n \<Longrightarrow> uint w < int n"
proof -
  assume "unat w < n"
  then have "int (unat w) < int n" by (simp only: of_nat_less_iff)
  then show ?thesis by simp
qed

lemma and_7FFF_small: "unat (w :: u16) < 2 ^ 15 \<Longrightarrow> w AND 0x7FFF = w"
proof -
  assume "unat w < 2 ^ 15"
  from uint_lt_of_unat_lt [OF this] have "uint w < 2 ^ 15" by simp
  then have "w AND mask 15 = w" by (simp only: mask_eq_iff)
  then show ?thesis by (simp only: mask15)
qed

lemma sint_small_u32: "unat (w :: u32) < 2 ^ 31 \<Longrightarrow> sint w = int (unat w)"
proof -
  assume a: "unat w < 2 ^ 31"
  from uint_lt_of_unat_lt [OF this] have "uint w < 2 ^ 31" by simp
  moreover have "- (2 ^ 31) \<le> uint w"
  proof -
    have "(0 :: int) \<le> uint w" by simp
    moreover have "- (2 ^ 31) \<le> (0 :: int)" by simp
    ultimately show ?thesis by (rule order_trans [rotated])
  qed
  ultimately have "signed_take_bit 31 (uint w) = uint w"
    by (intro signed_take_bit_int_eq_self)
  then show ?thesis by (simp add: sint_uint)
qed

lemma iter_exact:
  fixes period_len :: size_t and aw bu :: u32
  assumes nov: "unat aw * unat bu < 2 ^ 32"
    and small: "unat period_len div (unat aw * unat bu) < 2 ^ 15"
  shows "unat ((ucast (period_len div ucast (aw * bu)) :: u16) AND 0x7FFF)
           = unat period_len div (unat aw * unat bu)"
proof -
  have nb: "unat (aw * bu) = unat aw * unat bu"
    using nov unat_mult_lem [of aw bu] by simp
  have "unat (aw * bu) < 2 ^ 64"
    using unsigned_less [of "aw * bu", where ?'a = nat] by simp
  then have up: "unat (ucast (aw * bu) :: u64) = unat (aw * bu)"
    by (simp add: unsigned_ucast_eq take_bit_nat_eq_self)
  have q: "unat (period_len div ucast (aw * bu)) = unat period_len div (unat aw * unat bu)"
    by (simp add: unat_div up nb)
  have c: "unat (ucast (period_len div ucast (aw * bu)) :: u16)
             = unat period_len div (unat aw * unat bu)"
    using small q by (simp add: unsigned_ucast_eq take_bit_nat_eq_self)
  then have "unat (ucast (period_len div ucast (aw * bu)) :: u16) < 2 ^ 15"
    using small by simp
  from and_7FFF_small [OF this] c show ?thesis by simp
qed

text \<open>
  Claim C4 as stated (encoding a descriptor and decoding it back reproduces every logical
  field exactly) fails: \<^verbatim>\<open>fsl_edma_fill_tcd\<close> stores the two iteration counts through
  \<^verbatim>\<open>EDMA_TCD_CITER_CITER\<close> and \<^verbatim>\<open>EDMA_TCD_BITER_BITER\<close>, which keep 15 bits. An iteration
  count of \<open>0x8000\<close> comes back as 0.
\<close>

theorem tcd_roundtrip_counterexample:
  "f_citer (tcd_decode CPU_LITTLE_ENDIAN
      (fsl_edma_fill_tcd CPU_LITTLE_ENDIAN ex_tcd 0 0 0 0 0 0 0x8000 0x8000 0 0 False False False))
     \<noteq> 0x8000"
  by (simp add: tcd_decode_fill)

text \<open>
  Claim C4, amended: decoding an encoded descriptor reproduces every logical field, the two
  iteration counts reduced to their low 15 bits; the round trip is exact whenever both
  counts are at most \<open>0x7FFF\<close>; and the bytes written to memory are the same on a
  little-endian and on a big-endian CPU.
\<close>

theorem tcd_roundtrip:
  "tcd_decode h (fsl_edma_fill_tcd h t src dst a so nb sl ci bi dof dl m d e) =
     \<lparr>f_src = src, f_dst = dst, f_attr = a, f_soff = so, f_nbytes = nb, f_slast = sl,
      f_citer = ci AND 0x7FFF, f_biter = bi AND 0x7FFF, f_doff = dof, f_dlast_sga = dl,
      f_major_int = m, f_disable_req = d, f_enable_sg = e\<rparr>
   \<and> (unat ci < 2 ^ 15 \<and> unat bi < 2 ^ 15 \<longrightarrow>
        tcd_decode h (fsl_edma_fill_tcd h t src dst a so nb sl ci bi dof dl m d e) =
          \<lparr>f_src = src, f_dst = dst, f_attr = a, f_soff = so, f_nbytes = nb, f_slast = sl,
           f_citer = ci, f_biter = bi, f_doff = dof, f_dlast_sga = dl,
           f_major_int = m, f_disable_req = d, f_enable_sg = e\<rparr>)
   \<and> fsl_edma_fill_tcd CPU_BIG_ENDIAN t src dst a so nb sl ci bi dof dl m d e
       = fsl_edma_fill_tcd CPU_LITTLE_ENDIAN t src dst a so nb sl ci bi dof dl m d e"
  by (simp add: tcd_decode_fill and_7FFF_small fill_tcd_host_independent [of CPU_BIG_ENDIAN])

text \<open>
  The round trip at the first descriptor of the spec's scenario, encoded and decoded on a
  big-endian CPU.
\<close>

theorem tcd_roundtrip_witness:
  "unat (4 :: u16) < 2 ^ 15 \<and>
   tcd_decode CPU_BIG_ENDIAN
     (fsl_edma_fill_tcd CPU_BIG_ENDIAN ex_tcd 0x80000000 0x1000 0x0202 4 16 0 4 4 0 0x80100020
        False False True) =
     \<lparr>f_src = 0x80000000, f_dst = 0x1000, f_attr = 0x0202, f_soff = 4, f_nbytes = 16,
      f_slast = 0, f_citer = 4, f_biter = 4, f_doff = 0, f_dlast_sga = 0x80100020,
      f_major_int = False, f_disable_req = False, f_enable_sg = True\<rparr>"
proof -
  have small: "unat (4 :: u16) < 2 ^ 15" by simp
  with tcd_roundtrip [of CPU_BIG_ENDIAN ex_tcd "0x80000000" "0x1000" "0x0202" 4 16 0 4 4 0
      "0x80100020" False False True]
  show ?thesis by blast
qed

section \<open>Channel configuration\<close>

text \<open>
  Claim C10: when \<^verbatim>\<open>fsl_edma_slave_config\<close> is called with a direction other than
  device-to-memory or memory-to-device it returns \<^verbatim>\<open>-EINVAL\<close>, and the channel it leaves
  differs from the one it was given in exactly the stored direction, which is the invalid
  one: device address, address width, burst and attr (and every other field of the channel)
  are as before.
\<close>

theorem fsl_edma_slave_config_invalid_direction:
  assumes "direction cfg \<noteq> DMA_DEV_TO_MEM" and "direction cfg \<noteq> DMA_MEM_TO_DEV"
  shows "fsl_edma_slave_config fsl_chan cfg =
           (- EINVAL, fsl_chan\<lparr>fsc := (fsc fsl_chan)\<lparr>dir := direction cfg\<rparr>\<rparr>)"
  using assms by (simp add: fsl_edma_slave_config_def Let_def)

text \<open>
  The channel of the scenario, configured memory-to-device, then configured again with the
  direction memory-to-memory: the call fails and the stored direction has changed.
\<close>

theorem fsl_edma_slave_config_invalid_direction_witness:
  "direction (ex_cfg\<lparr>direction := DMA_MEM_TO_MEM, dst_addr := 0x2000\<rparr>) \<noteq> DMA_DEV_TO_MEM \<and>
   direction (ex_cfg\<lparr>direction := DMA_MEM_TO_MEM, dst_addr := 0x2000\<rparr>) \<noteq> DMA_MEM_TO_DEV \<and>
   dir (fsc (snd (fsl_edma_slave_config ex_chan ex_cfg))) = DMA_MEM_TO_DEV \<and>
   fst (fsl_edma_slave_config (snd (fsl_edma_slave_config ex_chan ex_cfg))
          (ex_cfg\<lparr>direction := DMA_MEM_TO_MEM, dst_addr := 0x2000\<rparr>)) = - EINVAL \<and>
   dir (fsc (snd (fsl_edma_slave_config (snd (fsl_edma_slave_config ex_chan ex_cfg))
          (ex_cfg\<lparr>direction := DMA_MEM_TO_MEM, dst_addr := 0x2000\<rparr>)))) = DMA_MEM_TO_MEM \<and>
   dev_addr (fsc (snd (fsl_edma_slave_config (snd (fsl_edma_slave_config ex_chan ex_cfg))
          (ex_cfg\<lparr>direction := DMA_MEM_TO_MEM, dst_addr := 0x2000\<rparr>)))) = 0x1000"
proof -
  let ?cfg = "ex_cfg\<lparr>direction := DMA_MEM_TO_MEM, dst_addr := 0x2000\<rparr>"
  have h1: "direction ?cfg \<noteq> DMA_DEV_TO_MEM" and h2: "direction ?cfg \<noteq> DMA_MEM_TO_DEV"
    by simp_all
  have c: "fsc (snd (fsl_edma_slave_config ex_chan ex_cfg))
             = \<lparr>dir = DMA_MEM_TO_DEV, addr_width = 4, dev_addr = 0x1000, burst = 4,
                fsc_attr = 0x0202\<rparr>"
    by (simp add: fsl_edma_slave_config_def Let_def ex_cfg_def ex_chan_def
          fsl_edma_chan_probe_def fsl_edma_get_tcd_attr_def)
  show ?thesis
    using fsl_edma_slave_config_invalid_direction
            [OF h1 h2, of "snd (fsl_edma_slave_config ex_chan ex_cfg)"] c
    by simp
qed

section \<open>Issuing while suspended\<close>

text \<open>
  Claim C8: for a channel whose power-management state is suspended,
  \<^verbatim>\<open>fsl_edma_issue_pending\<close> returns with the register block and the whole channel as they
  were: nothing is moved between the queues, no register is written, and the status, the
  active descriptor and the idle flag keep their values.
\<close>

theorem fsl_edma_issue_pending_suspended:
  "pm_state fsl_chan = SUSPENDED \<Longrightarrow>
     fsl_edma_issue_pending h edma io fsl_chan = Inr (io, fsl_chan)"
  by (simp add: fsl_edma_issue_pending_def)

text \<open>A suspended channel with a submitted descriptor waiting: issuing changes nothing.\<close>

theorem fsl_edma_issue_pending_suspended_witness:
  "pm_state (ex_chan\<lparr>pm_state := SUSPENDED,
                      vchan := (vchan ex_chan)\<lparr>desc_submitted :=
                        [\<lparr>cookie = 1, iscyclic = False, cyclic_len = 0, n_tcds = 0, tcd = []\<rparr>]\<rparr>\<rparr>)
     = SUSPENDED \<and>
   fsl_edma_issue_pending CPU_LITTLE_ENDIAN ex_edma ex_io
     (ex_chan\<lparr>pm_state := SUSPENDED,
               vchan := (vchan ex_chan)\<lparr>desc_submitted :=
                 [\<lparr>cookie = 1, iscyclic = False, cyclic_len = 0, n_tcds = 0, tcd = []\<rparr>]\<rparr>\<rparr>)
     = Inr (ex_io,
            ex_chan\<lparr>pm_state := SUSPENDED,
                     vchan := (vchan ex_chan)\<lparr>desc_submitted :=
                       [\<lparr>cookie = 1, iscyclic = False, cyclic_len = 0, n_tcds = 0, tcd = []\<rparr>]\<rparr>\<rparr>)"
  using fsl_edma_issue_pending_suspended [of
      "ex_chan\<lparr>pm_state := SUSPENDED,
                vchan := (vchan ex_chan)\<lparr>desc_submitted :=
                  [\<lparr>cookie = 1, iscyclic = False, cyclic_len = 0, n_tcds = 0, tcd = []\<rparr>]\<rparr>\<rparr>"
      CPU_LITTLE_ENDIAN ex_edma ex_io]
  by simp

section \<open>The channel multiplexer\<close>

lemma s32v234_map_unat:
  "unat (s32v234_mux_channel_mapping c) = 4 * (unat c div 4) + (3 - unat c mod 4)"
proof -
  let ?q = "c div 4" and ?r = "c mod 4"
  have q: "unat ?q = unat c div 4" by (simp add: unat_div)
  have r: "unat ?r = unat c mod 4" by (simp add: unat_mod)
  have c: "unat c < 2 ^ 32" using unsigned_less [of c, where ?'a = nat] by simp
  have m4: "4 * (unat c div 4) + 4 \<le> 2 ^ 32"
  proof -
    have "unat c div 4 < 2 ^ 30" using c by simp
    then show ?thesis by simp
  qed
  have fq: "unat (4 * ?q) = 4 * (unat c div 4)"
  proof -
    have "unat (4 :: u32) * unat ?q < 2 ^ LENGTH(32)" using m4 q by simp
    then have "unat (4 * ?q) = unat (4 :: u32) * unat ?q" by (simp only: unat_mult_lem)
    then show ?thesis using q by simp
  qed
  have rle: "?r \<le> 4" using r by (simp add: word_le_nat_alt)
  have s1: "unat (4 - ?r) = 4 - unat c mod 4"
    using unat_sub [OF rle] r by simp
  have one: "(1 :: u32) \<le> 4 - ?r"
    using s1 by (simp add: word_le_nat_alt)
  have s2: "unat ((4 - ?r) - 1) = 3 - unat c mod 4"
    using unat_sub [OF one] s1 by simp
  have "unat (4 * ?q) + unat ((4 - ?r) - 1) < 2 ^ LENGTH(32)"
    using fq s2 m4 by simp
  then have "unat (4 * ?q + ((4 - ?r) - 1)) = unat (4 * ?q) + unat ((4 - ?r) - 1)"
    by (simp only: unat_add_lem)
  then show ?thesis
    unfolding s32v234_mux_channel_mapping_def using fq s2 by simp
qed

text \<open>
  Claim C9: for a channel number \<open>ch\<close> whose bank exists (the engine has at least
  \<open>DMAMUX_NR\<close> channels and \<open>ch div chans_per_mux\<close> is below \<open>DMAMUX_NR\<close>),
  \<^verbatim>\<open>fsl_edma_chan_mux\<close> makes exactly one byte write, to bank \<open>ch div chans_per_mux\<close> at
  the offset the generation's map gives for \<open>ch mod chans_per_mux\<close>; the byte is the
  enable bit \<open>0x80\<close> or-ed with the slot masked to six bits when enabling, and 0 when
  disabling. The map of the S32V234 and S32 Gen1 data sends \<open>c\<close> to
  \<open>4 * (c div 4) + (3 - c mod 4)\<close>; the map of the VF610 data is the identity.
\<close>

theorem fsl_edma_chan_mux_routing:
  assumes "ch = chan_id (vchan fsl_chan)"
    and "chans_per_mux = n_chans edma div 2"
    and "chans_per_mux \<noteq> 0"
    and "unat (ch div chans_per_mux) < DMAMUX_NR"
  shows "fsl_edma_chan_mux edma fsl_chan slot enable io =
           Inr (io\<lparr>io_writes := io_writes io @
                 [IOWRITE8 (muxbase edma (unat (ch div chans_per_mux))
                             + ucast (mux_channel_mapping (socdata edma) (ch mod chans_per_mux)))
                           (if enable then ucast (EDMAMUX_CHCFG_ENBL OR (slot AND 0x3F)) else 0)]\<rparr>)
         \<and> mux_channel_mapping fsl_edma_s32v234_data = s32v234_mux_channel_mapping
         \<and> mux_channel_mapping fsl_edma_s32gen1_data = s32v234_mux_channel_mapping
         \<and> mux_channel_mapping fsl_edma_vf610_data = vf610_mux_channel_mapping
         \<and> unat (s32v234_mux_channel_mapping c) = 4 * (unat c div 4) + (3 - unat c mod 4)
         \<and> vf610_mux_channel_mapping c = c"
  using assms
  by (simp add: fsl_edma_chan_mux_def Let_def DMAMUX_NR_def iowrite8_def
        EDMAMUX_CHCFG_SOURCE_def EDMAMUX_CHCFG_DIS_def mux_channel_mapping_def
        s32v234_map_unat vf610_mux_channel_mapping_def)

text \<open>
  The scenario of the spec: channel 5 of 32, 16 channels per bank, on the S32V234. It is
  routed in bank 0 at offset 6; enabling slot 3 writes \<open>0x83\<close> there, disabling writes 0.
\<close>

theorem fsl_edma_chan_mux_routing_witness:
  "n_chans ex_edma div 2 \<noteq> 0 \<and>
   unat (chan_id (vchan (fsl_edma_chan_probe 5 [])) div (n_chans ex_edma div 2)) < DMAMUX_NR \<and>
   fsl_edma_chan_mux ex_edma (fsl_edma_chan_probe 5 []) 3 True ex_io
     = Inr (ex_io\<lparr>io_writes := [IOWRITE8 0x4012C006 0x83]\<rparr>) \<and>
   fsl_edma_chan_mux ex_edma (fsl_edma_chan_probe 5 []) 3 False ex_io
     = Inr (ex_io\<lparr>io_writes := [IOWRITE8 0x4012C006 0]\<rparr>)"
proof -
  have id: "chan_id (vchan (fsl_edma_chan_probe 5 [])) = 5"
    by (simp add: fsl_edma_chan_probe_def)
  have cpm: "n_chans ex_edma div 2 = 16" by (simp add: ex_edma_def)
  have nz: "(16 :: u32) \<noteq> 0" by simp
  have bank: "unat ((5 :: u32) div 16) < DMAMUX_NR" by (simp add: DMAMUX_NR_def)
  have off: "mux_channel_mapping (socdata ex_edma) 5 = 6"
    by code_simp
  have b0: "unat ((5 :: u32) div 16) = 0" by simp
  note r = fsl_edma_chan_mux_routing [OF id [symmetric] cpm [symmetric] nz bank, where io = ex_io
      and slot = 3 and c = 0]
  have w: "io_writes ex_io = []" by (simp add: ex_io_def)
  have base: "muxbase ex_edma 0 = 0x4012C000" by (simp add: ex_edma_def)
  have v: "(ucast (EDMAMUX_CHCFG_ENBL OR (3 :: u32)) :: u8) = 0x83"
    by code_simp
  show ?thesis
    using r [of True] r [of False] bank
    by (simp add: id cpm off b0 w base v)
qed

section \<open>Building descriptors\<close>

lemma unat_ucast_u32_u64: "unat (ucast (w :: u32) :: u64) = unat w"
proof -
  have "unat w < 2 ^ 32" using unsigned_less [of w, where ?'a = nat] by simp
  then have "unat w < 2 ^ 64" by simp
  then show ?thesis by (simp add: unsigned_ucast_eq take_bit_nat_eq_self)
qed

lemma ucast_u64_u32_u64: "unat (p :: u64) < 2 ^ 32 \<Longrightarrow> (ucast (ucast p :: u32) :: u64) = p"
proof -
  assume lt: "unat p < 2 ^ 32"
  have "unat (ucast (ucast p :: u32) :: u64) = unat (ucast p :: u32)"
    by (rule unat_ucast_u32_u64)
  also have "\<dots> = unat p"
    using lt by (simp add: unsigned_ucast_eq take_bit_nat_eq_self)
  finally show ?thesis by (simp add: word_unat_eq_iff)
qed

lemma alloc_tcds_Some:
  "alloc_tcds n pool = Some (ts, pool') \<Longrightarrow> ts = take n pool \<and> pool' = drop n pool \<and> n \<le> length pool"
  by (induction n pool arbitrary: ts pool' rule: alloc_tcds.induct)
     (auto split: option.splits)

lemma alloc_tcds_enough:
  "n \<le> length pool \<Longrightarrow> alloc_tcds n pool = Some (take n pool, drop n pool)"
  by (induction n pool rule: alloc_tcds.induct) auto

lemma sint_nonneg_uint:
  fixes w :: u32
  assumes "0 \<le> sint w"
  shows "sint w = uint w"
proof -
  have nb: "\<not> bit (uint w) 31"
    using assms bit_last_iff [of w] by (simp add: bit_uint_iff)
  have lt: "uint w < 2 ^ 32" using unsigned_less [of w, where ?'a = int] by simp
  have "uint w = take_bit 32 (uint w)"
    using take_bit_int_eq_self [of "uint w" 32] lt by simp
  also have "\<dots> = take_bit 31 (uint w)"
    using nb take_bit_Suc_from_most [of 31 "uint w"] by simp
  finally have "uint w = take_bit 31 (uint w)" .
  moreover have "sint w = take_bit 31 (uint w)"
    using nb by (simp add: sint_uint signed_take_bit_eq_if_positive)
  ultimately show ?thesis by simp
qed

lemma nat_sint_nonneg: "0 \<le> sint (w :: u32) \<Longrightarrow> nat (sint w) = unat w"
  by (simp add: sint_nonneg_uint)

lemma slave_sg_loop_total:
  "nb \<noteq> 0 \<Longrightarrow> length ts \<le> length sgl \<Longrightarrow> \<exists>r. slave_sg_loop h cfg nb sg_len all i ts sgl = Inr r"
proof (induction ts arbitrary: sgl i)
  case Nil
  then show ?case by simp
next
  case (Cons t ts)
  then obtain sg sgl' where sgl: "sgl = sg # sgl'" by (cases sgl) auto
  with Cons.prems have "length ts \<le> length sgl'" by simp
  from Cons.IH [OF Cons.prems(1) this, of "Suc i"] obtain r where
    "slave_sg_loop h cfg nb sg_len all (Suc i) ts sgl' = Inr r" by blast
  with Cons.prems(1) sgl show ?case by (simp add: Let_def)
qed

lemma slave_sg_loop_entries:
  "slave_sg_loop h cfg nb sg_len all i ts sgl = Inr r \<Longrightarrow>
   length r = length ts \<and>
   (\<forall>k<length ts.
      ptcd (r ! k) = ptcd (ts ! k) \<and>
      f_enable_sg (tcd_decode h (vtcd (r ! k))) = (i + k < unat (sg_len - 1)) \<and>
      f_major_int (tcd_decode h (vtcd (r ! k))) = (\<not> i + k < unat (sg_len - 1)) \<and>
      f_disable_req (tcd_decode h (vtcd (r ! k))) = (\<not> i + k < unat (sg_len - 1)) \<and>
      f_dlast_sga (tcd_decode h (vtcd (r ! k))) =
        (if i + k < unat (sg_len - 1) then ucast (ptcd (all ! (i + k + 1))) else 0))"
proof (induction h cfg nb sg_len all i ts sgl arbitrary: r rule: slave_sg_loop.induct)
  case (1 h cfg nb sg_len all i sgl)
  then show ?case by simp
next
  case (2 h cfg nb sg_len all i t ts)
  then show ?case by simp
next
  case (3 h cfg nb sg_len all i t ts sg sgl)
  from "3.prems" have nb: "nb \<noteq> 0"
    by (auto simp add: Let_def split: if_splits)
  from "3.prems" nb obtain r' where
    rec: "slave_sg_loop h cfg nb sg_len all (Suc i) ts sgl = Inr r'"
    by (auto simp add: Let_def split: sum.splits)
  from "3.prems" nb rec obtain t' where r: "r = t' # r'"
    and t': "ptcd t' = ptcd t"
      "f_enable_sg (tcd_decode h (vtcd t')) = (i < unat (sg_len - 1))"
      "f_major_int (tcd_decode h (vtcd t')) = (\<not> i < unat (sg_len - 1))"
      "f_disable_req (tcd_decode h (vtcd t')) = (\<not> i < unat (sg_len - 1))"
      "f_dlast_sga (tcd_decode h (vtcd t')) =
        (if i < unat (sg_len - 1) then ucast (ptcd (all ! (i + 1))) else 0)"
    by (auto simp add: Let_def tcd_decode_fill split: if_splits)
  have ih: "length r' = length ts \<and>
   (\<forall>k<length ts.
      ptcd (r' ! k) = ptcd (ts ! k) \<and>
      f_enable_sg (tcd_decode h (vtcd (r' ! k))) = (Suc i + k < unat (sg_len - 1)) \<and>
      f_major_int (tcd_decode h (vtcd (r' ! k))) = (\<not> Suc i + k < unat (sg_len - 1)) \<and>
      f_disable_req (tcd_decode h (vtcd (r' ! k))) = (\<not> Suc i + k < unat (sg_len - 1)) \<and>
      f_dlast_sga (tcd_decode h (vtcd (r' ! k))) =
        (if Suc i + k < unat (sg_len - 1) then ucast (ptcd (all ! (Suc i + k + 1))) else 0))"
    using "3.IH" [OF refl refl refl refl nb refl refl rec] by simp
  show ?case
  proof (intro conjI allI impI)
    show "length r = length (t # ts)" using r ih by simp
  next
    fix k assume k: "k < length (t # ts)"
    show "ptcd (r ! k) = ptcd ((t # ts) ! k)"
      using k r t' ih by (cases k) auto
    show "f_enable_sg (tcd_decode h (vtcd (r ! k))) = (i + k < unat (sg_len - 1))"
      using k r t' ih by (cases k) auto
    show "f_major_int (tcd_decode h (vtcd (r ! k))) = (\<not> i + k < unat (sg_len - 1))"
      using k r t' ih by (cases k) auto
    show "f_disable_req (tcd_decode h (vtcd (r ! k))) = (\<not> i + k < unat (sg_len - 1))"
      using k r t' ih by (cases k) auto
    show "f_dlast_sga (tcd_decode h (vtcd (r ! k))) =
        (if i + k < unat (sg_len - 1) then ucast (ptcd (all ! (i + k + 1))) else 0)"
      using k r t' ih by (cases k) auto
  qed
qed


lemma unat_minus_one_u32: "(w :: u32) \<noteq> 0 \<Longrightarrow> unat (w - 1) = unat w - 1"
proof -
  assume "w \<noteq> 0"
  then have "(1 :: u32) \<le> w" by (simp add: word_le_nat_alt unat_gt_0 Suc_leI)
  from unat_sub [OF this] show ?thesis by simp
qed


lemma prep_slave_sg_chain_aux:
  assumes built: "fsl_edma_prep_slave_sg h kzalloc_ok fsl_chan sgl sg_len = Inr (Some d, fsl_chan')"
    and k: "k = unat sg_len" "1 \<le> k"
  shows "is_slave_direction (dir (fsc fsl_chan)) \<and> \<not> iscyclic d \<and>
         length (tcd d) = k \<and> n_tcds d = sg_len \<and>
         map ptcd (tcd d) = map ptcd (take k (tcd_pool fsl_chan)) \<and>
         (\<forall>i. i + 1 < k \<longrightarrow>
            f_enable_sg (tcd_decode h (vtcd (tcd d ! i))) \<and>
            f_dlast_sga (tcd_decode h (vtcd (tcd d ! i))) = ucast (ptcd (tcd d ! (i + 1)))) \<and>
         f_disable_req (tcd_decode h (vtcd (tcd d ! (k - 1)))) \<and>
         f_major_int (tcd_decode h (vtcd (tcd d ! (k - 1)))) \<and>
         \<not> f_enable_sg (tcd_decode h (vtcd (tcd d ! (k - 1)))) \<and>
         f_dlast_sga (tcd_decode h (vtcd (tcd d ! (k - 1)))) = 0"
proof -
  from built have slave: "is_slave_direction (dir (fsc fsl_chan))"
    by (auto simp add: fsl_edma_prep_slave_sg_def split: if_splits)
  from built slave obtain d0 c1 where
    alloc: "fsl_edma_alloc_desc kzalloc_ok fsl_chan (sint sg_len) = (Some d0, c1)"
    by (auto simp add: fsl_edma_prep_slave_sg_def split: prod.splits option.splits)
  from built slave alloc have nonneg: "0 \<le> sint sg_len"
    by (auto simp add: fsl_edma_prep_slave_sg_def Let_def split: if_splits)
  from built slave alloc nonneg obtain ts where
    loop: "slave_sg_loop h (fsc c1) (addr_width (fsc c1) * burst (fsc c1)) sg_len (tcd d0) 0
             (tcd d0) sgl = Inr ts"
    and d: "d = d0\<lparr>iscyclic := False, tcd := ts\<rparr>"
    by (auto simp add: fsl_edma_prep_slave_sg_def Let_def vchan_tx_prep_def split: sum.splits)
  from alloc have d0: "tcd d0 = take k (tcd_pool fsl_chan)" "n_tcds d0 = sg_len"
    "k \<le> length (tcd_pool fsl_chan)"
    using nonneg k
    by (auto simp add: fsl_edma_alloc_desc_def nat_sint_nonneg dest!: alloc_tcds_Some
             split: if_splits option.splits)
  then have len0: "length (tcd d0) = k" by simp
  note ent = slave_sg_loop_entries [OF loop]
  from k have nz: "sg_len \<noteq> 0" by auto
  have km: "unat (sg_len - 1) = k - 1" using unat_minus_one_u32 [OF nz] k by simp
  have ptcds: "map ptcd ts = map ptcd (tcd d0)"
    using ent len0 by (auto intro!: nth_equalityI)
  show ?thesis
  proof (intro conjI allI impI)
    show "is_slave_direction (dir (fsc fsl_chan))" by (rule slave)
    show "\<not> iscyclic d" using d by simp
    show "length (tcd d) = k" using d ent len0 by simp
    show "n_tcds d = sg_len" using d d0 by simp
    show "map ptcd (tcd d) = map ptcd (take k (tcd_pool fsl_chan))"
      using d ptcds d0 by simp
  next
    fix i assume i: "i + 1 < k"
    then have ik: "i < length (tcd d0)" "i + 1 < length (tcd d0)" using len0 by auto
    from i have lt: "0 + i < unat (sg_len - 1)" using km by simp
    show "f_enable_sg (tcd_decode h (vtcd (tcd d ! i)))"
      using ent ik lt d by simp
    have "ptcd (ts ! (i + 1)) = ptcd (tcd d0 ! (i + 1))" using ent ik by simp
    then show "f_dlast_sga (tcd_decode h (vtcd (tcd d ! i))) = ucast (ptcd (tcd d ! (i + 1)))"
      using ent ik lt d by simp
  next
    have last: "k - 1 < length (tcd d0)" "\<not> 0 + (k - 1) < unat (sg_len - 1)"
      using len0 k km by auto
    show "f_disable_req (tcd_decode h (vtcd (tcd d ! (k - 1))))"
      using ent last d by simp
    show "f_major_int (tcd_decode h (vtcd (tcd d ! (k - 1))))"
      using ent last d by simp
    show "\<not> f_enable_sg (tcd_decode h (vtcd (tcd d ! (k - 1))))"
      using ent last d by simp
    show "f_dlast_sga (tcd_decode h (vtcd (tcd d ! (k - 1)))) = 0"
      using ent last d by simp
  qed
qed


text \<open>
  Claim C2: whenever \<^verbatim>\<open>fsl_edma_prep_slave_sg\<close> builds a descriptor for \<open>k \<ge> 1\<close>
  segments (it does so only on a channel configured for a slave direction), the descriptor
  has exactly \<open>k\<close> entries, in the pool's first \<open>k\<close> blocks; entries \<open>0 .. k - 2\<close> have
  the scatter-gather-link flag set and a link field holding the bus address of the next
  entry: the field is 32 bits wide and holds the address as the \<^verbatim>\<open>u32\<close> the C code
  assigns, which is the address itself when the block lies below 4 GiB; the last entry has
  disable-on-complete and major-interrupt set, scatter-gather-link clear and a zero link.
\<close>

theorem fsl_edma_prep_slave_sg_chain:
  assumes built: "fsl_edma_prep_slave_sg h kzalloc_ok fsl_chan sgl sg_len = Inr (Some d, fsl_chan')"
    and k: "k = unat sg_len" "1 \<le> k"
  shows "is_slave_direction (dir (fsc fsl_chan)) \<and> \<not> iscyclic d \<and>
         length (tcd d) = k \<and> n_tcds d = sg_len \<and>
         map ptcd (tcd d) = map ptcd (take k (tcd_pool fsl_chan)) \<and>
         (\<forall>i. i + 1 < k \<longrightarrow>
            f_enable_sg (tcd_decode h (vtcd (tcd d ! i))) \<and>
            f_dlast_sga (tcd_decode h (vtcd (tcd d ! i))) = ucast (ptcd (tcd d ! (i + 1))) \<and>
            (unat (ptcd (tcd d ! (i + 1))) < 2 ^ 32 \<longrightarrow>
               ucast (f_dlast_sga (tcd_decode h (vtcd (tcd d ! i)))) = ptcd (tcd d ! (i + 1)))) \<and>
         f_disable_req (tcd_decode h (vtcd (tcd d ! (k - 1)))) \<and>
         f_major_int (tcd_decode h (vtcd (tcd d ! (k - 1)))) \<and>
         \<not> f_enable_sg (tcd_decode h (vtcd (tcd d ! (k - 1)))) \<and>
         f_dlast_sga (tcd_decode h (vtcd (tcd d ! (k - 1)))) = 0"
proof -
  note aux = prep_slave_sg_chain_aux [OF built k]
  have exact: "ucast (f_dlast_sga (tcd_decode h (vtcd (tcd d ! i)))) = ptcd (tcd d ! (i + 1))"
    if "i + 1 < k" "unat (ptcd (tcd d ! (i + 1))) < 2 ^ 32" for i
    using aux that ucast_u64_u32_u64 by simp
  from aux exact show ?thesis by blast
qed


text \<open>
  A descriptor is built whenever the channel is configured for a slave direction, memory is
  found, the count is that of a C \<^verbatim>\<open>int\<close>, the pool and the list hold that many
  entries and the bytes per request are not zero.
\<close>

lemma fsl_edma_prep_slave_sg_builds:
  assumes slave: "is_slave_direction (dir (fsc fsl_chan))"
    and mem: "kzalloc_ok"
    and int: "unat sg_len < 2 ^ 31"
    and pool: "unat sg_len \<le> length (tcd_pool fsl_chan)"
    and sgl: "unat sg_len \<le> length sgl"
    and nb: "addr_width (fsc fsl_chan) * burst (fsc fsl_chan) \<noteq> 0"
  shows "\<exists>d c'. fsl_edma_prep_slave_sg h kzalloc_ok fsl_chan sgl sg_len = Inr (Some d, c')"
proof -
  have sg: "sint sg_len = int (unat sg_len)" using sint_small_u32 [OF int] .
  then have n: "nat (sint sg_len) = unat sg_len" by simp
  have alloc: "alloc_tcds (nat (sint sg_len)) (tcd_pool fsl_chan)
                 = Some (take (unat sg_len) (tcd_pool fsl_chan), drop (unat sg_len) (tcd_pool fsl_chan))"
    unfolding n using alloc_tcds_enough [OF pool] .
  have len: "length (take (unat sg_len) (tcd_pool fsl_chan)) \<le> length sgl"
    using pool sgl by simp
  from slave_sg_loop_total [OF nb len] obtain r where
    "slave_sg_loop h (fsc fsl_chan) (addr_width (fsc fsl_chan) * burst (fsc fsl_chan)) sg_len
       (take (unat sg_len) (tcd_pool fsl_chan)) 0 (take (unat sg_len) (tcd_pool fsl_chan)) sgl = Inr r"
    by blast
  then show ?thesis
    using slave mem alloc sg
    by (simp add: fsl_edma_prep_slave_sg_def fsl_edma_alloc_desc_def Let_def)
qed

lemma built_cases:
  "(case r of Inr (Some d, c') \<Rightarrow> True | _ \<Rightarrow> False) \<Longrightarrow> \<exists>d c'. r = Inr (Some d, c')"
  by (auto split: sum.splits prod.splits option.splits)

text \<open>
  The scenario of the spec: two segments of 64 bytes on the channel configured
  memory-to-device. The descriptor has two entries; the first links to the second, at bus
  address \<open>0x80100020\<close>, and the second ends the chain.
\<close>

theorem fsl_edma_prep_slave_sg_chain_witness:
  "\<exists>d c'. fsl_edma_prep_slave_sg CPU_LITTLE_ENDIAN True ex_chan_tx ex_sgl 2 = Inr (Some d, c') \<and>
     (2 :: nat) = unat (2 :: u32) \<and> (1 :: nat) \<le> 2 \<and>
     is_slave_direction (dir (fsc ex_chan_tx)) \<and> length (tcd d) = 2 \<and>
     f_enable_sg (tcd_decode CPU_LITTLE_ENDIAN (vtcd (tcd d ! 0))) \<and>
     f_dlast_sga (tcd_decode CPU_LITTLE_ENDIAN (vtcd (tcd d ! 0))) = 0x80100020 \<and>
     ptcd (tcd d ! 1) = 0x80100020 \<and>
     f_disable_req (tcd_decode CPU_LITTLE_ENDIAN (vtcd (tcd d ! 1))) \<and>
     f_major_int (tcd_decode CPU_LITTLE_ENDIAN (vtcd (tcd d ! 1))) \<and>
     \<not> f_enable_sg (tcd_decode CPU_LITTLE_ENDIAN (vtcd (tcd d ! 1))) \<and>
     f_dlast_sga (tcd_decode CPU_LITTLE_ENDIAN (vtcd (tcd d ! 1))) = 0"
proof -
  have "case fsl_edma_prep_slave_sg CPU_LITTLE_ENDIAN True ex_chan_tx ex_sgl 2 of
          Inr (Some d, c') \<Rightarrow> True | _ \<Rightarrow> False"
    by code_simp
  then obtain d c' where
    built: "fsl_edma_prep_slave_sg CPU_LITTLE_ENDIAN True ex_chan_tx ex_sgl 2 = Inr (Some d, c')"
    using built_cases by blast
  have k: "(2 :: nat) = unat (2 :: u32)" "(1 :: nat) \<le> 2" by simp_all
  note c = fsl_edma_prep_slave_sg_chain [OF built k]
  have pool: "map ptcd (take 2 (tcd_pool ex_chan_tx)) = [0x80100000, 0x80100020]"
    by code_simp
  from c pool have p1: "ptcd (tcd d ! 1) = 0x80100020"
    by (metis One_nat_def length_map lessI nth_Cons_0 nth_Cons_Suc nth_map numeral_2_eq_2)
  from c have link: "f_enable_sg (tcd_decode CPU_LITTLE_ENDIAN (vtcd (tcd d ! 0))) \<and>
      f_dlast_sga (tcd_decode CPU_LITTLE_ENDIAN (vtcd (tcd d ! 0))) = ucast (ptcd (tcd d ! (0 + 1)))"
    by simp
  have u: "(ucast (0x80100020 :: u64) :: u32) = 0x80100020" by simp
  show ?thesis
    using built k c link p1 u by (intro exI [of _ d] exI [of _ c']) simp
qed

lemma cyclic_loop_length:
  "length (cyclic_loop h cfg da bl pl nb iter all n i nxt ts) = length ts"
  by (induction ts arbitrary: i nxt) (simp_all add: Let_def)

lemma cyclic_loop_entry:
  "k < length ts \<Longrightarrow>
   ptcd (cyclic_loop h cfg da bl pl nb iter all n i nxt ts ! k) = ptcd (ts ! k) \<and>
   f_dlast_sga (tcd_decode h (vtcd (cyclic_loop h cfg da bl pl nb iter all n i nxt ts ! k)))
     = ucast (ptcd (all ! ((i + k + 1) mod n))) \<and>
   f_major_int (tcd_decode h (vtcd (cyclic_loop h cfg da bl pl nb iter all n i nxt ts ! k))) \<and>
   f_enable_sg (tcd_decode h (vtcd (cyclic_loop h cfg da bl pl nb iter all n i nxt ts ! k))) \<and>
   \<not> f_disable_req (tcd_decode h (vtcd (cyclic_loop h cfg da bl pl nb iter all n i nxt ts ! k))) \<and>
   f_nbytes (tcd_decode h (vtcd (cyclic_loop h cfg da bl pl nb iter all n i nxt ts ! k))) = nb \<and>
   f_citer (tcd_decode h (vtcd (cyclic_loop h cfg da bl pl nb iter all n i nxt ts ! k)))
     = iter AND 0x7FFF \<and>
   f_biter (tcd_decode h (vtcd (cyclic_loop h cfg da bl pl nb iter all n i nxt ts ! k)))
     = iter AND 0x7FFF"
proof (induction ts arbitrary: i nxt k)
  case Nil
  then show ?case by simp
next
  case (Cons t ts)
  show ?case
  proof (cases k)
    case 0
    then show ?thesis by (simp add: Let_def tcd_decode_fill)
  next
    case (Suc j)
    with Cons.prems have "j < length ts" by simp
    from Cons.IH [OF this, of "Suc i"] Suc show ?thesis by (simp add: Let_def)
  qed
qed


text \<open>
  Claim C3 as stated fails in its last part: the iteration count is computed in a
  \<^verbatim>\<open>u16\<close> and stored through the 15-bit mask. With a period of \<open>0x8000\<close> bytes moved one
  byte at a time the quotient is 32768 and the stored count is 0.
\<close>

theorem fsl_edma_prep_dma_cyclic_counterexample:
  "(case fsl_edma_prep_dma_cyclic CPU_LITTLE_ENDIAN True ex_chan_byte 0x80000000 0x8000 0x8000 of
      Inr (Some d, c') \<Rightarrow>
        f_citer (tcd_decode CPU_LITTLE_ENDIAN (vtcd (tcd d ! 0))) = 0 \<and>
        addr_width (fsc ex_chan_byte) = 1 \<and> burst (fsc ex_chan_byte) = 1 \<and>
        (0x8000 :: size_t) div (1 * 1) = 0x8000
    | _ \<Rightarrow> False)"
  by code_simp


lemma prep_dma_cyclic_ring_aux:
  assumes built: "fsl_edma_prep_dma_cyclic h kzalloc_ok fsl_chan dma_addr buf_len period_len
                    = Inr (Some d, fsl_chan')"
    and fits: "unat buf_len div unat period_len < 2 ^ 31"
    and n: "n = unat buf_len div unat period_len"
    and nb: "nb = addr_width (fsc fsl_chan) * burst (fsc fsl_chan)"
  shows "length (tcd d) = n \<and> unat (n_tcds d) = n \<and> iscyclic d \<and> cyclic_len d = ucast buf_len \<and>
         map ptcd (tcd d) = map ptcd (take n (tcd_pool fsl_chan)) \<and>
         (\<forall>i<n.
            f_dlast_sga (tcd_decode h (vtcd (tcd d ! i))) = ucast (ptcd (tcd d ! ((i + 1) mod n))) \<and>
            f_major_int (tcd_decode h (vtcd (tcd d ! i))) \<and>
            f_enable_sg (tcd_decode h (vtcd (tcd d ! i))) \<and>
            \<not> f_disable_req (tcd_decode h (vtcd (tcd d ! i))) \<and>
            f_citer (tcd_decode h (vtcd (tcd d ! i))) = ucast (period_len div ucast nb) AND 0x7FFF \<and>
            f_biter (tcd_decode h (vtcd (tcd d ! i))) = ucast (period_len div ucast nb) AND 0x7FFF)"
proof -
  from built have slave: "is_slave_direction (dir (fsc fsl_chan))" and pz: "period_len \<noteq> 0"
    by (auto simp add: fsl_edma_prep_dma_cyclic_def split: if_splits)
  let ?sg = "sint (ucast (buf_len div period_len) :: u32)"
  have q: "unat (buf_len div period_len) = n" using n by (simp add: unat_div)
  have u: "unat (ucast (buf_len div period_len) :: u32) = n"
    using q fits n by (simp add: unsigned_ucast_eq take_bit_nat_eq_self)
  have sg: "?sg = int n" using sint_small_u32 [of "ucast (buf_len div period_len)"] u fits n by simp
  from built slave pz obtain d0 c1 where
    alloc: "fsl_edma_alloc_desc kzalloc_ok fsl_chan ?sg = (Some d0, c1)"
    by (auto simp add: fsl_edma_prep_dma_cyclic_def Let_def split: prod.splits option.splits)
  from alloc have c1: "fsc c1 = fsc fsl_chan"
    by (auto simp add: fsl_edma_alloc_desc_def split: if_splits option.splits)
  from built slave pz alloc have nbz: "nb \<noteq> 0"
    unfolding nb by (auto simp add: fsl_edma_prep_dma_cyclic_def Let_def c1 split: if_splits)
  from built slave pz alloc nbz have d:
    "d = d0\<lparr>iscyclic := True, cyclic_len := ucast buf_len,
            tcd := cyclic_loop h (fsc fsl_chan) dma_addr buf_len period_len nb
                     (ucast (period_len div ucast nb)) (tcd d0) n 0 dma_addr (tcd d0)\<rparr>"
    unfolding nb
    by (auto simp add: fsl_edma_prep_dma_cyclic_def Let_def c1 sg vchan_tx_prep_def split: if_splits)
  from alloc have d0: "tcd d0 = take n (tcd_pool fsl_chan)" "n_tcds d0 = word_of_int ?sg"
    "n \<le> length (tcd_pool fsl_chan)"
    by (auto simp add: fsl_edma_alloc_desc_def sg dest!: alloc_tcds_Some
             split: if_splits option.splits)
  then have len0: "length (tcd d0) = n" by simp
  have nt: "unat (n_tcds d0) = n" using d0(2) u by simp
  note ent = cyclic_loop_entry [where ts = "tcd d0" and all = "tcd d0" and i = 0 and n = n
      and h = h and cfg = "fsc fsl_chan" and da = dma_addr and bl = buf_len and pl = period_len
      and nb = nb and iter = "ucast (period_len div ucast nb)" and nxt = dma_addr]
  have ptcds: "map ptcd (tcd d) = map ptcd (tcd d0)"
    unfolding d using ent len0 by (auto intro!: nth_equalityI simp add: cyclic_loop_length)
  show ?thesis
  proof (intro conjI allI impI)
    show "length (tcd d) = n" unfolding d by (simp add: cyclic_loop_length len0)
    show "unat (n_tcds d) = n" unfolding d using nt by simp
    show "iscyclic d" unfolding d by simp
    show "cyclic_len d = ucast buf_len" unfolding d by simp
    show "map ptcd (tcd d) = map ptcd (take n (tcd_pool fsl_chan))" using ptcds d0 by simp
  next
    fix i assume i: "i < n"
    then have il: "i < length (tcd d0)" and ml: "(i + 1) mod n < length (tcd d0)"
      using len0 by auto
    have nxt: "ptcd (tcd d ! ((i + 1) mod n)) = ptcd (tcd d0 ! ((i + 1) mod n))"
      using ptcds ml len0 by (metis length_map nth_map)
    show "f_dlast_sga (tcd_decode h (vtcd (tcd d ! i))) = ucast (ptcd (tcd d ! ((i + 1) mod n)))"
      unfolding nxt unfolding d using ent [OF il] by simp
    show "f_major_int (tcd_decode h (vtcd (tcd d ! i)))"
      unfolding d using ent [OF il] by simp
    show "f_enable_sg (tcd_decode h (vtcd (tcd d ! i)))"
      unfolding d using ent [OF il] by simp
    show "\<not> f_disable_req (tcd_decode h (vtcd (tcd d ! i)))"
      unfolding d using ent [OF il] by simp
    show "f_citer (tcd_decode h (vtcd (tcd d ! i))) = ucast (period_len div ucast nb) AND 0x7FFF"
      unfolding d using ent [OF il] by simp
    show "f_biter (tcd_decode h (vtcd (tcd d ! i))) = ucast (period_len div ucast nb) AND 0x7FFF"
      unfolding d using ent [OF il] by simp
  qed
qed

text \<open>
  Claim C3, amended: whenever \<^verbatim>\<open>fsl_edma_prep_dma_cyclic\<close> builds a descriptor for a buffer
  of length \<open>L\<close> and a period \<open>P\<close> with \<open>L div P\<close> below \<open>2^31\<close> (the count is a C
  \<^verbatim>\<open>int\<close>), the descriptor has exactly \<open>L div P\<close> entries forming a true ring (the link
  field of entry \<open>i\<close> holds the bus address of entry \<open>(i + 1) mod n\<close>, as the \<^verbatim>\<open>u32\<close> the C
  code assigns: the address itself when the block lies below 4 GiB), every entry has major-interrupt and scatter-gather-link set and
  disable-on-complete clear, and the iteration counts of every entry are
  \<open>P div nbytes\<close> cut to 16 bits and masked to 15, where \<open>nbytes\<close> is the 32-bit product
  of address width and burst. They equal \<open>P div (addr_width * burst)\<close> whenever that product
  fits 32 bits and the quotient is below 32768.
\<close>


theorem fsl_edma_prep_dma_cyclic_ring:
  assumes built: "fsl_edma_prep_dma_cyclic h kzalloc_ok fsl_chan dma_addr buf_len period_len
                    = Inr (Some d, fsl_chan')"
    and fits: "unat buf_len div unat period_len < 2 ^ 31"
    and n: "n = unat buf_len div unat period_len"
    and nb: "nb = addr_width (fsc fsl_chan) * burst (fsc fsl_chan)"
  shows "length (tcd d) = n \<and> unat (n_tcds d) = n \<and> iscyclic d \<and> cyclic_len d = ucast buf_len \<and>
         map ptcd (tcd d) = map ptcd (take n (tcd_pool fsl_chan)) \<and>
         (\<forall>i<n.
            f_dlast_sga (tcd_decode h (vtcd (tcd d ! i))) = ucast (ptcd (tcd d ! ((i + 1) mod n))) \<and>
            (unat (ptcd (tcd d ! ((i + 1) mod n))) < 2 ^ 32 \<longrightarrow>
               ucast (f_dlast_sga (tcd_decode h (vtcd (tcd d ! i)))) = ptcd (tcd d ! ((i + 1) mod n))) \<and>
            f_major_int (tcd_decode h (vtcd (tcd d ! i))) \<and>
            f_enable_sg (tcd_decode h (vtcd (tcd d ! i))) \<and>
            \<not> f_disable_req (tcd_decode h (vtcd (tcd d ! i))) \<and>
            f_citer (tcd_decode h (vtcd (tcd d ! i))) = ucast (period_len div ucast nb) AND 0x7FFF \<and>
            f_biter (tcd_decode h (vtcd (tcd d ! i))) = ucast (period_len div ucast nb) AND 0x7FFF) \<and>
         (unat (addr_width (fsc fsl_chan)) * unat (burst (fsc fsl_chan)) < 2 ^ 32 \<and>
          unat period_len div (unat (addr_width (fsc fsl_chan)) * unat (burst (fsc fsl_chan))) < 2 ^ 15
          \<longrightarrow> (\<forall>i<n.
                 unat (f_citer (tcd_decode h (vtcd (tcd d ! i))))
                   = unat period_len div (unat (addr_width (fsc fsl_chan)) * unat (burst (fsc fsl_chan))) \<and>
                 unat (f_biter (tcd_decode h (vtcd (tcd d ! i))))
                   = unat period_len div (unat (addr_width (fsc fsl_chan)) * unat (burst (fsc fsl_chan)))))"
proof -
  note aux = prep_dma_cyclic_ring_aux [OF built fits n nb]
  have exact: "\<forall>i<n.
      unat (f_citer (tcd_decode h (vtcd (tcd d ! i))))
        = unat period_len div (unat (addr_width (fsc fsl_chan)) * unat (burst (fsc fsl_chan))) \<and>
      unat (f_biter (tcd_decode h (vtcd (tcd d ! i))))
        = unat period_len div (unat (addr_width (fsc fsl_chan)) * unat (burst (fsc fsl_chan)))"
    if "unat (addr_width (fsc fsl_chan)) * unat (burst (fsc fsl_chan)) < 2 ^ 32"
      and "unat period_len div (unat (addr_width (fsc fsl_chan)) * unat (burst (fsc fsl_chan))) < 2 ^ 15"
    using aux iter_exact [OF that] unfolding nb by simp
  have link: "ucast (f_dlast_sga (tcd_decode h (vtcd (tcd d ! i)))) = ptcd (tcd d ! ((i + 1) mod n))"
    if "i < n" "unat (ptcd (tcd d ! ((i + 1) mod n))) < 2 ^ 32" for i
    using aux that ucast_u64_u32_u64 by simp
  from aux exact link show ?thesis by blast
qed

text \<open>
  A ring of four periods of 64 bytes over a buffer of 256 bytes, on the channel of the
  scenario (16 bytes per request): four entries, the last linked back to the first, each
  with an iteration count of 4.
\<close>

theorem fsl_edma_prep_dma_cyclic_ring_witness:
  "\<exists>d c'. fsl_edma_prep_dma_cyclic CPU_LITTLE_ENDIAN True ex_chan_tx 0x80000000 256 64
             = Inr (Some d, c') \<and>
     unat (256 :: size_t) div unat (64 :: size_t) < 2 ^ 31 \<and>
     length (tcd d) = 4 \<and> iscyclic d \<and>
     f_dlast_sga (tcd_decode CPU_LITTLE_ENDIAN (vtcd (tcd d ! 3))) = 0x80100000 \<and>
     ptcd (tcd d ! 0) = 0x80100000 \<and>
     f_major_int (tcd_decode CPU_LITTLE_ENDIAN (vtcd (tcd d ! 3))) \<and>
     f_enable_sg (tcd_decode CPU_LITTLE_ENDIAN (vtcd (tcd d ! 3))) \<and>
     \<not> f_disable_req (tcd_decode CPU_LITTLE_ENDIAN (vtcd (tcd d ! 3))) \<and>
     unat (f_citer (tcd_decode CPU_LITTLE_ENDIAN (vtcd (tcd d ! 3)))) = 4"
proof -
  have "case fsl_edma_prep_dma_cyclic CPU_LITTLE_ENDIAN True ex_chan_tx 0x80000000 256 64 of
          Inr (Some d, c') \<Rightarrow> True | _ \<Rightarrow> False"
    by code_simp
  then obtain d c' where
    built: "fsl_edma_prep_dma_cyclic CPU_LITTLE_ENDIAN True ex_chan_tx 0x80000000 256 64
              = Inr (Some d, c')"
    using built_cases by blast
  have fits: "unat (256 :: size_t) div unat (64 :: size_t) < 2 ^ 31" by simp
  have n: "(4 :: nat) = unat (256 :: size_t) div unat (64 :: size_t)" by simp
  note c = fsl_edma_prep_dma_cyclic_ring [OF built fits n refl]
  have cfg: "addr_width (fsc ex_chan_tx) = 4" "burst (fsc ex_chan_tx) = 4"
    by (simp_all add: ex_chan_tx_def fsl_edma_slave_config_def Let_def ex_cfg_def)
  have pool: "map ptcd (take 4 (tcd_pool ex_chan_tx))
                = [0x80100000, 0x80100020, 0x80100040, 0x80100060]"
    by code_simp
  from c pool have p: "map ptcd (tcd d) = [0x80100000, 0x80100020, 0x80100040, 0x80100060]"
    by simp
  have len: "length (tcd d) = 4" using c by simp
  have p0: "ptcd (tcd d ! 0) = 0x80100000"
    using arg_cong [OF p, of "\<lambda>l. l ! 0"] len by simp
  from c have e3:
    "f_dlast_sga (tcd_decode CPU_LITTLE_ENDIAN (vtcd (tcd d ! 3))) = ucast (ptcd (tcd d ! ((3 + 1) mod 4)))"
    "f_major_int (tcd_decode CPU_LITTLE_ENDIAN (vtcd (tcd d ! 3)))"
    "f_enable_sg (tcd_decode CPU_LITTLE_ENDIAN (vtcd (tcd d ! 3)))"
    "\<not> f_disable_req (tcd_decode CPU_LITTLE_ENDIAN (vtcd (tcd d ! 3)))"
    by simp_all
  from c cfg have it: "unat (f_citer (tcd_decode CPU_LITTLE_ENDIAN (vtcd (tcd d ! 3)))) = 4"
    by simp
  have u: "(ucast (0x80100000 :: u64) :: u32) = 0x80100000" by simp
  show ?thesis
    using built fits len c e3 it p0 u by (intro exI [of _ d] exI [of _ c']) simp
qed


text \<open>
  A cyclic descriptor is built whenever the channel is configured for a slave direction,
  memory is found, the period is not zero, the number of periods is that of a C
  \<^verbatim>\<open>int\<close> and the pool holds that many blocks, and the bytes per request are not zero.
\<close>

lemma fsl_edma_prep_dma_cyclic_builds:
  assumes slave: "is_slave_direction (dir (fsc fsl_chan))"
    and mem: "kzalloc_ok"
    and pz: "period_len \<noteq> 0"
    and int: "unat buf_len div unat period_len < 2 ^ 31"
    and pool: "unat buf_len div unat period_len \<le> length (tcd_pool fsl_chan)"
    and nb: "addr_width (fsc fsl_chan) * burst (fsc fsl_chan) \<noteq> 0"
  shows "\<exists>d c'. fsl_edma_prep_dma_cyclic h kzalloc_ok fsl_chan dma_addr buf_len period_len
                  = Inr (Some d, c')"
proof -
  let ?n = "unat buf_len div unat period_len"
  have q: "unat (buf_len div period_len) = ?n" by (simp add: unat_div)
  have u: "unat (ucast (buf_len div period_len) :: u32) = ?n"
    using q int by (simp add: unsigned_ucast_eq take_bit_nat_eq_self)
  have sg: "sint (ucast (buf_len div period_len) :: u32) = int ?n"
    using sint_small_u32 [of "ucast (buf_len div period_len)"] u int by simp
  have alloc: "alloc_tcds ?n (tcd_pool fsl_chan)
                 = Some (take ?n (tcd_pool fsl_chan), drop ?n (tcd_pool fsl_chan))"
    using alloc_tcds_enough [OF pool] .
  show ?thesis
    using slave mem pz nb alloc
    by (simp add: fsl_edma_prep_dma_cyclic_def fsl_edma_alloc_desc_def Let_def sg)
qed


section \<open>Residue\<close>

lemma cyclic_residue_exact:
  fixes l a b :: u32
  assumes "unat a \<le> unat b + unat l"
  shows "uint ((ucast l :: u64) - (ucast a - ucast b)) = uint l - (uint a - uint b)"
proof -
  have bounds: "unat l < 2 ^ 32" "unat a < 2 ^ 32" "unat b < 2 ^ 32"
    using unsigned_less [of l, where ?'a = nat] unsigned_less [of a, where ?'a = nat]
      unsigned_less [of b, where ?'a = nat] by simp_all
  have e: "(ucast l :: u64) - (ucast a - ucast b) = ucast l + ucast b - ucast a" by simp
  have lb: "unat ((ucast l :: u64) + ucast b) = unat l + unat b"
  proof -
    have "unat (ucast l :: u64) + unat (ucast b :: u64) < 2 ^ LENGTH(64)"
      using bounds by (simp add: unat_ucast_u32_u64)
    then have "unat ((ucast l :: u64) + ucast b) = unat (ucast l :: u64) + unat (ucast b :: u64)"
      by (simp only: unat_add_lem)
    then show ?thesis by (simp only: unat_ucast_u32_u64)
  qed
  have le: "(ucast a :: u64) \<le> ucast l + ucast b"
    using assms by (simp only: word_le_nat_alt lb unat_ucast_u32_u64)
  have "unat ((ucast l :: u64) + ucast b - ucast a) = unat l + unat b - unat a"
    using unat_sub [OF le] by (simp only: lb unat_ucast_u32_u64)
  then have r: "unat ((ucast l :: u64) - (ucast a - ucast b)) = unat l + unat b - unat a"
    by (simp only: e)
  have "int (unat ((ucast l :: u64) - (ucast a - ucast b)))
          = int (unat l) - (int (unat a) - int (unat b))"
    unfolding r using assms by linarith
  then show ?thesis by simp
qed

text \<open>
  In the memory-to-device direction the source address of the first entry is the start of
  the buffer. On a little-endian CPU, with the live source address not beyond the first
  entry's source address plus the cyclic length, the residue is the cyclic length minus
  (live address minus the first entry's source address), and is not negative; with the live
  address also not below the first entry's source address, it is at most the cyclic length.
\<close>

lemma fsl_edma_desc_residue_cyclic_mem_to_dev:
  assumes ed: "edesc fsl_chan = Some ed" "iscyclic ed" "tcd ed = t0 # ts"
    and d: "dir (fsc fsl_chan) = DMA_MEM_TO_DEV"
    and live: "live = edma_readl edma io
                 (hw_tcd_saddr (edma_get_tcd_addr (soc_ops (socdata edma)) edma fsl_chan))"
    and s0: "s0 = tcd_saddr CPU_LITTLE_ENDIAN (vtcd t0)"
    and upper: "unat live \<le> unat s0 + unat (cyclic_len ed)"
  shows "\<exists>r. fsl_edma_desc_residue CPU_LITTLE_ENDIAN edma io fsl_chan vdesc True = Inr r \<and>
              uint r = uint (cyclic_len ed) - (uint live - uint s0) \<and>
              0 \<le> uint r \<and>
              (unat s0 \<le> unat live \<longrightarrow> uint r \<le> uint (cyclic_len ed))"
proof -
  have raw: "load32 CPU_LITTLE_ENDIAN (saddr (vtcd t0)) = s0"
    by (simp add: s0 tcd_saddr_def le32_to_cpu_def)
  have eq: "fsl_edma_desc_residue CPU_LITTLE_ENDIAN edma io fsl_chan vdesc True
           = Inr (ucast (cyclic_len ed) - (ucast live - ucast s0))"
    using ed d by (simp add: fsl_edma_desc_residue_def Let_def live raw)
  note v = cyclic_residue_exact [OF upper]
  have nonneg: "0 \<le> uint ((ucast (cyclic_len ed) :: u64) - (ucast live - ucast s0))" by simp
  have le: "uint ((ucast (cyclic_len ed) :: u64) - (ucast live - ucast s0)) \<le> uint (cyclic_len ed)"
    if "unat s0 \<le> unat live"
  proof -
    have "int (unat s0) \<le> int (unat live)" using that by (simp only: of_nat_le_iff)
    then have "uint s0 \<le> uint live" by simp
    then show ?thesis unfolding v by linarith
  qed
  from eq v nonneg le show ?thesis by blast
qed

lemma run_cases:
  "(case r of Inr (io, c) \<Rightarrow> (case edesc c of Some ed \<Rightarrow> P io c ed | None \<Rightarrow> False) | Inl f \<Rightarrow> False)
     \<Longrightarrow> \<exists>io c ed. r = Inr (io, c) \<and> edesc c = Some ed \<and> P io c ed"
  by (auto split: sum.splits option.splits)



text \<open>
  The memory-to-device ring of four periods of 64 bytes, with the live source address 64
  bytes into the buffer: 192 bytes are left.
\<close>

lemma fsl_edma_desc_residue_cyclic_mem_to_dev_example:
  "\<exists>io c ed t0 ts.
     chan_run CPU_LITTLE_ENDIAN ex_edma
       [OP_slave_config ex_cfg, OP_submit_cyclic True 0x80000000 256 64, OP_issue_pending]
       (ex_io_saddr, ex_chan) = Inr (io, c) \<and>
     edesc c = Some ed \<and> iscyclic ed \<and> tcd ed = t0 # ts \<and> dir (fsc c) = DMA_MEM_TO_DEV \<and>
     unat (0x80000040 :: u32)
       \<le> unat (tcd_saddr CPU_LITTLE_ENDIAN (vtcd t0)) + unat (cyclic_len ed) \<and>
     unat (tcd_saddr CPU_LITTLE_ENDIAN (vtcd t0)) \<le> unat (0x80000040 :: u32) \<and>
     (\<exists>r. fsl_edma_desc_residue CPU_LITTLE_ENDIAN ex_edma io c (Some ed) True = Inr r \<and>
          uint r = 192 \<and> uint r \<le> uint (cyclic_len ed))"
proof -
  have "case chan_run CPU_LITTLE_ENDIAN ex_edma
       [OP_slave_config ex_cfg, OP_submit_cyclic True 0x80000000 256 64, OP_issue_pending]
       (ex_io_saddr, ex_chan) of
      Inr (io, c) \<Rightarrow>
        (case edesc c of
           Some ed \<Rightarrow>
             iscyclic ed \<and> (case tcd ed of t0 # ts \<Rightarrow>
                tcd_saddr CPU_LITTLE_ENDIAN (vtcd t0) = 0x80000000 | [] \<Rightarrow> False) \<and>
             cyclic_len ed = 256 \<and> dir (fsc c) = DMA_MEM_TO_DEV \<and>
             edma_readl ex_edma io
               (hw_tcd_saddr (edma_get_tcd_addr (soc_ops (socdata ex_edma)) ex_edma c)) = 0x80000040
         | None \<Rightarrow> False)
    | Inl f \<Rightarrow> False"
    by code_simp
  from run_cases [OF this] obtain io c ed where
    run: "chan_run CPU_LITTLE_ENDIAN ex_edma
       [OP_slave_config ex_cfg, OP_submit_cyclic True 0x80000000 256 64, OP_issue_pending]
       (ex_io_saddr, ex_chan) = Inr (io, c)"
    and ed: "edesc c = Some ed" "iscyclic ed" "cyclic_len ed = 256"
    and t: "case tcd ed of t0 # ts \<Rightarrow> tcd_saddr CPU_LITTLE_ENDIAN (vtcd t0) = 0x80000000
            | [] \<Rightarrow> False"
    and d: "dir (fsc c) = DMA_MEM_TO_DEV"
    and live: "edma_readl ex_edma io
               (hw_tcd_saddr (edma_get_tcd_addr (soc_ops (socdata ex_edma)) ex_edma c)) = 0x80000040"
    by blast
  from t obtain t0 ts where ts: "tcd ed = t0 # ts"
    and s0: "tcd_saddr CPU_LITTLE_ENDIAN (vtcd t0) = 0x80000000"
    by (auto split: list.splits)
  have up: "unat (0x80000040 :: u32) \<le> unat (0x80000000 :: u32) + unat (cyclic_len ed)"
    and lo: "unat (0x80000000 :: u32) \<le> unat (0x80000040 :: u32)"
    using ed(3) by simp_all
  from fsl_edma_desc_residue_cyclic_mem_to_dev [OF ed(1,2) ts d live [symmetric] s0 [symmetric] up,
      where vdesc = "Some ed"] lo
  obtain r where r: "fsl_edma_desc_residue CPU_LITTLE_ENDIAN ex_edma io c (Some ed) True = Inr r"
    "uint r = uint (cyclic_len ed) - (uint (0x80000040 :: u32) - uint (0x80000000 :: u32))"
    "uint r \<le> uint (cyclic_len ed)"
    by auto
  from r(2) ed(3) have "uint r = 192" by simp
  with run ed ts s0 d up lo r(1,3) show ?thesis by auto
qed


text \<open>
  Claim C6 fails on the code for a device-to-memory ring. The cyclic branch of
  \<^verbatim>\<open>fsl_edma_desc_residue\<close> subtracts \<^verbatim>\<open>tcd[0].vtcd->saddr\<close> from the live address
  whatever the direction (and without \<^verbatim>\<open>le32_to_cpu\<close>), although its comment names the
  start of the buffer: in this direction the live address is the destination register and
  the source address of every entry is the device address. The scan over a non-cyclic
  descriptor in the same function takes \<^verbatim>\<open>daddr\<close> in this direction. With the ring of four
  periods of 64 bytes at \<open>0x80000000\<close>, the device at \<open>0x40001000\<close> and the live
  destination address \<open>0x80000040\<close>, 192 bytes are left; the function returns
  \<open>0xFFFFFFFFC00010C0\<close>, and \<^verbatim>\<open>fsl_edma_tx_status\<close> reports \<open>0xC00010C0\<close> bytes left of
  a 256-byte buffer.
\<close>

theorem fsl_edma_desc_residue_cyclic_dev_to_mem:
  "(case chan_run CPU_LITTLE_ENDIAN ex_edma
           [OP_slave_config ex_cfg_rx, OP_submit_cyclic True 0x80000000 256 64, OP_issue_pending]
           (ex_io_daddr, ex_chan) of
      Inr (io, c) \<Rightarrow>
        (case edesc c of
           Some ed \<Rightarrow>
             iscyclic ed \<and> status c = DMA_IN_PROGRESS \<and> dir (fsc c) = DMA_DEV_TO_MEM \<and>
             cyclic_len ed = 256 \<and>
             edma_readl ex_edma io
               (hw_tcd_daddr (edma_get_tcd_addr (soc_ops (socdata ex_edma)) ex_edma c)) = 0x80000040 \<and>
             tcd_saddr CPU_LITTLE_ENDIAN (vtcd (hd (tcd ed))) = 0x40001000 \<and>
             tcd_daddr CPU_LITTLE_ENDIAN (vtcd (hd (tcd ed))) = 0x80000000 \<and>
             (256 :: int) - (0x80000040 - 0x80000000) = 192 \<and>
             (256 :: int) - (0x80000040 - 0x40001000) < 0 \<and>
             fsl_edma_desc_residue CPU_LITTLE_ENDIAN ex_edma io c (Some ed) True
               = Inr 0xFFFFFFFFC00010C0 \<and>
             fsl_edma_tx_status CPU_LITTLE_ENDIAN ex_edma io c 1 (Some ex_txstate)
               = Inr (DMA_IN_PROGRESS, Some \<lparr>last = 0, used = 1, residue = 0xC00010C0\<rparr>)
         | None \<Rightarrow> False)
    | Inl f \<Rightarrow> False)"
  by code_simp


section \<open>The active descriptor and the status\<close>

lemma slave_config_frame:
  "edesc (snd (fsl_edma_slave_config c cfg)) = edesc c \<and>
   status (snd (fsl_edma_slave_config c cfg)) = status c"
  by (simp add: fsl_edma_slave_config_def Let_def)

lemma alloc_desc_frame:
  "fsl_edma_alloc_desc kz c n = (x, c') \<Longrightarrow>
     edesc c' = edesc c \<and> status c' = status c \<and> fsc c' = fsc c \<and> vchan c' = vchan c"
  by (auto simp add: fsl_edma_alloc_desc_def split: if_splits option.splits)

lemma prep_slave_sg_frame:
  "fsl_edma_prep_slave_sg h kz c sgl sg_len = Inr (x, c') \<Longrightarrow>
     edesc c' = edesc c \<and> status c' = status c"
  by (auto simp add: fsl_edma_prep_slave_sg_def Let_def
           split: if_splits prod.splits option.splits sum.splits dest: alloc_desc_frame)

lemma prep_dma_cyclic_frame:
  "fsl_edma_prep_dma_cyclic h kz c a l p = Inr (x, c') \<Longrightarrow>
     edesc c' = edesc c \<and> status c' = status c"
  by (auto simp add: fsl_edma_prep_dma_cyclic_def Let_def
           split: if_splits prod.splits option.splits dest: alloc_desc_frame)

lemma submit_frame:
  "submit (Inr (x, c)) io = Inr (io', c') \<Longrightarrow> edesc c' = edesc c \<and> status c' = status c"
  by (auto simp add: submit_def split: option.splits)

lemma submit_Inr:
  "submit p io = Inr s \<Longrightarrow> \<exists>x c. p = Inr (x, c)"
  by (auto simp add: submit_def split: sum.splits)

lemma free_list_frame:
  "edesc (fold fsl_edma_free_desc l c) = edesc c \<and> status (fold fsl_edma_free_desc l c) = status c"
  by (induction l arbitrary: c) (simp_all add: fsl_edma_free_desc_def)

lemma xfer_desc_cases:
  "fsl_edma_xfer_desc h edma io c = Inr (io', c') \<Longrightarrow>
     (edesc c' = edesc c \<and> status c' = status c) \<or>
     (edesc c' \<noteq> None \<and> status c' = DMA_IN_PROGRESS)"
  by (auto simp add: fsl_edma_xfer_desc_def Let_def split: option.splits list.splits)

lemma issue_pending_cases:
  "fsl_edma_issue_pending h edma io c = Inr (io', c') \<Longrightarrow>
     (edesc c' = edesc c \<and> status c' = status c) \<or>
     (edesc c' \<noteq> None \<and> status c' = DMA_IN_PROGRESS)"
  by (auto simp add: fsl_edma_issue_pending_def Let_def
           split: if_splits prod.splits dest!: xfer_desc_cases)

lemma pause_cases:
  "(edesc (snd (snd (fsl_edma_pause edma io c))) = edesc c \<and>
    status (snd (snd (fsl_edma_pause edma io c))) = status c \<and> edesc c = None) \<or>
   (edesc (snd (snd (fsl_edma_pause edma io c))) \<noteq> None \<and>
    status (snd (snd (fsl_edma_pause edma io c))) = DMA_PAUSED)"
  by (simp add: fsl_edma_pause_def Let_def)

lemma resume_cases:
  "(edesc (snd (snd (fsl_edma_resume edma io c))) = edesc c \<and>
    status (snd (snd (fsl_edma_resume edma io c))) = status c \<and> edesc c = None) \<or>
   (edesc (snd (snd (fsl_edma_resume edma io c))) \<noteq> None \<and>
    status (snd (snd (fsl_edma_resume edma io c))) = DMA_IN_PROGRESS)"
  by (simp add: fsl_edma_resume_def Let_def)

lemma terminate_all_edesc:
  "edesc (snd (snd (fsl_edma_terminate_all edma io c))) = None \<and>
   status (snd (snd (fsl_edma_terminate_all edma io c))) = status c"
  by (simp add: fsl_edma_terminate_all_def Let_def vchan_dma_desc_free_list_def
        free_list_frame split: prod.splits)

lemma tx_chan_cases:
  "fsl_edma_tx_chan h edma ch io c = Inr (io', c') \<Longrightarrow>
     (edesc c' = edesc c \<and> status c' = status c \<and> edesc c \<noteq> None) \<or>
     (edesc c' = None \<and> status c' = DMA_COMPLETE) \<or>
     (edesc c' \<noteq> None \<and> status c' = DMA_IN_PROGRESS)"
  by (auto simp add: fsl_edma_tx_chan_def Let_def vchan_cyclic_callback_def
           split: option.splits if_splits dest!: xfer_desc_cases)

lemma tx3_chan_cases:
  "fsl_edma3_tx_chan h edma ch io c = Inr (io', c') \<Longrightarrow>
     (edesc c' = edesc c \<and> status c' = status c \<and> edesc c \<noteq> None) \<or>
     (edesc c' = None \<and> status c' = DMA_COMPLETE) \<or>
     (edesc c' \<noteq> None \<and> status c' = DMA_IN_PROGRESS)"
  by (auto simp add: fsl_edma3_tx_chan_def Let_def vchan_cyclic_callback_def
           split: option.splits if_splits dest!: xfer_desc_cases)

lemma err_chan_status:
  "status (snd (fsl_edma_err_chan edma ch io c)) = DMA_ERROR \<and>
   status (snd (fsl_edma3_err_chan edma ch io c)) = DMA_ERROR"
  by (simp add: fsl_edma_err_chan_def fsl_edma3_err_chan_def Let_def)

text \<open>A referenced descriptor excludes the status complete: kept by every operation.\<close>

lemma chan_step_active:
  assumes step: "chan_step h edma op (io, c) = Inr (io', c')"
    and inv: "edesc c \<noteq> None \<longrightarrow> status c \<noteq> DMA_COMPLETE"
  shows "edesc c' \<noteq> None \<longrightarrow> status c' \<noteq> DMA_COMPLETE"
proof (cases op)
  case (OP_slave_config cfg)
  with step inv show ?thesis using slave_config_frame [of c cfg] by auto
next
  case (OP_submit_sg kz sgl sg_len)
  with step obtain x c1 where p: "fsl_edma_prep_slave_sg h kz c sgl sg_len = Inr (x, c1)"
    using submit_Inr by fastforce
  with step OP_submit_sg have "submit (Inr (x, c1)) io = Inr (io', c')" by simp
  from submit_frame [OF this] prep_slave_sg_frame [OF p] inv show ?thesis by simp
next
  case (OP_submit_cyclic kz a l p')
  with step obtain x c1 where p: "fsl_edma_prep_dma_cyclic h kz c a l p' = Inr (x, c1)"
    using submit_Inr by fastforce
  with step OP_submit_cyclic have "submit (Inr (x, c1)) io = Inr (io', c')" by simp
  from submit_frame [OF this] prep_dma_cyclic_frame [OF p] inv show ?thesis by simp
next
  case OP_issue_pending
  with step have "fsl_edma_issue_pending h edma io c = Inr (io', c')" by simp
  from issue_pending_cases [OF this] inv show ?thesis by auto
next
  case OP_pause
  with step have "c' = snd (snd (fsl_edma_pause edma io c))" by auto
  with pause_cases [of edma io c] inv show ?thesis by auto
next
  case OP_resume
  with step have "c' = snd (snd (fsl_edma_resume edma io c))" by auto
  with resume_cases [of edma io c] inv show ?thesis by auto
next
  case OP_terminate_all
  with step have "c' = snd (snd (fsl_edma_terminate_all edma io c))" by auto
  with terminate_all_edesc [of edma io c] show ?thesis by simp
next
  case OP_tx_irq
  with step have "fsl_edma_tx_chan h edma (chan_id (vchan c)) io c = Inr (io', c')" by simp
  from tx_chan_cases [OF this] inv show ?thesis by auto
next
  case OP_tx3_irq
  with step have "fsl_edma3_tx_chan h edma (chan_id (vchan c)) io c = Inr (io', c')" by simp
  from tx3_chan_cases [OF this] inv show ?thesis by auto
next
  case OP_err_irq
  with step have "c' = snd (fsl_edma_err_chan edma (chan_id (vchan c)) io c)" by auto
  with err_chan_status [of edma "chan_id (vchan c)" io c] show ?thesis by simp
next
  case OP_err3_irq
  with step have "c' = snd (fsl_edma3_err_chan edma (chan_id (vchan c)) io c)" by auto
  with err_chan_status [of edma "chan_id (vchan c)" io c] show ?thesis by simp
qed

text \<open>
  An in-progress or paused status implies a referenced descriptor: kept by every operation
  but \<^verbatim>\<open>fsl_edma_terminate_all\<close>.
\<close>

lemma chan_step_busy:
  assumes step: "chan_step h edma op (io, c) = Inr (io', c')"
    and nt: "op \<noteq> OP_terminate_all"
    and inv: "status c = DMA_IN_PROGRESS \<or> status c = DMA_PAUSED \<longrightarrow> edesc c \<noteq> None"
  shows "status c' = DMA_IN_PROGRESS \<or> status c' = DMA_PAUSED \<longrightarrow> edesc c' \<noteq> None"
proof (cases op)
  case (OP_slave_config cfg)
  with step inv show ?thesis using slave_config_frame [of c cfg] by auto
next
  case (OP_submit_sg kz sgl sg_len)
  with step obtain x c1 where p: "fsl_edma_prep_slave_sg h kz c sgl sg_len = Inr (x, c1)"
    using submit_Inr by fastforce
  with step OP_submit_sg have "submit (Inr (x, c1)) io = Inr (io', c')" by simp
  from submit_frame [OF this] prep_slave_sg_frame [OF p] inv show ?thesis by simp
next
  case (OP_submit_cyclic kz a l p')
  with step obtain x c1 where p: "fsl_edma_prep_dma_cyclic h kz c a l p' = Inr (x, c1)"
    using submit_Inr by fastforce
  with step OP_submit_cyclic have "submit (Inr (x, c1)) io = Inr (io', c')" by simp
  from submit_frame [OF this] prep_dma_cyclic_frame [OF p] inv show ?thesis by simp
next
  case OP_issue_pending
  with step have "fsl_edma_issue_pending h edma io c = Inr (io', c')" by simp
  from issue_pending_cases [OF this] inv show ?thesis by auto
next
  case OP_pause
  with step have "c' = snd (snd (fsl_edma_pause edma io c))" by auto
  with pause_cases [of edma io c] inv show ?thesis by auto
next
  case OP_resume
  with step have "c' = snd (snd (fsl_edma_resume edma io c))" by auto
  with resume_cases [of edma io c] inv show ?thesis by auto
next
  case OP_terminate_all
  with nt show ?thesis by simp
next
  case OP_tx_irq
  with step have "fsl_edma_tx_chan h edma (chan_id (vchan c)) io c = Inr (io', c')" by simp
  from tx_chan_cases [OF this] inv show ?thesis by auto
next
  case OP_tx3_irq
  with step have "fsl_edma3_tx_chan h edma (chan_id (vchan c)) io c = Inr (io', c')" by simp
  from tx3_chan_cases [OF this] inv show ?thesis by auto
next
  case OP_err_irq
  with step have "c' = snd (fsl_edma_err_chan edma (chan_id (vchan c)) io c)" by auto
  with err_chan_status [of edma "chan_id (vchan c)" io c] show ?thesis by simp
next
  case OP_err3_irq
  with step have "c' = snd (fsl_edma3_err_chan edma (chan_id (vchan c)) io c)" by auto
  with err_chan_status [of edma "chan_id (vchan c)" io c] show ?thesis by simp
qed

lemma chan_run_active:
  "chan_run h edma ops (io, c) = Inr (io', c') \<Longrightarrow>
   (edesc c \<noteq> None \<longrightarrow> status c \<noteq> DMA_COMPLETE) \<Longrightarrow>
   (edesc c' \<noteq> None \<longrightarrow> status c' \<noteq> DMA_COMPLETE)"
proof (induction ops arbitrary: io c)
  case Nil
  then show ?case by simp
next
  case (Cons op ops)
  from Cons.prems(1) obtain io1 c1 where
    s: "chan_step h edma op (io, c) = Inr (io1, c1)"
    and r: "chan_run h edma ops (io1, c1) = Inr (io', c')"
    by (auto split: sum.splits)
  from Cons.IH [OF r chan_step_active [OF s Cons.prems(2)]] show ?case .
qed

lemma chan_run_busy:
  "chan_run h edma ops (io, c) = Inr (io', c') \<Longrightarrow>
   OP_terminate_all \<notin> set ops \<Longrightarrow>
   (status c = DMA_IN_PROGRESS \<or> status c = DMA_PAUSED \<longrightarrow> edesc c \<noteq> None) \<Longrightarrow>
   (status c' = DMA_IN_PROGRESS \<or> status c' = DMA_PAUSED \<longrightarrow> edesc c' \<noteq> None)"
proof (induction ops arbitrary: io c)
  case Nil
  then show ?case by simp
next
  case (Cons op ops)
  from Cons.prems(1) obtain io1 c1 where
    s: "chan_step h edma op (io, c) = Inr (io1, c1)"
    and r: "chan_run h edma ops (io1, c1) = Inr (io', c')"
    by (auto split: sum.splits)
  from Cons.prems(2) have nt: "op \<noteq> OP_terminate_all" "OP_terminate_all \<notin> set ops" by auto
  from Cons.IH [OF r nt(2) chan_step_busy [OF s nt(1) Cons.prems(3)]] show ?case .
qed

lemma chan_run_append:
  "chan_run h edma (pre @ post) s =
     (case chan_run h edma pre s of Inl f \<Rightarrow> Inl f | Inr s' \<Rightarrow> chan_run h edma post s')"
  by (induction pre arbitrary: s) (auto split: sum.splits)

lemma slave_config_idle: "idle (snd (fsl_edma_slave_config c cfg)) = idle c"
  by (simp add: fsl_edma_slave_config_def Let_def)

lemma alloc_desc_idle: "fsl_edma_alloc_desc kz c n = (x, c') \<Longrightarrow> idle c' = idle c"
  by (auto simp add: fsl_edma_alloc_desc_def split: if_splits option.splits)

lemma prep_slave_sg_idle:
  "fsl_edma_prep_slave_sg h kz c sgl sg_len = Inr (x, c') \<Longrightarrow> idle c' = idle c"
  by (auto simp add: fsl_edma_prep_slave_sg_def Let_def
           split: if_splits prod.splits option.splits sum.splits dest: alloc_desc_idle)

lemma prep_dma_cyclic_idle:
  "fsl_edma_prep_dma_cyclic h kz c a l p = Inr (x, c') \<Longrightarrow> idle c' = idle c"
  by (auto simp add: fsl_edma_prep_dma_cyclic_def Let_def
           split: if_splits prod.splits option.splits dest: alloc_desc_idle)

lemma submit_idle: "submit (Inr (x, c)) io = Inr (io', c') \<Longrightarrow> idle c' = idle c"
  by (auto simp add: submit_def split: option.splits)

lemma xfer_desc_idle:
  "fsl_edma_xfer_desc h edma io c = Inr (io', c') \<Longrightarrow>
     (edesc c' = edesc c \<and> status c' = status c \<and> idle c' = idle c) \<or>
     (edesc c' \<noteq> None \<and> status c' = DMA_IN_PROGRESS)"
  by (auto simp add: fsl_edma_xfer_desc_def Let_def split: option.splits list.splits)

lemma issue_pending_idle:
  "fsl_edma_issue_pending h edma io c = Inr (io', c') \<Longrightarrow>
     (edesc c' = edesc c \<and> status c' = status c \<and> idle c' = idle c) \<or>
     (edesc c' \<noteq> None \<and> status c' = DMA_IN_PROGRESS)"
  by (auto simp add: fsl_edma_issue_pending_def Let_def
           split: if_splits prod.splits dest!: xfer_desc_idle)

lemma pause_idle:
  "(edesc (snd (snd (fsl_edma_pause edma io c))) = edesc c \<and>
    status (snd (snd (fsl_edma_pause edma io c))) = status c \<and>
    idle (snd (snd (fsl_edma_pause edma io c))) = idle c \<and> edesc c = None) \<or>
   (edesc (snd (snd (fsl_edma_pause edma io c))) \<noteq> None \<and>
    status (snd (snd (fsl_edma_pause edma io c))) = DMA_PAUSED)"
  by (simp add: fsl_edma_pause_def Let_def)

lemma resume_idle:
  "(edesc (snd (snd (fsl_edma_resume edma io c))) = edesc c \<and>
    status (snd (snd (fsl_edma_resume edma io c))) = status c \<and>
    idle (snd (snd (fsl_edma_resume edma io c))) = idle c \<and> edesc c = None) \<or>
   (edesc (snd (snd (fsl_edma_resume edma io c))) \<noteq> None \<and>
    status (snd (snd (fsl_edma_resume edma io c))) = DMA_IN_PROGRESS)"
  by (simp add: fsl_edma_resume_def Let_def)

lemma free_list_idle: "idle (fold fsl_edma_free_desc l c) = idle c"
  by (induction l arbitrary: c) (simp_all add: fsl_edma_free_desc_def)

lemma terminate_all_idle: "idle (snd (snd (fsl_edma_terminate_all edma io c)))"
  by (simp add: fsl_edma_terminate_all_def Let_def vchan_dma_desc_free_list_def
        free_list_idle split: prod.splits)

text \<open>
  An in-progress or paused status implies a referenced descriptor or an idle channel: kept
  by every operation, \<^verbatim>\<open>fsl_edma_terminate_all\<close> included.
\<close>

lemma chan_step_idle:
  assumes step: "chan_step h edma op (io, c) = Inr (io', c')"
    and inv: "status c = DMA_IN_PROGRESS \<or> status c = DMA_PAUSED \<longrightarrow> edesc c \<noteq> None \<or> idle c"
  shows "status c' = DMA_IN_PROGRESS \<or> status c' = DMA_PAUSED \<longrightarrow> edesc c' \<noteq> None \<or> idle c'"
proof (cases op)
  case (OP_slave_config cfg)
  with step inv show ?thesis
    using slave_config_frame [of c cfg] slave_config_idle [of c cfg] by auto
next
  case (OP_submit_sg kz sgl sg_len)
  with step obtain x c1 where p: "fsl_edma_prep_slave_sg h kz c sgl sg_len = Inr (x, c1)"
    using submit_Inr by fastforce
  with step OP_submit_sg have s: "submit (Inr (x, c1)) io = Inr (io', c')" by simp
  from submit_frame [OF s] submit_idle [OF s] prep_slave_sg_frame [OF p] prep_slave_sg_idle [OF p]
    inv show ?thesis by simp
next
  case (OP_submit_cyclic kz a l p')
  with step obtain x c1 where p: "fsl_edma_prep_dma_cyclic h kz c a l p' = Inr (x, c1)"
    using submit_Inr by fastforce
  with step OP_submit_cyclic have s: "submit (Inr (x, c1)) io = Inr (io', c')" by simp
  from submit_frame [OF s] submit_idle [OF s] prep_dma_cyclic_frame [OF p]
    prep_dma_cyclic_idle [OF p] inv show ?thesis by simp
next
  case OP_issue_pending
  with step have "fsl_edma_issue_pending h edma io c = Inr (io', c')" by simp
  from issue_pending_idle [OF this] inv show ?thesis by auto
next
  case OP_pause
  with step have "c' = snd (snd (fsl_edma_pause edma io c))" by auto
  with pause_idle [of edma io c] inv show ?thesis by auto
next
  case OP_resume
  with step have "c' = snd (snd (fsl_edma_resume edma io c))" by auto
  with resume_idle [of edma io c] inv show ?thesis by auto
next
  case OP_terminate_all
  with step have "c' = snd (snd (fsl_edma_terminate_all edma io c))" by auto
  with terminate_all_idle [of edma io c] show ?thesis by simp
next
  case OP_tx_irq
  with step have "fsl_edma_tx_chan h edma (chan_id (vchan c)) io c = Inr (io', c')" by simp
  from tx_chan_cases [OF this] inv show ?thesis by auto
next
  case OP_tx3_irq
  with step have "fsl_edma3_tx_chan h edma (chan_id (vchan c)) io c = Inr (io', c')" by simp
  from tx3_chan_cases [OF this] inv show ?thesis by auto
next
  case OP_err_irq
  with step have "c' = snd (fsl_edma_err_chan edma (chan_id (vchan c)) io c)" by auto
  with err_chan_status [of edma "chan_id (vchan c)" io c] show ?thesis by simp
next
  case OP_err3_irq
  with step have "c' = snd (fsl_edma3_err_chan edma (chan_id (vchan c)) io c)" by auto
  with err_chan_status [of edma "chan_id (vchan c)" io c] show ?thesis by simp
qed

text \<open>
  A referenced descriptor implies the status in-progress or paused: kept by every operation
  but the two error interrupts.
\<close>

lemma chan_step_running:
  assumes step: "chan_step h edma op (io, c) = Inr (io', c')"
    and ne: "op \<noteq> OP_err_irq" "op \<noteq> OP_err3_irq"
    and inv: "edesc c \<noteq> None \<longrightarrow> status c = DMA_IN_PROGRESS \<or> status c = DMA_PAUSED"
  shows "edesc c' \<noteq> None \<longrightarrow> status c' = DMA_IN_PROGRESS \<or> status c' = DMA_PAUSED"
proof (cases op)
  case (OP_slave_config cfg)
  with step inv show ?thesis using slave_config_frame [of c cfg] by auto
next
  case (OP_submit_sg kz sgl sg_len)
  with step obtain x c1 where p: "fsl_edma_prep_slave_sg h kz c sgl sg_len = Inr (x, c1)"
    using submit_Inr by fastforce
  with step OP_submit_sg have "submit (Inr (x, c1)) io = Inr (io', c')" by simp
  from submit_frame [OF this] prep_slave_sg_frame [OF p] inv show ?thesis by simp
next
  case (OP_submit_cyclic kz a l p')
  with step obtain x c1 where p: "fsl_edma_prep_dma_cyclic h kz c a l p' = Inr (x, c1)"
    using submit_Inr by fastforce
  with step OP_submit_cyclic have "submit (Inr (x, c1)) io = Inr (io', c')" by simp
  from submit_frame [OF this] prep_dma_cyclic_frame [OF p] inv show ?thesis by simp
next
  case OP_issue_pending
  with step have "fsl_edma_issue_pending h edma io c = Inr (io', c')" by simp
  from issue_pending_cases [OF this] inv show ?thesis by auto
next
  case OP_pause
  with step have "c' = snd (snd (fsl_edma_pause edma io c))" by auto
  with pause_cases [of edma io c] inv show ?thesis by auto
next
  case OP_resume
  with step have "c' = snd (snd (fsl_edma_resume edma io c))" by auto
  with resume_cases [of edma io c] inv show ?thesis by auto
next
  case OP_terminate_all
  with step have "c' = snd (snd (fsl_edma_terminate_all edma io c))" by auto
  with terminate_all_edesc [of edma io c] show ?thesis by simp
next
  case OP_tx_irq
  with step have "fsl_edma_tx_chan h edma (chan_id (vchan c)) io c = Inr (io', c')" by simp
  from tx_chan_cases [OF this] inv show ?thesis by auto
next
  case OP_tx3_irq
  with step have "fsl_edma3_tx_chan h edma (chan_id (vchan c)) io c = Inr (io', c')" by simp
  from tx3_chan_cases [OF this] inv show ?thesis by auto
next
  case OP_err_irq
  with ne show ?thesis by simp
next
  case OP_err3_irq
  with ne show ?thesis by simp
qed

lemma chan_run_idle:
  "chan_run h edma ops (io, c) = Inr (io', c') \<Longrightarrow>
   (status c = DMA_IN_PROGRESS \<or> status c = DMA_PAUSED \<longrightarrow> edesc c \<noteq> None \<or> idle c) \<Longrightarrow>
   (status c' = DMA_IN_PROGRESS \<or> status c' = DMA_PAUSED \<longrightarrow> edesc c' \<noteq> None \<or> idle c')"
proof (induction ops arbitrary: io c)
  case Nil
  then show ?case by simp
next
  case (Cons op ops)
  from Cons.prems(1) obtain io1 c1 where
    s: "chan_step h edma op (io, c) = Inr (io1, c1)"
    and r: "chan_run h edma ops (io1, c1) = Inr (io', c')"
    by (auto split: sum.splits)
  from Cons.IH [OF r chan_step_idle [OF s Cons.prems(2)]] show ?case .
qed

lemma chan_run_running:
  "chan_run h edma ops (io, c) = Inr (io', c') \<Longrightarrow>
   OP_err_irq \<notin> set ops \<Longrightarrow> OP_err3_irq \<notin> set ops \<Longrightarrow>
   (edesc c \<noteq> None \<longrightarrow> status c = DMA_IN_PROGRESS \<or> status c = DMA_PAUSED) \<Longrightarrow>
   (edesc c' \<noteq> None \<longrightarrow> status c' = DMA_IN_PROGRESS \<or> status c' = DMA_PAUSED)"
proof (induction ops arbitrary: io c)
  case Nil
  then show ?case by simp
next
  case (Cons op ops)
  from Cons.prems(1) obtain io1 c1 where
    s: "chan_step h edma op (io, c) = Inr (io1, c1)"
    and r: "chan_run h edma ops (io1, c1) = Inr (io', c')"
    by (auto split: sum.splits)
  from Cons.prems(2,3) have ne: "op \<noteq> OP_err_irq" "op \<noteq> OP_err3_irq"
    "OP_err_irq \<notin> set ops" "OP_err3_irq \<notin> set ops" by auto
  from Cons.IH [OF r ne(3,4) chan_step_running [OF s ne(1,2) Cons.prems(4)]] show ?case .
qed

text \<open>
  Claim C5 as stated fails in both directions. \<^verbatim>\<open>fsl_edma_terminate_all\<close> clears
  \<^verbatim>\<open>edesc\<close> and leaves the status alone: a terminated transfer leaves a null reference with
  the status in-progress. The error handler sets the status to error and keeps the
  reference.
\<close>

theorem chan_run_edesc_status_counterexample:
  "(case chan_run CPU_LITTLE_ENDIAN ex_edma
           [OP_slave_config ex_cfg, OP_submit_sg True ex_sgl 2, OP_issue_pending, OP_terminate_all]
           (ex_io, ex_chan) of
      Inr (io, c) \<Rightarrow> edesc c = None \<and> status c = DMA_IN_PROGRESS
    | Inl f \<Rightarrow> False) \<and>
   (case chan_run CPU_LITTLE_ENDIAN ex_edma
           [OP_slave_config ex_cfg, OP_submit_sg True ex_sgl 2, OP_issue_pending, OP_err_irq]
           (ex_io, ex_chan) of
      Inr (io, c) \<Rightarrow> edesc c \<noteq> None \<and> status c = DMA_ERROR
    | Inl f \<Rightarrow> False)"
  by code_simp

text \<open>
  Claim C5, amended: after every sequence of operations on a channel as probed
  (configure, submit, issue, pause, resume, terminate, completion and error interrupts of
  either generation), a non-null active-transfer reference implies that the status is
  in-progress, paused or error, and a status of in-progress or paused implies a non-null
  reference or an idle channel. The two exceptions to the equivalence last no longer than
  what causes them. A null reference with the status in-progress or paused is the state a
  terminate leaves: if at some point of the history in-progress or paused implies a non-null
  reference (as it does at probe, and whenever a transfer is active) and no terminate
  follows, it does so at the end; in particular it does when the history has no terminate.
  A non-null reference with the status error is the state an error interrupt leaves: if at
  some point a non-null reference implies in-progress or paused and no error interrupt
  follows, it does so at the end. The channel has one reference, so at most one transfer is
  active.
\<close>

theorem chan_run_edesc_status:
  assumes whole: "chan_run h edma (pre @ post) (io, fsl_edma_chan_probe i pool) = Inr (io', c)"
    and before: "chan_run h edma pre (io, fsl_edma_chan_probe i pool) = Inr (io1, c1)"
  shows "(edesc c \<noteq> None \<longrightarrow> status c \<in> {DMA_IN_PROGRESS, DMA_PAUSED, DMA_ERROR}) \<and>
         (status c \<in> {DMA_IN_PROGRESS, DMA_PAUSED} \<longrightarrow> edesc c \<noteq> None \<or> idle c) \<and>
         (OP_terminate_all \<notin> set (pre @ post) \<longrightarrow>
            (status c \<in> {DMA_IN_PROGRESS, DMA_PAUSED} \<longrightarrow> edesc c \<noteq> None)) \<and>
         (OP_terminate_all \<notin> set post \<and>
          (status c1 \<in> {DMA_IN_PROGRESS, DMA_PAUSED} \<longrightarrow> edesc c1 \<noteq> None) \<longrightarrow>
            (status c \<in> {DMA_IN_PROGRESS, DMA_PAUSED} \<longrightarrow> edesc c \<noteq> None)) \<and>
         (OP_err_irq \<notin> set post \<and> OP_err3_irq \<notin> set post \<and>
          (edesc c1 \<noteq> None \<longrightarrow> status c1 \<in> {DMA_IN_PROGRESS, DMA_PAUSED}) \<longrightarrow>
            (edesc c \<noteq> None \<longrightarrow> status c \<in> {DMA_IN_PROGRESS, DMA_PAUSED}))"
proof -
  from whole before have after: "chan_run h edma post (io1, c1) = Inr (io', c)"
    by (simp add: chan_run_append)
  have a: "edesc c \<noteq> None \<longrightarrow> status c \<noteq> DMA_COMPLETE"
    using chan_run_active [OF whole] by (simp add: fsl_edma_chan_probe_def)
  from a have A: "edesc c \<noteq> None \<longrightarrow> status c \<in> {DMA_IN_PROGRESS, DMA_PAUSED, DMA_ERROR}"
    by (cases "status c") auto
  have B: "status c \<in> {DMA_IN_PROGRESS, DMA_PAUSED} \<longrightarrow> edesc c \<noteq> None \<or> idle c"
    using chan_run_idle [OF whole] by (simp add: fsl_edma_chan_probe_def)
  have E: "status c \<in> {DMA_IN_PROGRESS, DMA_PAUSED} \<longrightarrow> edesc c \<noteq> None"
    if "OP_terminate_all \<notin> set (pre @ post)"
    using chan_run_busy [OF whole that] by (simp add: fsl_edma_chan_probe_def)
  have C: "status c \<in> {DMA_IN_PROGRESS, DMA_PAUSED} \<longrightarrow> edesc c \<noteq> None"
    if "OP_terminate_all \<notin> set post"
      and "status c1 \<in> {DMA_IN_PROGRESS, DMA_PAUSED} \<longrightarrow> edesc c1 \<noteq> None"
    using chan_run_busy [OF after that(1)] that(2) by simp
  have D: "edesc c \<noteq> None \<longrightarrow> status c \<in> {DMA_IN_PROGRESS, DMA_PAUSED}"
    if "OP_err_irq \<notin> set post" "OP_err3_irq \<notin> set post"
      and "edesc c1 \<noteq> None \<longrightarrow> status c1 \<in> {DMA_IN_PROGRESS, DMA_PAUSED}"
    using chan_run_running [OF after that(1,2)] that(3) by simp
  from A B E C D show ?thesis by blast
qed

lemma run_cases2:
  "(case r of Inr (io, c) \<Rightarrow> P io c | Inl f \<Rightarrow> False) \<Longrightarrow> \<exists>io c. r = Inr (io, c) \<and> P io c"
  by (auto split: sum.splits)

text \<open>
  The scenario of the spec terminated, submitted and issued again, then paused: the second
  descriptor is referenced when the pause arrives, and the paused channel holds it.
\<close>

theorem chan_run_edesc_status_witness:
  "\<exists>io1 c1 io c.
     chan_run CPU_LITTLE_ENDIAN ex_edma
       [OP_slave_config ex_cfg, OP_submit_sg True ex_sgl 2, OP_issue_pending, OP_terminate_all,
        OP_submit_sg True ex_sgl 2, OP_issue_pending]
       (ex_io, fsl_edma_chan_probe 0 ex_pool) = Inr (io1, c1) \<and>
     chan_run CPU_LITTLE_ENDIAN ex_edma
       ([OP_slave_config ex_cfg, OP_submit_sg True ex_sgl 2, OP_issue_pending, OP_terminate_all,
         OP_submit_sg True ex_sgl 2, OP_issue_pending] @ [OP_pause])
       (ex_io, fsl_edma_chan_probe 0 ex_pool) = Inr (io, c) \<and>
     OP_terminate_all \<notin> set [OP_pause] \<and> OP_err_irq \<notin> set [OP_pause] \<and>
     OP_err3_irq \<notin> set [OP_pause] \<and>
     edesc c1 \<noteq> None \<and> status c1 = DMA_IN_PROGRESS \<and>
     status c = DMA_PAUSED \<and> edesc c \<noteq> None \<and>
     status c \<in> {DMA_IN_PROGRESS, DMA_PAUSED, DMA_ERROR}"
proof -
  have "case chan_run CPU_LITTLE_ENDIAN ex_edma
       [OP_slave_config ex_cfg, OP_submit_sg True ex_sgl 2, OP_issue_pending, OP_terminate_all,
        OP_submit_sg True ex_sgl 2, OP_issue_pending]
       (ex_io, fsl_edma_chan_probe 0 ex_pool) of
          Inr (io1, c1) \<Rightarrow> edesc c1 \<noteq> None \<and> status c1 = DMA_IN_PROGRESS | Inl f \<Rightarrow> False"
    by code_simp
  from run_cases2 [OF this] obtain io1 c1 where
    before: "chan_run CPU_LITTLE_ENDIAN ex_edma
       [OP_slave_config ex_cfg, OP_submit_sg True ex_sgl 2, OP_issue_pending, OP_terminate_all,
        OP_submit_sg True ex_sgl 2, OP_issue_pending]
       (ex_io, fsl_edma_chan_probe 0 ex_pool) = Inr (io1, c1)"
    and c1: "edesc c1 \<noteq> None" "status c1 = DMA_IN_PROGRESS"
    by blast
  have "case chan_run CPU_LITTLE_ENDIAN ex_edma
       ([OP_slave_config ex_cfg, OP_submit_sg True ex_sgl 2, OP_issue_pending, OP_terminate_all,
         OP_submit_sg True ex_sgl 2, OP_issue_pending] @ [OP_pause])
       (ex_io, fsl_edma_chan_probe 0 ex_pool) of
          Inr (io, c) \<Rightarrow> status c = DMA_PAUSED | Inl f \<Rightarrow> False"
    by code_simp
  from run_cases2 [OF this] obtain io c where
    whole: "chan_run CPU_LITTLE_ENDIAN ex_edma
       ([OP_slave_config ex_cfg, OP_submit_sg True ex_sgl 2, OP_issue_pending, OP_terminate_all,
         OP_submit_sg True ex_sgl 2, OP_issue_pending] @ [OP_pause])
       (ex_io, fsl_edma_chan_probe 0 ex_pool) = Inr (io, c)"
    and st: "status c = DMA_PAUSED"
    by blast
  have nt: "OP_terminate_all \<notin> set [OP_pause]" "OP_err_irq \<notin> set [OP_pause]"
    "OP_err3_irq \<notin> set [OP_pause]" by simp_all
  from chan_run_edesc_status [OF whole before] nt c1 st have "edesc c \<noteq> None" by simp
  with before whole nt c1 st show ?thesis by (intro exI [of _ io1] exI [of _ c1] exI [of _ io] exI [of _ c]) simp
qed


section \<open>The residue of a queued descriptor\<close>

lemma fsl_edma_desc_residue_vdesc_unused:
  "fsl_edma_desc_residue h edma io fsl_chan vdesc in_progress
     = fsl_edma_desc_residue h edma io fsl_chan vdesc' in_progress"
  by (simp add: fsl_edma_desc_residue_def)

lemma fsl_edma_desc_residue_not_in_progress:
  "edesc fsl_chan = Some ed \<Longrightarrow> \<not> iscyclic ed \<Longrightarrow>
     fsl_edma_desc_residue h edma io fsl_chan vdesc False
       = Inr (residue_total h (take (unat (n_tcds ed)) (tcd ed)) 0)"
  by (simp add: fsl_edma_desc_residue_def Let_def)

lemma fsl_edma_desc_residue_in_progress:
  "edesc fsl_chan = Some ed \<Longrightarrow> \<not> iscyclic ed \<Longrightarrow>
     fsl_edma_desc_residue h edma io fsl_chan vdesc True
       = Inr (residue_scan h (dir (fsc fsl_chan))
                (if dir (fsc fsl_chan) = DMA_MEM_TO_DEV
                 then ucast (edma_readl edma io
                        (hw_tcd_saddr (edma_get_tcd_addr (soc_ops (socdata edma)) edma fsl_chan)))
                 else ucast (edma_readl edma io
                        (hw_tcd_daddr (edma_get_tcd_addr (soc_ops (socdata edma)) edma fsl_chan))))
                (take (unat (n_tcds ed)) (tcd ed))
                (residue_total h (take (unat (n_tcds ed)) (tcd ed)) 0))"
  by (simp add: fsl_edma_desc_residue_def Let_def)

text \<open>
  Claim C7 holds of the descriptor the channel is running and fails for the descriptor that
  is queried: \<^verbatim>\<open>fsl_edma_desc_residue\<close> never reads its parameter \<^verbatim>\<open>vdesc\<close>. With a
  transfer of two segments of 64 bytes running (cookie 1) and a transfer of one segment of
  32 bytes queued behind it (cookie 2), the queued descriptor is not cyclic, the sum over
  its entries is 32, and both \<^verbatim>\<open>fsl_edma_desc_residue\<close> and \<^verbatim>\<open>fsl_edma_tx_status\<close> answer
  128, the size of the running one.
\<close>

theorem fsl_edma_desc_residue_queued:
  "(case chan_run CPU_LITTLE_ENDIAN ex_edma
           [OP_slave_config ex_cfg, OP_submit_sg True ex_sgl 2, OP_submit_sg True ex_sgl_short 1,
            OP_issue_pending]
           (ex_io_saddr, ex_chan) of
      Inr (io, c) \<Rightarrow>
        (case vchan_find_desc (vchan c) 2 of
           Some vd \<Rightarrow>
             \<not> iscyclic vd \<and>
             residue_total CPU_LITTLE_ENDIAN (take (unat (n_tcds vd)) (tcd vd)) 0 = 32 \<and>
             fsl_edma_desc_residue CPU_LITTLE_ENDIAN ex_edma io c (Some vd) False = Inr 128 \<and>
             fsl_edma_tx_status CPU_LITTLE_ENDIAN ex_edma io c 2 (Some ex_txstate)
               = Inr (DMA_IN_PROGRESS, Some \<lparr>last = 0, used = 2, residue = 128\<rparr>)
         | None \<Rightarrow> False)
    | Inl f \<Rightarrow> False)"
  by code_simp

section \<open>A completion interrupt with no active descriptor\<close>

lemma fsl_edma_tx_chan_null:
  "edesc fsl_chan = None \<Longrightarrow> fsl_edma_tx_chan h edma ch io fsl_chan = Inl NULL_DEREF"
  by (simp add: fsl_edma_tx_chan_def Let_def)

lemma fsl_edma3_tx_chan_null:
  "edesc fsl_chan = None \<Longrightarrow> fsl_edma3_tx_chan h edma ch io fsl_chan = Inl NULL_DEREF"
  by (simp add: fsl_edma3_tx_chan_def Let_def)

text \<open>
  Claim C1 fails on the code: the loop of \<^verbatim>\<open>fsl_edma_tx_handler\<close> reads
  \<^verbatim>\<open>fsl_chan->edesc->iscyclic\<close> with no check of \<^verbatim>\<open>edesc\<close>. The scenario of the spec is
  issued on channel 0 and terminated, which leaves \<^verbatim>\<open>edesc\<close> null; the completion
  interrupt of channel 0 is still pending. The handler reads through the null pointer.
\<close>

theorem fsl_edma_tx_handler_after_terminate:
  "(case chan_run CPU_LITTLE_ENDIAN ex_edma
           [OP_slave_config ex_cfg, OP_submit_sg True ex_sgl 2, OP_issue_pending, OP_terminate_all]
           (ex_io_intr, ex_chan) of
      Inr (io, c) \<Rightarrow>
        edesc c = None \<and>
        edma_readl (ex_engine c) io (membase (ex_engine c) + EDMA_INTR) = 1 \<and>
        (case fsl_edma_tx_handler CPU_LITTLE_ENDIAN (ex_engine c) io of
           Inl f \<Rightarrow> f = NULL_DEREF
         | Inr r \<Rightarrow> False)
    | Inl f \<Rightarrow> False)"
  by code_simp


end
